theory Spec2Isabelle
  imports Main "HOL-Library.Word"
begin

unbundle bit_operations_syntax

text \<open>
  A shallow embedding of the terminal core of devcon (drivers/devcon/page.c and
  drivers/devcon/parser.c): characters, cells, lines, pages and histories, the UTF-8
  helpers and the control-sequence parser.
\<close>

type_synonym u8 = "8 word"
type_synonym u32 = "32 word"
type_synonym u64 = "64 word"

section \<open>Kernel memory\<close>

text \<open>
  The storage behind an allocated \<open>devcon_char\<close> (\<open>struct devcon_character\<close>): the count
  \<open>n\<close> (here \<open>ch_n\<close>) and the array \<open>codepoints\<close>, which has \<open>n + 1\<close> slots.
\<close>

record devcon_character =
  ch_n :: u8
  codepoints :: "u32 list"

text \<open>
  The part of the kernel heap the model keeps: the \<open>devcon_character\<close> objects by
  address, and the pointers the allocator will return next, in order (0 is NULL, a
  failed allocation; when the list is used up, every allocation fails). Lines, cell
  arrays and line-pointer arrays have one owner each and are modelled by value; of their
  allocation only success or failure is kept.
\<close>

record kmem =
  objs :: "u64 \<Rightarrow> devcon_character option"
  pending :: "u64 list"

definition kmalloc :: "kmem \<Rightarrow> u64 \<times> kmem" where
  "kmalloc m = (case pending m of [] \<Rightarrow> (0, m) | p # ps \<Rightarrow> (p, m\<lparr>pending := ps\<rparr>))"

definition kfree :: "u64 \<Rightarrow> kmem \<Rightarrow> kmem" where
  "kfree p m = m\<lparr>objs := (objs m)(p := None)\<rparr>"

definition ENOMEM :: int where "ENOMEM = 12"

section \<open>Characters (page.c)\<close>

text \<open>
  \<open>struct devcon_char\<close> wraps a single \<open>u64\<close>; the model uses the \<open>u64\<close> itself.
\<close>

type_synonym devcon_char = u64

definition DEVCON_CHAR_NULL :: devcon_char where "DEVCON_CHAR_NULL = 0"

definition DEVCON_CHAR_UCS4_MAX :: u32 where "DEVCON_CHAR_UCS4_MAX = 0x10ffff"
definition DEVCON_CHAR_UCS4_MASK :: u32 where "DEVCON_CHAR_UCS4_MASK = 0x1fffff"
definition DEVCON_CHAR_UCS4_REPLACEMENT :: u32 where "DEVCON_CHAR_UCS4_REPLACEMENT = 0xfffd"

definition devcon_char_is_null :: "devcon_char \<Rightarrow> bool" where
  "devcon_char_is_null ch \<longleftrightarrow> ch = 0"

definition devcon_char_is_allocated :: "devcon_char \<Rightarrow> bool" where
  "devcon_char_is_allocated ch \<longleftrightarrow> \<not> devcon_char_is_null ch \<and> ch AND 0x1 = 0"

definition devcon_char_same :: "devcon_char \<Rightarrow> devcon_char \<Rightarrow> bool" where
  "devcon_char_same a b \<longleftrightarrow> a = b"

definition devcon_char_pack :: "u32 \<Rightarrow> u32 \<Rightarrow> u32 \<Rightarrow> devcon_char" where
  "devcon_char_pack v1 v2 v3 =
     (let u1 = ucast v1 :: u64; u2 = ucast v2 :: u64; u3 = ucast v3 :: u64;
          packed0 = 0x01;
          packed1 = packed0 OR push_bit 43 (u1 AND ucast DEVCON_CHAR_UCS4_MASK);
          packed2 = packed1 OR push_bit 22 (u2 AND ucast DEVCON_CHAR_UCS4_MASK);
          packed3 = packed2 OR push_bit 1 (u3 AND ucast DEVCON_CHAR_UCS4_MASK)
      in packed3)"

definition devcon_char_pack3 :: "u32 \<Rightarrow> u32 \<Rightarrow> u32 \<Rightarrow> devcon_char" where
  "devcon_char_pack3 v1 v2 v3 = devcon_char_pack v1 v2 v3"

definition devcon_char_pack2 :: "u32 \<Rightarrow> u32 \<Rightarrow> devcon_char" where
  "devcon_char_pack2 v1 v2 = devcon_char_pack3 v1 v2 (DEVCON_CHAR_UCS4_MAX + 1)"

definition devcon_char_pack1 :: "u32 \<Rightarrow> devcon_char" where
  "devcon_char_pack1 v1 = devcon_char_pack2 v1 (DEVCON_CHAR_UCS4_MAX + 1)"

text \<open>\<open>devcon_char_unpack\<close>: the number of packed characters and the three slots.\<close>

definition devcon_char_unpack :: "devcon_char \<Rightarrow> u8 \<times> u32 \<times> u32 \<times> u32" where
  "devcon_char_unpack packed =
     (let v1 = ucast (drop_bit 43 packed AND ucast DEVCON_CHAR_UCS4_MASK) :: u32;
          v2 = ucast (drop_bit 22 packed AND ucast DEVCON_CHAR_UCS4_MASK) :: u32;
          v3 = ucast (drop_bit 1 packed AND ucast DEVCON_CHAR_UCS4_MASK) :: u32
      in ((if DEVCON_CHAR_UCS4_MAX < v1 then 0
           else if DEVCON_CHAR_UCS4_MAX < v2 then 1
           else if DEVCON_CHAR_UCS4_MAX < v3 then 2
           else 3), v1, v2, v3))"

text \<open>
  \<open>devcon_char_alloc(n)\<close>: NULL (0) when the allocation fails or the pointer is odd;
  otherwise the object has \<open>n\<close> stored and slot \<open>n\<close> of its \<open>n + 1\<close> slots zeroed. Fresh
  memory is modelled as zero; every slot is written by the caller before it is read.
\<close>

definition devcon_char_alloc :: "u8 \<Rightarrow> kmem \<Rightarrow> u64 \<times> kmem" where
  "devcon_char_alloc k m =
     (let (c, m1) = kmalloc m in
      if c = 0 then (0, m1)
      else if c AND 1 \<noteq> 0 then (0, kfree c m1)
      else (c, m1\<lparr>objs := (objs m1)(c \<mapsto>
              \<lparr>ch_n = k, codepoints = (replicate (Suc (unat k)) 0)[unat k := 0]\<rparr>)\<rparr>))"

definition devcon_char_free :: "devcon_char \<Rightarrow> kmem \<Rightarrow> kmem" where
  "devcon_char_free ch m = (if devcon_char_is_allocated ch then kfree ch m else m)"

text \<open>The soft limit \<open>climit\<close> of \<open>devcon_char_build\<close>.\<close>

definition climit :: nat where "climit = 64"

text \<open>
  The tail of \<open>devcon_char_build\<close> that allocates a new character: \<open>t\<close> is the array the
  old code points are copied from, \<open>k\<close> their number.
\<close>

definition char_build_alloc ::
  "devcon_char \<Rightarrow> u32 list \<Rightarrow> u8 \<Rightarrow> u32 \<Rightarrow> kmem \<Rightarrow> devcon_char \<times> kmem" where
  "char_build_alloc base t k append_ucs4 m =
     (if climit \<le> unat k then (base, m)
      else
        (let (c, m1) = devcon_char_alloc (k + 1) m in
         if c = 0 then (base, m1)
         else
           (let copy = (\<lambda>obj. obj\<lparr>codepoints :=
                          (take (unat k) t @ drop (unat k) (codepoints obj))
                            [unat k := append_ucs4]\<rparr>)
            in (c, m1\<lparr>objs := (objs m1)(c := map_option copy (objs m1 c))\<rparr>))))"

text \<open>
  \<open>devcon_char_build(base, append_ucs4)\<close>. The result is \<open>None\<close> when \<open>base\<close> is an
  allocated character whose storage is not in the heap (the source would read freed
  memory).
\<close>

definition devcon_char_build ::
  "devcon_char \<Rightarrow> u32 \<Rightarrow> kmem \<Rightarrow> (devcon_char \<times> kmem) option" where
  "devcon_char_build base append_ucs4 m =
     (if DEVCON_CHAR_UCS4_MAX < append_ucs4 then Some (base, m)
      else if devcon_char_is_null base then Some (devcon_char_pack1 append_ucs4, m)
      else if \<not> devcon_char_is_allocated base then
        (let (k, b0, b1, b2) = devcon_char_unpack base in
         if k = 0 then Some (devcon_char_pack1 append_ucs4, m)
         else if k = 1 then
           (if climit < 2 then Some (base, m)
            else Some (devcon_char_pack2 b0 append_ucs4, m))
         else if k = 2 then
           (if climit < 3 then Some (base, m)
            else Some (devcon_char_pack3 b0 b1 append_ucs4, m))
         else Some (char_build_alloc base [b0, b1, b2] k append_ucs4 m))
      else
        (case objs m base of
           None \<Rightarrow> None
         | Some c \<Rightarrow> Some (char_build_alloc base (codepoints c) (ch_n c) append_ucs4 m)))"

definition devcon_char_set ::
  "devcon_char \<Rightarrow> u32 \<Rightarrow> kmem \<Rightarrow> (devcon_char \<times> kmem) option" where
  "devcon_char_set previous append_ucs4 m =
     devcon_char_build DEVCON_CHAR_NULL append_ucs4 (devcon_char_free previous m)"

definition devcon_char_merge ::
  "devcon_char \<Rightarrow> u32 \<Rightarrow> kmem \<Rightarrow> (devcon_char \<times> kmem) option" where
  "devcon_char_merge base append_ucs4 m =
     (case devcon_char_build base append_ucs4 m of
        None \<Rightarrow> None
      | Some (ch, m1) \<Rightarrow>
          Some (ch, if \<not> devcon_char_same ch base then devcon_char_free base m1 else m1))"

text \<open>
  \<open>devcon_char_resolve(ch, s, b)\<close>: the contents of the returned buffer and the length
  stored in \<open>s\<close>. \<open>b\<close> is the contents of the caller's \<open>devcon_charbuf\<close> (four slots)
  before the call; for an allocated character the character's own array is returned.
  \<open>None\<close> when the storage of an allocated character is not in the heap.
\<close>

definition devcon_char_resolve ::
  "devcon_char \<Rightarrow> u32 list \<Rightarrow> kmem \<Rightarrow> (u32 list \<times> u64) option" where
  "devcon_char_resolve ch b m =
     (if devcon_char_is_null ch then Some (b[0 := 0], 0)
      else if devcon_char_is_allocated ch then
        (case objs m ch of
           None \<Rightarrow> None
         | Some c \<Rightarrow> Some (codepoints c, ucast (ch_n c)))
      else
        (let (len, v1, v2, v3) = devcon_char_unpack ch;
             cache = b[0 := v1, 1 := v2, 2 := v3]
         in Some (cache[unat len := 0], ucast len)))"

text \<open>Merging a list of code points, one \<open>devcon_char_merge\<close> call each.\<close>

fun char_merge_all ::
  "devcon_char \<Rightarrow> u32 list \<Rightarrow> kmem \<Rightarrow> (devcon_char \<times> kmem) option" where
  "char_merge_all ch [] m = Some (ch, m)"
| "char_merge_all ch (c # cs) m =
     (case devcon_char_merge ch c m of
        None \<Rightarrow> None
      | Some (ch1, m1) \<Rightarrow> char_merge_all ch1 cs m1)"

text \<open>
  The code points a character stands for, read off its representation: none for the
  null character, the one to three slots of a packed character, and the stored array
  of an allocated one (with its terminating zero in slot \<open>n\<close>).
\<close>

definition char_holds :: "kmem \<Rightarrow> devcon_char \<Rightarrow> u32 list \<Rightarrow> bool" where
  "char_holds m ch cps \<longleftrightarrow>
     list_all (\<lambda>c. c \<le> DEVCON_CHAR_UCS4_MAX) cps \<and>
     (if length cps = 0 then ch = DEVCON_CHAR_NULL
      else if length cps = 1 then ch = devcon_char_pack1 (cps ! 0)
      else if length cps = 2 then ch = devcon_char_pack2 (cps ! 0) (cps ! 1)
      else if length cps = 3 then ch = devcon_char_pack3 (cps ! 0) (cps ! 1) (cps ! 2)
      else ch \<noteq> 0 \<and> ch AND 1 = 0 \<and> length cps \<le> climit \<and>
           objs m ch = Some \<lparr>ch_n = of_nat (length cps), codepoints = cps @ [0]\<rparr>)"

text \<open>An allocator whose next \<open>k\<close> allocations all succeed with aligned pointers.\<close>

definition allocs_ok :: "nat \<Rightarrow> kmem \<Rightarrow> bool" where
  "allocs_ok k m \<longleftrightarrow>
     k \<le> length (pending m) \<and> list_all (\<lambda>p. p \<noteq> 0 \<and> p AND 1 = 0) (take k (pending m))"

text \<open>
  A concrete run: the base \<open>a\<close> and the 64 combining marks U+0300 to U+033F, with an
  allocator that hands out 64 distinct aligned addresses.
\<close>

definition marks64 :: "u32 list" where
  "marks64 =
    [0x300, 0x301, 0x302, 0x303, 0x304, 0x305, 0x306, 0x307, 0x308, 0x309, 0x30A,
     0x30B, 0x30C, 0x30D, 0x30E, 0x30F, 0x310, 0x311, 0x312, 0x313, 0x314, 0x315,
     0x316, 0x317, 0x318, 0x319, 0x31A, 0x31B, 0x31C, 0x31D, 0x31E, 0x31F, 0x320,
     0x321, 0x322, 0x323, 0x324, 0x325, 0x326, 0x327, 0x328, 0x329, 0x32A, 0x32B,
     0x32C, 0x32D, 0x32E, 0x32F, 0x330, 0x331, 0x332, 0x333, 0x334, 0x335, 0x336,
     0x337, 0x338, 0x339, 0x33A, 0x33B, 0x33C, 0x33D, 0x33E, 0x33F]"

definition kmem64 :: kmem where
  "kmem64 =
     \<lparr>objs = (\<lambda>_. None),
      pending =
        [0x1000, 0x1200, 0x1400, 0x1600, 0x1800, 0x1A00, 0x1C00, 0x1E00, 0x2000, 0x2200,
         0x2400, 0x2600, 0x2800, 0x2A00, 0x2C00, 0x2E00, 0x3000, 0x3200, 0x3400, 0x3600,
         0x3800, 0x3A00, 0x3C00, 0x3E00, 0x4000, 0x4200, 0x4400, 0x4600, 0x4800, 0x4A00,
         0x4C00, 0x4E00, 0x5000, 0x5200, 0x5400, 0x5600, 0x5800, 0x5A00, 0x5C00, 0x5E00,
         0x6000, 0x6200, 0x6400, 0x6600, 0x6800, 0x6A00, 0x6C00, 0x6E00, 0x7000, 0x7200,
         0x7400, 0x7600, 0x7800, 0x7A00, 0x7C00, 0x7E00, 0x8000, 0x8200, 0x8400, 0x8600,
         0x8800, 0x8A00, 0x8C00, 0x8E00]\<rparr>"

text \<open>
  What a run of merges leaves: the character, and the length \<open>devcon_char_resolve\<close>
  reports for it.
\<close>

definition merged_char :: "devcon_char \<Rightarrow> u32 list \<Rightarrow> kmem \<Rightarrow> devcon_char option" where
  "merged_char c as m = map_option fst (char_merge_all c as m)"

definition merged_length :: "devcon_char \<Rightarrow> u32 list \<Rightarrow> kmem \<Rightarrow> u64 option" where
  "merged_length c as m =
     (case char_merge_all c as m of
        None \<Rightarrow> None
      | Some (c', m') \<Rightarrow> map_option snd (devcon_char_resolve c' [0, 0, 0, 0] m'))"

section \<open>Attributes and cells (page.h, page.c)\<close>

text \<open>
  \<open>struct devcon_color\<close>: the field \<open>red\<close> shares its storage with \<open>c256\<close>.
\<close>

record devcon_color =
  ccode :: u8
  red :: u8
  green :: u8
  blue :: u8

record devcon_attr =
  fg :: devcon_color
  bg :: devcon_color
  bold :: bool
  italic :: bool
  underline :: bool
  a_inverse :: bool
  protect :: bool
  blink :: bool
  hidden :: bool

text \<open>The zeroed attributes, which are the default ones.\<close>

definition devcon_attr_zero :: devcon_attr where
  "devcon_attr_zero =
     \<lparr>fg = \<lparr>ccode = 0, red = 0, green = 0, blue = 0\<rparr>,
      bg = \<lparr>ccode = 0, red = 0, green = 0, blue = 0\<rparr>,
      bold = False, italic = False, underline = False, a_inverse = False,
      protect = False, blink = False, hidden = False\<rparr>"

definition DEVCON_AGE_NULL :: u64 where "DEVCON_AGE_NULL = 0"

record devcon_cell =
  ch :: devcon_char
  c_age :: u64
  attr :: devcon_attr
  cwidth :: u32

definition devcon_cell_zero :: devcon_cell where
  "devcon_cell_zero = \<lparr>ch = 0, c_age = 0, attr = devcon_attr_zero, cwidth = 0\<rparr>"

text \<open>An attribute pointer is \<open>None\<close> for NULL, which stands for the zeroed attributes.\<close>

definition attr_or_zero :: "devcon_attr option \<Rightarrow> devcon_attr" where
  "attr_or_zero a = (case a of None \<Rightarrow> devcon_attr_zero | Some x \<Rightarrow> x)"

definition devcon_cell_init ::
  "devcon_cell \<Rightarrow> devcon_char \<Rightarrow> u32 \<Rightarrow> devcon_attr option \<Rightarrow> u64 \<Rightarrow> devcon_cell" where
  "devcon_cell_init cell c w a g =
     cell\<lparr>ch := c, cwidth := w, c_age := g, attr := attr_or_zero a\<rparr>"

definition devcon_cell_destroy :: "devcon_cell \<Rightarrow> kmem \<Rightarrow> kmem" where
  "devcon_cell_destroy cell m = devcon_char_free (ch cell) m"

definition devcon_cell_set ::
  "devcon_cell \<Rightarrow> devcon_char \<Rightarrow> u32 \<Rightarrow> devcon_attr option \<Rightarrow> u64 \<Rightarrow> kmem \<Rightarrow>
   devcon_cell \<times> kmem" where
  "devcon_cell_set cell c w a g m =
     (let (cell1, m1) =
            (if \<not> devcon_char_same c (ch cell)
             then (cell\<lparr>ch := c\<rparr>, devcon_char_free (ch cell) m)
             else (cell, m))
      in (cell1\<lparr>cwidth := w, c_age := g, attr := attr_or_zero a\<rparr>, m1))"

definition devcon_cell_append ::
  "devcon_cell \<Rightarrow> u32 \<Rightarrow> u64 \<Rightarrow> kmem \<Rightarrow> (devcon_cell \<times> kmem) option" where
  "devcon_cell_append cell ucs4 g m =
     (case devcon_char_merge (ch cell) ucs4 m of
        None \<Rightarrow> None
      | Some (c, m1) \<Rightarrow> Some (cell\<lparr>ch := c, c_age := g\<rparr>, m1))"

text \<open>
  The array variants take the cell array, the index of the first cell (the pointer
  \<open>cells\<close> of the source is \<open>array + index\<close>) and the count \<open>n\<close>, and run the source's
  loop \<open>for ( ; n > 0; --n, ++cells)\<close>.
\<close>

fun devcon_cell_init_n ::
  "devcon_cell list \<Rightarrow> nat \<Rightarrow> nat \<Rightarrow> devcon_attr option \<Rightarrow> u64 \<Rightarrow> devcon_cell list" where
  "devcon_cell_init_n cs i 0 a g = cs"
| "devcon_cell_init_n cs i (Suc k) a g =
     devcon_cell_init_n (cs[i := devcon_cell_init (cs ! i) DEVCON_CHAR_NULL 0 a g]) (Suc i) k a g"

fun devcon_cell_destroy_n :: "devcon_cell list \<Rightarrow> nat \<Rightarrow> nat \<Rightarrow> kmem \<Rightarrow> kmem" where
  "devcon_cell_destroy_n cs i 0 m = m"
| "devcon_cell_destroy_n cs i (Suc k) m =
     devcon_cell_destroy_n cs (Suc i) k (devcon_cell_destroy (cs ! i) m)"

fun devcon_cell_clear_n ::
  "devcon_cell list \<Rightarrow> nat \<Rightarrow> nat \<Rightarrow> devcon_attr option \<Rightarrow> u64 \<Rightarrow> kmem \<Rightarrow>
   devcon_cell list \<times> kmem" where
  "devcon_cell_clear_n cs i 0 a g m = (cs, m)"
| "devcon_cell_clear_n cs i (Suc k) a g m =
     (let (c, m1) = devcon_cell_set (cs ! i) DEVCON_CHAR_NULL 0 a g m
      in devcon_cell_clear_n (cs[i := c]) (Suc i) k a g m1)"

section \<open>Lines (page.c)\<close>

text \<open>
  \<open>struct devcon_line\<close> without its list linkage (a history holds its lines as a list).
  \<open>cells\<close> is the contents of the cell array, which has \<open>n_cells\<close> elements; the
  functions below index it as the source does, and every index they use is below
  \<open>n_cells\<close> when \<open>width \<le> n_cells\<close>.
\<close>

record devcon_line =
  l_width :: u32
  n_cells :: u32
  cells :: "devcon_cell list"
  l_age :: u64
  fill :: u32

text \<open>The zeroed line \<open>devcon_line_new\<close> allocates; the result is \<open>-ENOMEM\<close> when \<open>kzalloc\<close> fails.\<close>

definition devcon_line_zero :: devcon_line where
  "devcon_line_zero = \<lparr>l_width = 0, n_cells = 0, cells = [], l_age = 0, fill = 0\<rparr>"

definition devcon_line_new :: "kmem \<Rightarrow> int \<times> devcon_line option \<times> kmem" where
  "devcon_line_new m =
     (let (p, m1) = kmalloc m in
      if p = 0 then (- ENOMEM, None, m1) else (0, Some devcon_line_zero, m1))"

definition devcon_line_free :: "devcon_line \<Rightarrow> kmem \<Rightarrow> kmem" where
  "devcon_line_free line m = devcon_cell_destroy_n (cells line) 0 (unat (n_cells line)) m"

text \<open>
  \<open>devcon_line_reserve\<close>. The size check \<open>width > SIZE_MAX / sizeof(*t)\<close> cannot fail for
  a 32-bit \<open>width\<close> and a 64-bit \<open>size_t\<close>, which is what the model assumes. The cells
  \<open>krealloc\<close> adds are taken as zero before they are initialised.
\<close>

definition devcon_line_reserve ::
  "devcon_line \<Rightarrow> u32 \<Rightarrow> devcon_attr option \<Rightarrow> u64 \<Rightarrow> u32 \<Rightarrow> kmem \<Rightarrow>
   int \<times> devcon_line \<times> kmem" where
  "devcon_line_reserve line width a g protect_width m =
     (let min_width = min (n_cells line) width;
          (cs1, m1) =
            (if protect_width < min_width
             then devcon_cell_clear_n (cells line) (unat protect_width)
                    (unat (min_width - protect_width)) a g m
             else (cells line, m));
          line1 = line\<lparr>cells := cs1\<rparr>
      in
      if n_cells line1 < width then
        (let (t, m2) = kmalloc m1 in
         if t = 0 then (- ENOMEM, line1, m2)
         else
           (let grown = cells line1 @
                          replicate (unat (width - n_cells line1)) devcon_cell_zero;
                cs2 = (if a = None \<and> g = 0 then grown
                       else devcon_cell_init_n grown (unat (n_cells line1))
                              (unat (width - n_cells line1)) a g);
                line2 = line1\<lparr>cells := cs2, n_cells := width\<rparr>
            in (0, line2\<lparr>fill := min (fill line2) protect_width\<rparr>, m2)))
      else (0, line1\<lparr>fill := min (fill line1) protect_width\<rparr>, m1))"

definition devcon_line_set_width :: "devcon_line \<Rightarrow> u32 \<Rightarrow> devcon_line" where
  "devcon_line_set_width line width0 =
     (let width = (if n_cells line < width0 then n_cells line else width0)
      in line\<lparr>l_width := width, fill := min (fill line) width\<rparr>)"

text \<open>The loops \<open>for (i = 0; i < move; ++i) line->cells[off + i].age = age\<close>.\<close>

fun set_age_n :: "devcon_cell list \<Rightarrow> nat \<Rightarrow> nat \<Rightarrow> u64 \<Rightarrow> devcon_cell list" where
  "set_age_n cs i 0 g = cs"
| "set_age_n cs i (Suc k) g = set_age_n (cs[i := (cs ! i)\<lparr>c_age := g\<rparr>]) (Suc i) k g"

text \<open>
  \<open>memmove(cells + dst, cells + src, sizeof(*cells) * k)\<close> on the cell array.
\<close>

definition memmove_cells :: "devcon_cell list \<Rightarrow> nat \<Rightarrow> nat \<Rightarrow> nat \<Rightarrow> devcon_cell list" where
  "memmove_cells cs dst src k = take dst cs @ take k (drop src cs) @ drop (dst + k) cs"

definition devcon_line_place ::
  "devcon_line \<Rightarrow> u32 \<Rightarrow> u32 \<Rightarrow> devcon_char \<Rightarrow> u32 \<Rightarrow> devcon_attr option \<Rightarrow> u64 \<Rightarrow> kmem \<Rightarrow>
   devcon_line \<times> kmem" where
  "devcon_line_place line from num0 head_char head_cwidth a g m =
     (if l_width line \<le> from then (line, m)
      else
        (let num = (if from + num0 < from \<or> l_width line < from + num0
                    then l_width line - from else num0)
         in
         if num = 0 then (line, m)
         else
           (let move = l_width line - from - num;
                rem = min num move
            in
            if 0 < rem then
              (let m1 = devcon_cell_destroy_n (cells line)
                          (unat (l_width line - rem)) (unat rem) m;
                   cs1 = memmove_cells (cells line) (unat (from + num)) (unat from) (unat move);
                   cs2 = set_age_n cs1 (unat (from + num)) (unat move) g;
                   cs3 = cs2[unat from :=
                           devcon_cell_init (cs2 ! unat from) head_char head_cwidth a g];
                   cs4 = devcon_cell_init_n cs3 (unat (from + 1)) (unat (num - 1)) a g
               in (line\<lparr>cells := cs4,
                         fill := min (l_width line) (max (fill line + num) (from + num))\<rparr>,
                   m1))
            else
              (let (c, m1) = devcon_cell_set (cells line ! unat from)
                               head_char head_cwidth a g m;
                   cs1 = (cells line)[unat from := c];
                   (cs2, m2) = devcon_cell_clear_n cs1 (unat (from + 1)) (unat (num - 1)) a g m1
               in (line\<lparr>cells := cs2, fill := l_width line\<rparr>, m2)))))"

definition devcon_line_write ::
  "devcon_line \<Rightarrow> u32 \<Rightarrow> devcon_char \<Rightarrow> u32 \<Rightarrow> devcon_attr option \<Rightarrow> u64 \<Rightarrow> bool \<Rightarrow> kmem \<Rightarrow>
   devcon_line \<times> kmem" where
  "devcon_line_write line pos_x c w a g insert_mode m =
     (if l_width line \<le> pos_x then (line, m)
      else
        (let len0 = max 1 w;
             len = (if pos_x + len0 < pos_x \<or> l_width line < pos_x + len0
                    then l_width line - pos_x else len0)
         in
         if len = 0 then (line, m)
         else if insert_mode then devcon_line_place line pos_x len c w a g m
         else
           (let (c1, m1) = devcon_cell_set (cells line ! unat pos_x) c w a g m;
                cs1 = (cells line)[unat pos_x := c1];
                (cs2, m2) = devcon_cell_clear_n cs1 (unat (pos_x + 1)) (unat (len - 1)) a g m1
            in (line\<lparr>cells := cs2,
                      fill := min (l_width line) (max (fill line) (pos_x + len))\<rparr>,
                m2))))"

definition devcon_line_insert ::
  "devcon_line \<Rightarrow> u32 \<Rightarrow> u32 \<Rightarrow> devcon_attr option \<Rightarrow> u64 \<Rightarrow> kmem \<Rightarrow> devcon_line \<times> kmem" where
  "devcon_line_insert line from num a g m =
     devcon_line_place line from num DEVCON_CHAR_NULL 0 a g m"

definition devcon_line_delete ::
  "devcon_line \<Rightarrow> u32 \<Rightarrow> u32 \<Rightarrow> devcon_attr option \<Rightarrow> u64 \<Rightarrow> kmem \<Rightarrow> devcon_line \<times> kmem" where
  "devcon_line_delete line from num0 a g m =
     (if l_width line \<le> from then (line, m)
      else
        (let num = (if from + num0 < from \<or> l_width line < from + num0
                    then l_width line - from else num0)
         in
         if num = 0 then (line, m)
         else
           (let move = l_width line - from - num;
                rem = min num move;
                (cs, m') =
                  (if 0 < rem then
                     (let m1 = devcon_cell_destroy_n (cells line) (unat from) (unat rem) m;
                          cs1 = memmove_cells (cells line) (unat from) (unat (from + num))
                                  (unat move);
                          cs2 = set_age_n cs1 (unat from) (unat move) g;
                          cs3 = devcon_cell_init_n cs2 (unat (l_width line - rem)) (unat rem) a g
                      in if move < num
                         then devcon_cell_clear_n cs3 (unat (from + move))
                                (unat (num - move)) a g m1
                         else (cs3, m1))
                   else devcon_cell_clear_n (cells line) (unat from) (unat num) a g m);
                line1 = line\<lparr>cells := cs\<rparr>
            in
            (if from + num < fill line1 then line1\<lparr>fill := fill line1 - num\<rparr>
             else if from < fill line1 then line1\<lparr>fill := from\<rparr>
             else line1,
             m'))))"

definition devcon_line_append ::
  "devcon_line \<Rightarrow> u32 \<Rightarrow> u32 \<Rightarrow> u64 \<Rightarrow> kmem \<Rightarrow> (devcon_line \<times> kmem) option" where
  "devcon_line_append line pos_x ucs4 g m =
     (if l_width line \<le> pos_x then Some (line, m)
      else
        (case devcon_cell_append (cells line ! unat pos_x) ucs4 g m of
           None \<Rightarrow> None
         | Some (c, m1) \<Rightarrow> Some (line\<lparr>cells := (cells line)[unat pos_x := c]\<rparr>, m1)))"

text \<open>
  The loop of \<open>devcon_line_erase\<close> from \<open>i\<close> on, for \<open>k\<close> more cells: the cells, the
  running \<open>last_protected\<close> and the memory.
\<close>

fun erase_loop ::
  "devcon_line \<Rightarrow> u32 \<Rightarrow> devcon_attr option \<Rightarrow> u64 \<Rightarrow> bool \<Rightarrow> u32 \<Rightarrow> nat \<Rightarrow>
   devcon_cell list \<Rightarrow> u32 \<Rightarrow> kmem \<Rightarrow> devcon_cell list \<times> u32 \<times> kmem" where
  "erase_loop line from a g keep_protected i 0 cs last_protected m = (cs, last_protected, m)"
| "erase_loop line from a g keep_protected i (Suc k) cs last_protected m =
     (let cell = cs ! unat (from + i) in
      if keep_protected \<and> protect (attr cell) then
        erase_loop line from a g keep_protected (i + 1) k cs
          (if from + i < fill line then from + i else last_protected) m
      else
        (let (c, m1) = devcon_cell_set cell DEVCON_CHAR_NULL 0 a g m
         in erase_loop line from a g keep_protected (i + 1) k
              (cs[unat (from + i) := c]) last_protected m1))"

definition devcon_line_erase ::
  "devcon_line \<Rightarrow> u32 \<Rightarrow> u32 \<Rightarrow> devcon_attr option \<Rightarrow> u64 \<Rightarrow> bool \<Rightarrow> kmem \<Rightarrow>
   devcon_line \<times> kmem" where
  "devcon_line_erase line from num0 a g keep_protected m =
     (if l_width line \<le> from then (line, m)
      else
        (let num = (if from + num0 < from \<or> l_width line < from + num0
                    then l_width line - from else num0)
         in
         if num = 0 then (line, m)
         else
           (let (cs, last_protected, m1) =
                  erase_loop line from a g keep_protected 0 (unat num) (cells line) 0 m;
                line1 = line\<lparr>cells := cs\<rparr>
            in
            (if from < fill line1 \<and> fill line1 \<le> from + num
             then line1\<lparr>fill := max from last_protected\<rparr>
             else line1,
             m1))))"

definition devcon_line_reset ::
  "devcon_line \<Rightarrow> devcon_attr option \<Rightarrow> u64 \<Rightarrow> kmem \<Rightarrow> devcon_line \<times> kmem" where
  "devcon_line_reset line a g m = devcon_line_erase line 0 (l_width line) a g False m"

text \<open>The line operations as data, to run sequences of them.\<close>

datatype line_op =
    Reserve u32 "devcon_attr option" u64 u32
  | Set_Width u32
  | Write u32 devcon_char u32 "devcon_attr option" u64 bool
  | Place u32 u32 devcon_char u32 "devcon_attr option" u64
  | Insert u32 u32 "devcon_attr option" u64
  | Delete u32 u32 "devcon_attr option" u64
  | Erase u32 u32 "devcon_attr option" u64 bool
  | Reset "devcon_attr option" u64
  | Append u32 u32 u64

fun line_apply :: "line_op \<Rightarrow> devcon_line \<times> kmem \<Rightarrow> (devcon_line \<times> kmem) option" where
  "line_apply (Reserve w a g pw) (l, m) =
     (let (ret, l1, m1) = devcon_line_reserve l w a g pw m in Some (l1, m1))"
| "line_apply (Set_Width w) (l, m) = Some (devcon_line_set_width l w, m)"
| "line_apply (Write x c w a g ins) (l, m) = Some (devcon_line_write l x c w a g ins m)"
| "line_apply (Place x k c w a g) (l, m) = Some (devcon_line_place l x k c w a g m)"
| "line_apply (Insert x k a g) (l, m) = Some (devcon_line_insert l x k a g m)"
| "line_apply (Delete x k a g) (l, m) = Some (devcon_line_delete l x k a g m)"
| "line_apply (Erase x k a g kp) (l, m) = Some (devcon_line_erase l x k a g kp m)"
| "line_apply (Reset a g) (l, m) = Some (devcon_line_reset l a g m)"
| "line_apply (Append x c g) (l, m) = devcon_line_append l x c g m"

fun line_apply_all :: "line_op list \<Rightarrow> devcon_line \<times> kmem \<Rightarrow> (devcon_line \<times> kmem) option" where
  "line_apply_all [] s = Some s"
| "line_apply_all (op # ops) s =
     (case line_apply op s of None \<Rightarrow> None | Some s1 \<Rightarrow> line_apply_all ops s1)"

text \<open>The bounds of a line: \<open>fill \<le> width \<le> n_cells\<close>, with \<open>n_cells\<close> cells in the array.\<close>

definition line_bounds :: "devcon_line \<Rightarrow> bool" where
  "line_bounds l \<longleftrightarrow>
     fill l \<le> l_width l \<and> l_width l \<le> n_cells l \<and> length (cells l) = unat (n_cells l)"

text \<open>
  Concrete inputs used below: a memory in which every allocation fails, a cell holding
  one character (protected or not), the line \<open>ABCDE\<close> of width 5 whose cell 2 is
  protected, and a blank line of width 5.
\<close>

definition kmem_empty :: kmem where
  "kmem_empty = \<lparr>objs = (\<lambda>_. None), pending = []\<rparr>"

definition cell_char :: "u32 \<Rightarrow> bool \<Rightarrow> devcon_cell" where
  "cell_char c p =
     \<lparr>ch = devcon_char_pack1 c, c_age = 0, attr = devcon_attr_zero\<lparr>protect := p\<rparr>, cwidth = 1\<rparr>"

definition line_ABCDE :: devcon_line where
  "line_ABCDE =
     \<lparr>l_width = 5, n_cells = 5,
      cells = [cell_char 0x41 False, cell_char 0x42 False, cell_char 0x43 True,
               cell_char 0x44 False, cell_char 0x45 False],
      l_age = 0, fill = 5\<rparr>"

definition line_blank5 :: devcon_line where
  "line_blank5 =
     \<lparr>l_width = 5, n_cells = 5,
      cells = [devcon_cell_zero, devcon_cell_zero, devcon_cell_zero, devcon_cell_zero,
               devcon_cell_zero],
      l_age = 0, fill = 0\<rparr>"

section \<open>Histories (page.c)\<close>

text \<open>
  \<open>struct devcon_history\<close>: the linked list of lines from its head (oldest line) to its
  tail (the line pushed last), and the two counters.
\<close>

record devcon_history =
  h_lines :: "devcon_line list"
  h_n_lines :: u32
  max_lines :: u32

definition devcon_history_push ::
  "devcon_history \<Rightarrow> devcon_line \<Rightarrow> kmem \<Rightarrow> devcon_history \<times> kmem" where
  "devcon_history_push history line m =
     (let linked = h_lines history @ [line] in
      if max_lines history \<le> h_n_lines history
      then (history\<lparr>h_lines := tl linked\<rparr>, devcon_line_free (hd linked) m)
      else (history\<lparr>h_lines := linked, h_n_lines := h_n_lines history + 1\<rparr>, m))"

text \<open>
  \<open>devcon_history_pop\<close>: the returned line (\<open>None\<close> for NULL), the history and the memory.
  The reservation works on the tail line in place, also when it fails.
\<close>

definition devcon_history_pop ::
  "devcon_history \<Rightarrow> u32 \<Rightarrow> devcon_attr option \<Rightarrow> u64 \<Rightarrow> kmem \<Rightarrow>
   devcon_line option \<times> devcon_history \<times> kmem" where
  "devcon_history_pop history new_width a g m =
     (if h_lines history = [] then (None, history, m)
      else
        (let line = last (h_lines history);
             (ret, line1, m1) = devcon_line_reserve line new_width a g (l_width line) m
         in
         if ret < 0
         then (None, history\<lparr>h_lines := butlast (h_lines history) @ [line1]\<rparr>, m1)
         else (Some (devcon_line_set_width line1 new_width),
               history\<lparr>h_lines := butlast (h_lines history),
                        h_n_lines := h_n_lines history - 1\<rparr>,
               m1)))"

text \<open>The reservation \<open>devcon_history_pop\<close> performs on the tail line of a history.\<close>

definition pop_reserve ::
  "devcon_history \<Rightarrow> u32 \<Rightarrow> devcon_attr option \<Rightarrow> u64 \<Rightarrow> kmem \<Rightarrow> int \<times> devcon_line \<times> kmem" where
  "pop_reserve history new_width a g m =
     devcon_line_reserve (last (h_lines history)) new_width a g
       (l_width (last (h_lines history))) m"

text \<open>
  Concrete inputs used below: an empty history, and a history whose only line is
  \<open>ABCDE\<close> narrowed to width 3 (its cells 3 and 4 are allocated but not visible).
\<close>

definition history_empty :: devcon_history where
  "history_empty = \<lparr>h_lines = [], h_n_lines = 0, max_lines = 4096\<rparr>"

definition history_ABC :: devcon_history where
  "history_ABC =
     \<lparr>h_lines = [line_ABCDE\<lparr>l_width := 3, fill := 3\<rparr>], h_n_lines = 1, max_lines = 4096\<rparr>"

section \<open>Pages (page.c)\<close>

text \<open>
  \<open>struct devcon_page\<close>. \<open>lines\<close> holds the lines the array of line pointers points to,
  each line being owned by one slot. The scratch array \<open>line_cache\<close> is local to the
  scroll functions below.
\<close>

record devcon_page =
  p_age :: u64
  lines :: "devcon_line list"
  n_lines :: u32
  p_width :: u32
  height :: u32
  scroll_idx :: u32
  scroll_num :: u32
  scroll_fill :: u32

definition EAGAIN :: int where "EAGAIN = 11"

text \<open>
  One round of the first loop of \<open>devcon_page_up\<close>, for the line \<open>line\<close> of the scroll
  region: the cache entry (a fresh line, or the old line after a reset), the history and
  the memory.
\<close>

definition page_up_line ::
  "devcon_page \<Rightarrow> u32 \<Rightarrow> devcon_attr option \<Rightarrow> u64 \<Rightarrow> devcon_line \<Rightarrow>
   devcon_history option \<Rightarrow> kmem \<Rightarrow> devcon_line \<times> devcon_history option \<times> kmem" where
  "page_up_line page new_width a g line history m =
     (let (ret, fresh, m') =
            (case history of
               None \<Rightarrow> (- EAGAIN, None, m)
             | Some _ \<Rightarrow>
                 (let (ret1, c, m1) = devcon_line_new m in
                  case c of
                    None \<Rightarrow> (ret1, None, m1)
                  | Some c0 \<Rightarrow>
                      (let (ret2, c1, m2) = devcon_line_reserve c0 new_width a g 0 m1 in
                       if ret2 < 0 then (ret2, None, devcon_line_free c1 m2)
                       else (ret2, Some (devcon_line_set_width c1 (p_width page)), m2))))
      in
      case (history, fresh) of
        (Some h, Some c) \<Rightarrow>
          (if 0 \<le> ret
           then (let (h1, m1) = devcon_history_push h line m' in (c, Some h1, m1))
           else (let (l1, m1) = devcon_line_reset line a g m' in (l1, history, m1)))
      | _ \<Rightarrow> (let (l1, m1) = devcon_line_reset line a g m' in (l1, history, m1)))"

fun page_up_loop ::
  "devcon_page \<Rightarrow> u32 \<Rightarrow> devcon_attr option \<Rightarrow> u64 \<Rightarrow> devcon_line list \<Rightarrow>
   devcon_history option \<Rightarrow> kmem \<Rightarrow> devcon_line list \<times> devcon_history option \<times> kmem" where
  "page_up_loop page new_width a g [] history m = ([], history, m)"
| "page_up_loop page new_width a g (line # ls) history m =
     (let (c, h1, m1) = page_up_line page new_width a g line history m;
          (cs, h2, m2) = page_up_loop page new_width a g ls h1 m1
      in (c # cs, h2, m2))"

text \<open>The loops \<open>page->lines[...]->age = age\<close> over the moved lines.\<close>

definition set_line_ages :: "devcon_line list \<Rightarrow> u64 \<Rightarrow> devcon_line list" where
  "set_line_ages ls g = map (\<lambda>l. l\<lparr>l_age := g\<rparr>) ls"

definition devcon_page_up ::
  "devcon_page \<Rightarrow> u32 \<Rightarrow> u32 \<Rightarrow> devcon_attr option \<Rightarrow> u64 \<Rightarrow> devcon_history option \<Rightarrow>
   kmem \<Rightarrow> devcon_page \<times> devcon_history option \<times> kmem" where
  "devcon_page_up page new_width0 num0 a g history m =
     (let num = (if scroll_num page < num0 then scroll_num page else num0) in
      if num < 1 then (page, history, m)
      else
        (let new_width = max new_width0 (p_width page);
             idx = unat (scroll_idx page);
             region = take (unat (scroll_num page)) (drop idx (lines page));
             (cache, h1, m1) = page_up_loop page new_width a g (take (unat num) region) history m;
             moved = (if num < scroll_num page
                      then set_line_ages (drop (unat num) region) g
                      else drop (unat num) region);
             ls = take idx (lines page) @ moved @ cache @
                  drop (idx + unat (scroll_num page)) (lines page)
         in (page\<lparr>lines := ls,
                   scroll_fill := scroll_fill page - min (scroll_fill page) num\<rparr>,
             h1, m1)))"

text \<open>
  One round of the first loop of \<open>devcon_page_down\<close>, for the line \<open>line\<close> at the bottom
  of the scroll region.
\<close>

definition page_down_line ::
  "u32 \<Rightarrow> devcon_attr option \<Rightarrow> u64 \<Rightarrow> devcon_line \<Rightarrow> devcon_history option \<Rightarrow> kmem \<Rightarrow>
   devcon_line \<times> devcon_history option \<times> kmem" where
  "page_down_line new_width a g line history m =
     (let (t, h1, m1) =
            (case history of
               None \<Rightarrow> (None, None, m)
             | Some h \<Rightarrow>
                 (let (t0, h0, m0) = devcon_history_pop h new_width a g m
                  in (t0, Some h0, m0)))
      in
      case t of
        Some popped \<Rightarrow> (popped, h1, devcon_line_free line m1)
      | None \<Rightarrow> (let (l1, m2) = devcon_line_reset line a g m1 in (l1, h1, m2)))"

text \<open>
  The first loop of \<open>devcon_page_down\<close> over the lines it visits, bottom line first;
  the result is the cache, whose entry \<open>num - 1 - i\<close> belongs to round \<open>i\<close>.
\<close>

fun page_down_loop ::
  "u32 \<Rightarrow> devcon_attr option \<Rightarrow> u64 \<Rightarrow> devcon_line list \<Rightarrow> devcon_history option \<Rightarrow> kmem \<Rightarrow>
   devcon_line list \<times> devcon_history option \<times> kmem" where
  "page_down_loop new_width a g [] history m = ([], history, m)"
| "page_down_loop new_width a g (line # ls) history m =
     (let (c, h1, m1) = page_down_line new_width a g line history m;
          (cs, h2, m2) = page_down_loop new_width a g ls h1 m1
      in (cs @ [c], h2, m2))"

definition devcon_page_down ::
  "devcon_page \<Rightarrow> u32 \<Rightarrow> u32 \<Rightarrow> devcon_attr option \<Rightarrow> u64 \<Rightarrow> devcon_history option \<Rightarrow>
   kmem \<Rightarrow> devcon_page \<times> devcon_history option \<times> kmem" where
  "devcon_page_down page new_width0 num0 a g history m =
     (let num = (if scroll_num page < num0 then scroll_num page else num0) in
      if num < 1 then (page, history, m)
      else
        (let new_width = max new_width0 (p_width page);
             idx = unat (scroll_idx page);
             region = take (unat (scroll_num page)) (drop idx (lines page));
             keep = unat (scroll_num page) - unat num;
             (cache, h1, m1) =
               page_down_loop new_width a g (rev (drop keep region)) history m;
             moved = (if num < scroll_num page
                      then set_line_ages (take keep region) g
                      else take keep region);
             ls = take idx (lines page) @ cache @ moved @
                  drop (idx + unat (scroll_num page)) (lines page)
         in (page\<lparr>lines := ls,
                   scroll_fill := (if 0 < scroll_fill page
                                   then min (scroll_num page) (scroll_fill page + num)
                                   else scroll_fill page)\<rparr>,
             h1, m1)))"

definition devcon_page_scroll_up ::
  "devcon_page \<Rightarrow> u32 \<Rightarrow> devcon_attr option \<Rightarrow> u64 \<Rightarrow> devcon_history option \<Rightarrow> kmem \<Rightarrow>
   devcon_page \<times> devcon_history option \<times> kmem" where
  "devcon_page_scroll_up page num a g history m =
     devcon_page_up page (p_width page) num a g history m"

definition devcon_page_scroll_down ::
  "devcon_page \<Rightarrow> u32 \<Rightarrow> devcon_attr option \<Rightarrow> u64 \<Rightarrow> devcon_history option \<Rightarrow> kmem \<Rightarrow>
   devcon_page \<times> devcon_history option \<times> kmem" where
  "devcon_page_scroll_down page num a g history m =
     devcon_page_down page (p_width page) num a g history m"

text \<open>
  The invariants of a page that the scroll functions rely on: the line array has
  \<open>n_lines\<close> lines, the scroll region lies inside it, and each line of the scroll region
  is within its bounds and as wide as the page.
\<close>

definition page_wf :: "devcon_page \<Rightarrow> bool" where
  "page_wf page \<longleftrightarrow>
     length (lines page) = unat (n_lines page) \<and>
     unat (scroll_idx page) + unat (scroll_num page) \<le> unat (n_lines page) \<and>
     list_all (\<lambda>l. line_bounds l \<and> l_width l = p_width page)
       (take (unat (scroll_num page)) (drop (unat (scroll_idx page)) (lines page)))"

text \<open>
  A concrete page of three lines of width 5, all in the scroll region: \<open>ABCDE\<close> on top
  of two blank lines.
\<close>

definition page_demo :: devcon_page where
  "page_demo =
     \<lparr>p_age = 0, lines = [line_ABCDE, line_blank5, line_blank5], n_lines = 3,
      p_width = 5, height = 3, scroll_idx = 0, scroll_num = 3, scroll_fill = 1\<rparr>"

text \<open>Scrolling that page up by one line, with an empty history and the memory \<open>kmem64\<close>.\<close>

definition page_demo_up :: "devcon_page \<times> devcon_history option \<times> kmem" where
  "page_demo_up = devcon_page_scroll_up page_demo 1 None 1 (Some history_empty) kmem64"

section \<open>UTF-8 helpers (parser.c)\<close>

text \<open>
  \<open>struct devcon_utf8\<close>: the byte buffer \<open>chars[5]\<close>, the accumulator \<open>ucs4\<close>, and
  the bit-fields \<open>i_bytes : 3\<close>, \<open>n_bytes : 3\<close>, \<open>valid : 1\<close>.
\<close>

record devcon_utf8 =
  chars :: "u32 list"
  ucs4 :: u32
  i_bytes :: "3 word"
  n_bytes :: "3 word"
  valid :: bool

text \<open>A decoder state that was reset to all zero, as the documentation asks the caller to do.\<close>

definition devcon_utf8_zero :: devcon_utf8 where
  "devcon_utf8_zero =
     \<lparr>chars = replicate 5 0, ucs4 = 0, i_bytes = 0, n_bytes = 0, valid = False\<rparr>"

text \<open>
  The common tail of \<open>devcon_utf8_decode\<close>: return a completed sequence (valid or not) and
  reset the state, or return nothing while a valid sequence is still being parsed.
\<close>

definition utf8_decode_finish :: "devcon_utf8 \<Rightarrow> devcon_utf8 \<times> u32 list" where
  "utf8_decode_finish p =
     (if valid p then
        (if i_bytes p < n_bytes p then (p, [])
         else (p\<lparr>valid := False, i_bytes := 0, n_bytes := 0\<rparr>, [ucs4 p]))
      else
        (p\<lparr>valid := False, i_bytes := 0, n_bytes := 0\<rparr>, take (unat (i_bytes p)) (chars p)))"

text \<open>
  \<open>devcon_utf8_decode(p, out_buf, c)\<close> for a non-NULL \<open>p\<close>. The result is the new decoder
  state and the returned UCS-4 string (its length is the function's return value).
\<close>

definition devcon_utf8_decode :: "devcon_utf8 \<Rightarrow> u8 \<Rightarrow> devcon_utf8 \<times> u32 list" where
  "devcon_utf8_decode p byte =
     (if \<not> valid p \<or> n_bytes p \<le> i_bytes p then
        (let (t, n, v) =
               (if byte AND 0xE0 = 0xC0 then (ucast (byte AND 0x1F) :: u32, 2 :: 3 word, True)
                else if byte AND 0xF0 = 0xE0 then (ucast (byte AND 0x0F), 3, True)
                else if byte AND 0xF8 = 0xF0 then (ucast (byte AND 0x07), 4, True)
                else (ucast byte, 1, False));
             p1 = p\<lparr>n_bytes := n, i_bytes := 1, valid := v\<rparr>;
             p2 = p1\<lparr>chars := (chars p1)[0 := ucast byte]\<rparr>;
             p3 = p2\<lparr>ucs4 := push_bit (6 * (unat (n_bytes p2) - unat (i_bytes p2))) t\<rparr>
         in utf8_decode_finish p3)
      else if byte AND 0xC0 = 0x80 then
        (let t = ucast (byte AND 0x3F) :: u32;
             p1 = p\<lparr>chars := (chars p)[unat (i_bytes p) := ucast byte],
                     i_bytes := i_bytes p + 1\<rparr>;
             p2 = p1\<lparr>ucs4 := ucs4 p1 OR
                       push_bit (6 * (unat (n_bytes p1) - unat (i_bytes p1))) t\<rparr>
         in utf8_decode_finish p2)
      else if byte AND 0xE0 = 0xC0 \<or> byte AND 0xF0 = 0xE0 \<or> byte AND 0xF8 = 0xF0 then
        (let len = unat (i_bytes p);
             old = take len (chars p);
             moved = take 1 (chars p) @ old @ drop (Suc len) (chars p);
             (t, n) =
               (if byte AND 0xE0 = 0xC0 then (ucast (byte AND 0x1F) :: u32, 2 :: 3 word)
                else if byte AND 0xF0 = 0xE0 then (ucast (byte AND 0x0F), 3)
                else (ucast (byte AND 0x07), 4));
             p1 = p\<lparr>chars := moved, n_bytes := n, i_bytes := 1, valid := True\<rparr>;
             p2 = p1\<lparr>chars := (chars p1)[0 := ucast byte]\<rparr>;
             p3 = p2\<lparr>ucs4 := push_bit (6 * (unat (n_bytes p2) - unat (i_bytes p2))) t\<rparr>
         in (p3, old))
      else
        (let p1 = p\<lparr>chars := (chars p)[unat (i_bytes p) := ucast byte],
                     i_bytes := i_bytes p + 1, valid := False\<rparr>
         in utf8_decode_finish p1))"

text \<open>
  \<open>devcon_utf8_encode(out_utf8, g)\<close>: the bytes written to \<open>out_utf8\<close>; the length of the
  list is the function's return value (0 for values of 22 bits and more).
\<close>

definition devcon_utf8_encode :: "u32 \<Rightarrow> u8 list" where
  "devcon_utf8_encode g =
     (if g < 2 ^ 7 then [ucast (g AND 0x7f)]
      else if g < 2 ^ 11 then
        [ucast (0xc0 OR (drop_bit 6 g AND 0x1f)),
         ucast (0x80 OR (g AND 0x3f))]
      else if g < 2 ^ 16 then
        [ucast (0xe0 OR (drop_bit 12 g AND 0x0f)),
         ucast (0x80 OR (drop_bit 6 g AND 0x3f)),
         ucast (0x80 OR (g AND 0x3f))]
      else if g < 2 ^ 21 then
        [ucast (0xf0 OR (drop_bit 18 g AND 0x07)),
         ucast (0x80 OR (drop_bit 12 g AND 0x3f)),
         ucast (0x80 OR (drop_bit 6 g AND 0x3f)),
         ucast (0x80 OR (g AND 0x3f))]
      else [])"

text \<open>Feeding a byte string to the decoder, one call per byte, keeping each call's output.\<close>

fun utf8_decode_bytes :: "devcon_utf8 \<Rightarrow> u8 list \<Rightarrow> u32 list list" where
  "utf8_decode_bytes p [] = []"
| "utf8_decode_bytes p (b # bs) =
     (let (p', out) = devcon_utf8_decode p b in out # utf8_decode_bytes p' bs)"

section \<open>Sequences and commands (parser.h)\<close>

datatype seq_type =
    DEVCON_SEQ_NONE
  | DEVCON_SEQ_IGNORE
  | DEVCON_SEQ_GRAPHIC
  | DEVCON_SEQ_CONTROL
  | DEVCON_SEQ_ESCAPE
  | DEVCON_SEQ_CSI
  | DEVCON_SEQ_DCS
  | DEVCON_SEQ_OSC

text \<open>The intermediate flags: bit \<open>ch - 0x20\<close> for the character \<open>ch\<close>.\<close>

definition DEVCON_SEQ_FLAG_SPACE :: u32 where "DEVCON_SEQ_FLAG_SPACE = 0x00000001"
definition DEVCON_SEQ_FLAG_BANG :: u32 where "DEVCON_SEQ_FLAG_BANG = 0x00000002"
definition DEVCON_SEQ_FLAG_DQUOTE :: u32 where "DEVCON_SEQ_FLAG_DQUOTE = 0x00000004"
definition DEVCON_SEQ_FLAG_HASH :: u32 where "DEVCON_SEQ_FLAG_HASH = 0x00000008"
definition DEVCON_SEQ_FLAG_CASH :: u32 where "DEVCON_SEQ_FLAG_CASH = 0x00000010"
definition DEVCON_SEQ_FLAG_PERCENT :: u32 where "DEVCON_SEQ_FLAG_PERCENT = 0x00000020"
definition DEVCON_SEQ_FLAG_AND :: u32 where "DEVCON_SEQ_FLAG_AND = 0x00000040"
definition DEVCON_SEQ_FLAG_SQUOTE :: u32 where "DEVCON_SEQ_FLAG_SQUOTE = 0x00000080"
definition DEVCON_SEQ_FLAG_POPEN :: u32 where "DEVCON_SEQ_FLAG_POPEN = 0x00000100"
definition DEVCON_SEQ_FLAG_PCLOSE :: u32 where "DEVCON_SEQ_FLAG_PCLOSE = 0x00000200"
definition DEVCON_SEQ_FLAG_MULT :: u32 where "DEVCON_SEQ_FLAG_MULT = 0x00000400"
definition DEVCON_SEQ_FLAG_PLUS :: u32 where "DEVCON_SEQ_FLAG_PLUS = 0x00000800"
definition DEVCON_SEQ_FLAG_COMMA :: u32 where "DEVCON_SEQ_FLAG_COMMA = 0x00001000"
definition DEVCON_SEQ_FLAG_MINUS :: u32 where "DEVCON_SEQ_FLAG_MINUS = 0x00002000"
definition DEVCON_SEQ_FLAG_DOT :: u32 where "DEVCON_SEQ_FLAG_DOT = 0x00004000"
definition DEVCON_SEQ_FLAG_SLASH :: u32 where "DEVCON_SEQ_FLAG_SLASH = 0x00008000"
definition DEVCON_SEQ_FLAG_LT :: u32 where "DEVCON_SEQ_FLAG_LT = 0x10000000"
definition DEVCON_SEQ_FLAG_EQUAL :: u32 where "DEVCON_SEQ_FLAG_EQUAL = 0x20000000"
definition DEVCON_SEQ_FLAG_GT :: u32 where "DEVCON_SEQ_FLAG_GT = 0x40000000"
definition DEVCON_SEQ_FLAG_WHAT :: u32 where "DEVCON_SEQ_FLAG_WHAT = 0x80000000"

lemmas devcon_seq_flag_defs =
  DEVCON_SEQ_FLAG_SPACE_def DEVCON_SEQ_FLAG_BANG_def DEVCON_SEQ_FLAG_DQUOTE_def DEVCON_SEQ_FLAG_HASH_def DEVCON_SEQ_FLAG_CASH_def
  DEVCON_SEQ_FLAG_PERCENT_def DEVCON_SEQ_FLAG_AND_def DEVCON_SEQ_FLAG_SQUOTE_def DEVCON_SEQ_FLAG_POPEN_def DEVCON_SEQ_FLAG_PCLOSE_def
  DEVCON_SEQ_FLAG_MULT_def DEVCON_SEQ_FLAG_PLUS_def DEVCON_SEQ_FLAG_COMMA_def DEVCON_SEQ_FLAG_MINUS_def DEVCON_SEQ_FLAG_DOT_def
  DEVCON_SEQ_FLAG_SLASH_def DEVCON_SEQ_FLAG_LT_def DEVCON_SEQ_FLAG_EQUAL_def DEVCON_SEQ_FLAG_GT_def DEVCON_SEQ_FLAG_WHAT_def

text \<open>The command identifiers, numbered as the enumeration in parser.h numbers them.\<close>

definition DEVCON_CMD_NONE :: u32 where "DEVCON_CMD_NONE = 0"
definition DEVCON_CMD_GRAPHIC :: u32 where "DEVCON_CMD_GRAPHIC = 1"
definition DEVCON_CMD_BEL :: u32 where "DEVCON_CMD_BEL = 2"
definition DEVCON_CMD_BS :: u32 where "DEVCON_CMD_BS = 3"
definition DEVCON_CMD_CBT :: u32 where "DEVCON_CMD_CBT = 4"
definition DEVCON_CMD_CHA :: u32 where "DEVCON_CMD_CHA = 5"
definition DEVCON_CMD_CHT :: u32 where "DEVCON_CMD_CHT = 6"
definition DEVCON_CMD_CNL :: u32 where "DEVCON_CMD_CNL = 7"
definition DEVCON_CMD_CPL :: u32 where "DEVCON_CMD_CPL = 8"
definition DEVCON_CMD_CR :: u32 where "DEVCON_CMD_CR = 9"
definition DEVCON_CMD_CUB :: u32 where "DEVCON_CMD_CUB = 10"
definition DEVCON_CMD_CUD :: u32 where "DEVCON_CMD_CUD = 11"
definition DEVCON_CMD_CUF :: u32 where "DEVCON_CMD_CUF = 12"
definition DEVCON_CMD_CUP :: u32 where "DEVCON_CMD_CUP = 13"
definition DEVCON_CMD_CUU :: u32 where "DEVCON_CMD_CUU = 14"
definition DEVCON_CMD_DA1 :: u32 where "DEVCON_CMD_DA1 = 15"
definition DEVCON_CMD_DA2 :: u32 where "DEVCON_CMD_DA2 = 16"
definition DEVCON_CMD_DA3 :: u32 where "DEVCON_CMD_DA3 = 17"
definition DEVCON_CMD_DC1 :: u32 where "DEVCON_CMD_DC1 = 18"
definition DEVCON_CMD_DC3 :: u32 where "DEVCON_CMD_DC3 = 19"
definition DEVCON_CMD_DCH :: u32 where "DEVCON_CMD_DCH = 20"
definition DEVCON_CMD_DECALN :: u32 where "DEVCON_CMD_DECALN = 21"
definition DEVCON_CMD_DECANM :: u32 where "DEVCON_CMD_DECANM = 22"
definition DEVCON_CMD_DECBI :: u32 where "DEVCON_CMD_DECBI = 23"
definition DEVCON_CMD_DECCARA :: u32 where "DEVCON_CMD_DECCARA = 24"
definition DEVCON_CMD_DECCRA :: u32 where "DEVCON_CMD_DECCRA = 25"
definition DEVCON_CMD_DECDC :: u32 where "DEVCON_CMD_DECDC = 26"
definition DEVCON_CMD_DECDHL_BH :: u32 where "DEVCON_CMD_DECDHL_BH = 27"
definition DEVCON_CMD_DECDHL_TH :: u32 where "DEVCON_CMD_DECDHL_TH = 28"
definition DEVCON_CMD_DECDWL :: u32 where "DEVCON_CMD_DECDWL = 29"
definition DEVCON_CMD_DECEFR :: u32 where "DEVCON_CMD_DECEFR = 30"
definition DEVCON_CMD_DECELF :: u32 where "DEVCON_CMD_DECELF = 31"
definition DEVCON_CMD_DECELR :: u32 where "DEVCON_CMD_DECELR = 32"
definition DEVCON_CMD_DECERA :: u32 where "DEVCON_CMD_DECERA = 33"
definition DEVCON_CMD_DECFI :: u32 where "DEVCON_CMD_DECFI = 34"
definition DEVCON_CMD_DECFRA :: u32 where "DEVCON_CMD_DECFRA = 35"
definition DEVCON_CMD_DECIC :: u32 where "DEVCON_CMD_DECIC = 36"
definition DEVCON_CMD_DECID :: u32 where "DEVCON_CMD_DECID = 37"
definition DEVCON_CMD_DECINVM :: u32 where "DEVCON_CMD_DECINVM = 38"
definition DEVCON_CMD_DECKBD :: u32 where "DEVCON_CMD_DECKBD = 39"
definition DEVCON_CMD_DECKPAM :: u32 where "DEVCON_CMD_DECKPAM = 40"
definition DEVCON_CMD_DECKPNM :: u32 where "DEVCON_CMD_DECKPNM = 41"
definition DEVCON_CMD_DECLFKC :: u32 where "DEVCON_CMD_DECLFKC = 42"
definition DEVCON_CMD_DECLL :: u32 where "DEVCON_CMD_DECLL = 43"
definition DEVCON_CMD_DECLTOD :: u32 where "DEVCON_CMD_DECLTOD = 44"
definition DEVCON_CMD_DECPCTERM :: u32 where "DEVCON_CMD_DECPCTERM = 45"
definition DEVCON_CMD_DECPKA :: u32 where "DEVCON_CMD_DECPKA = 46"
definition DEVCON_CMD_DECPKFMR :: u32 where "DEVCON_CMD_DECPKFMR = 47"
definition DEVCON_CMD_DECRARA :: u32 where "DEVCON_CMD_DECRARA = 48"
definition DEVCON_CMD_DECRC :: u32 where "DEVCON_CMD_DECRC = 49"
definition DEVCON_CMD_DECREQTPARM :: u32 where "DEVCON_CMD_DECREQTPARM = 50"
definition DEVCON_CMD_DECRPKT :: u32 where "DEVCON_CMD_DECRPKT = 51"
definition DEVCON_CMD_DECRQCRA :: u32 where "DEVCON_CMD_DECRQCRA = 52"
definition DEVCON_CMD_DECRQDE :: u32 where "DEVCON_CMD_DECRQDE = 53"
definition DEVCON_CMD_DECRQKT :: u32 where "DEVCON_CMD_DECRQKT = 54"
definition DEVCON_CMD_DECRQLP :: u32 where "DEVCON_CMD_DECRQLP = 55"
definition DEVCON_CMD_DECRQM_ANSI :: u32 where "DEVCON_CMD_DECRQM_ANSI = 56"
definition DEVCON_CMD_DECRQM_DEC :: u32 where "DEVCON_CMD_DECRQM_DEC = 57"
definition DEVCON_CMD_DECRQPKFM :: u32 where "DEVCON_CMD_DECRQPKFM = 58"
definition DEVCON_CMD_DECRQPSR :: u32 where "DEVCON_CMD_DECRQPSR = 59"
definition DEVCON_CMD_DECRQTSR :: u32 where "DEVCON_CMD_DECRQTSR = 60"
definition DEVCON_CMD_DECRQUPSS :: u32 where "DEVCON_CMD_DECRQUPSS = 61"
definition DEVCON_CMD_DECSACE :: u32 where "DEVCON_CMD_DECSACE = 62"
definition DEVCON_CMD_DECSASD :: u32 where "DEVCON_CMD_DECSASD = 63"
definition DEVCON_CMD_DECSC :: u32 where "DEVCON_CMD_DECSC = 64"
definition DEVCON_CMD_DECSCA :: u32 where "DEVCON_CMD_DECSCA = 65"
definition DEVCON_CMD_DECSCL :: u32 where "DEVCON_CMD_DECSCL = 66"
definition DEVCON_CMD_DECSCP :: u32 where "DEVCON_CMD_DECSCP = 67"
definition DEVCON_CMD_DECSCPP :: u32 where "DEVCON_CMD_DECSCPP = 68"
definition DEVCON_CMD_DECSCS :: u32 where "DEVCON_CMD_DECSCS = 69"
definition DEVCON_CMD_DECSCUSR :: u32 where "DEVCON_CMD_DECSCUSR = 70"
definition DEVCON_CMD_DECSDDT :: u32 where "DEVCON_CMD_DECSDDT = 71"
definition DEVCON_CMD_DECSDPT :: u32 where "DEVCON_CMD_DECSDPT = 72"
definition DEVCON_CMD_DECSED :: u32 where "DEVCON_CMD_DECSED = 73"
definition DEVCON_CMD_DECSEL :: u32 where "DEVCON_CMD_DECSEL = 74"
definition DEVCON_CMD_DECSERA :: u32 where "DEVCON_CMD_DECSERA = 75"
definition DEVCON_CMD_DECSFC :: u32 where "DEVCON_CMD_DECSFC = 76"
definition DEVCON_CMD_DECSKCV :: u32 where "DEVCON_CMD_DECSKCV = 77"
definition DEVCON_CMD_DECSLCK :: u32 where "DEVCON_CMD_DECSLCK = 78"
definition DEVCON_CMD_DECSLE :: u32 where "DEVCON_CMD_DECSLE = 79"
definition DEVCON_CMD_DECSLPP :: u32 where "DEVCON_CMD_DECSLPP = 80"
definition DEVCON_CMD_DECSLRM_OR_SC :: u32 where "DEVCON_CMD_DECSLRM_OR_SC = 81"
definition DEVCON_CMD_DECSMBV :: u32 where "DEVCON_CMD_DECSMBV = 82"
definition DEVCON_CMD_DECSMKR :: u32 where "DEVCON_CMD_DECSMKR = 83"
definition DEVCON_CMD_DECSNLS :: u32 where "DEVCON_CMD_DECSNLS = 84"
definition DEVCON_CMD_DECSPP :: u32 where "DEVCON_CMD_DECSPP = 85"
definition DEVCON_CMD_DECSPPCS :: u32 where "DEVCON_CMD_DECSPPCS = 86"
definition DEVCON_CMD_DECSPRTT :: u32 where "DEVCON_CMD_DECSPRTT = 87"
definition DEVCON_CMD_DECSR :: u32 where "DEVCON_CMD_DECSR = 88"
definition DEVCON_CMD_DECSRFR :: u32 where "DEVCON_CMD_DECSRFR = 89"
definition DEVCON_CMD_DECSSCLS :: u32 where "DEVCON_CMD_DECSSCLS = 90"
definition DEVCON_CMD_DECSSDT :: u32 where "DEVCON_CMD_DECSSDT = 91"
definition DEVCON_CMD_DECSSL :: u32 where "DEVCON_CMD_DECSSL = 92"
definition DEVCON_CMD_DECST8C :: u32 where "DEVCON_CMD_DECST8C = 93"
definition DEVCON_CMD_DECSTBM :: u32 where "DEVCON_CMD_DECSTBM = 94"
definition DEVCON_CMD_DECSTR :: u32 where "DEVCON_CMD_DECSTR = 95"
definition DEVCON_CMD_DECSTRL :: u32 where "DEVCON_CMD_DECSTRL = 96"
definition DEVCON_CMD_DECSWBV :: u32 where "DEVCON_CMD_DECSWBV = 97"
definition DEVCON_CMD_DECSWL :: u32 where "DEVCON_CMD_DECSWL = 98"
definition DEVCON_CMD_DECTID :: u32 where "DEVCON_CMD_DECTID = 99"
definition DEVCON_CMD_DECTME :: u32 where "DEVCON_CMD_DECTME = 100"
definition DEVCON_CMD_DECTST :: u32 where "DEVCON_CMD_DECTST = 101"
definition DEVCON_CMD_DL :: u32 where "DEVCON_CMD_DL = 102"
definition DEVCON_CMD_DSR_ANSI :: u32 where "DEVCON_CMD_DSR_ANSI = 103"
definition DEVCON_CMD_DSR_DEC :: u32 where "DEVCON_CMD_DSR_DEC = 104"
definition DEVCON_CMD_ECH :: u32 where "DEVCON_CMD_ECH = 105"
definition DEVCON_CMD_ED :: u32 where "DEVCON_CMD_ED = 106"
definition DEVCON_CMD_EL :: u32 where "DEVCON_CMD_EL = 107"
definition DEVCON_CMD_ENQ :: u32 where "DEVCON_CMD_ENQ = 108"
definition DEVCON_CMD_EPA :: u32 where "DEVCON_CMD_EPA = 109"
definition DEVCON_CMD_FF :: u32 where "DEVCON_CMD_FF = 110"
definition DEVCON_CMD_HPA :: u32 where "DEVCON_CMD_HPA = 111"
definition DEVCON_CMD_HPR :: u32 where "DEVCON_CMD_HPR = 112"
definition DEVCON_CMD_HT :: u32 where "DEVCON_CMD_HT = 113"
definition DEVCON_CMD_HTS :: u32 where "DEVCON_CMD_HTS = 114"
definition DEVCON_CMD_HVP :: u32 where "DEVCON_CMD_HVP = 115"
definition DEVCON_CMD_ICH :: u32 where "DEVCON_CMD_ICH = 116"
definition DEVCON_CMD_IL :: u32 where "DEVCON_CMD_IL = 117"
definition DEVCON_CMD_IND :: u32 where "DEVCON_CMD_IND = 118"
definition DEVCON_CMD_LF :: u32 where "DEVCON_CMD_LF = 119"
definition DEVCON_CMD_LS1R :: u32 where "DEVCON_CMD_LS1R = 120"
definition DEVCON_CMD_LS2 :: u32 where "DEVCON_CMD_LS2 = 121"
definition DEVCON_CMD_LS2R :: u32 where "DEVCON_CMD_LS2R = 122"
definition DEVCON_CMD_LS3 :: u32 where "DEVCON_CMD_LS3 = 123"
definition DEVCON_CMD_LS3R :: u32 where "DEVCON_CMD_LS3R = 124"
definition DEVCON_CMD_MC_ANSI :: u32 where "DEVCON_CMD_MC_ANSI = 125"
definition DEVCON_CMD_MC_DEC :: u32 where "DEVCON_CMD_MC_DEC = 126"
definition DEVCON_CMD_NEL :: u32 where "DEVCON_CMD_NEL = 127"
definition DEVCON_CMD_NP :: u32 where "DEVCON_CMD_NP = 128"
definition DEVCON_CMD_NULL :: u32 where "DEVCON_CMD_NULL = 129"
definition DEVCON_CMD_PP :: u32 where "DEVCON_CMD_PP = 130"
definition DEVCON_CMD_PPA :: u32 where "DEVCON_CMD_PPA = 131"
definition DEVCON_CMD_PPB :: u32 where "DEVCON_CMD_PPB = 132"
definition DEVCON_CMD_PPR :: u32 where "DEVCON_CMD_PPR = 133"
definition DEVCON_CMD_RC :: u32 where "DEVCON_CMD_RC = 134"
definition DEVCON_CMD_REP :: u32 where "DEVCON_CMD_REP = 135"
definition DEVCON_CMD_RI :: u32 where "DEVCON_CMD_RI = 136"
definition DEVCON_CMD_RIS :: u32 where "DEVCON_CMD_RIS = 137"
definition DEVCON_CMD_RM_ANSI :: u32 where "DEVCON_CMD_RM_ANSI = 138"
definition DEVCON_CMD_RM_DEC :: u32 where "DEVCON_CMD_RM_DEC = 139"
definition DEVCON_CMD_S7C1T :: u32 where "DEVCON_CMD_S7C1T = 140"
definition DEVCON_CMD_S8C1T :: u32 where "DEVCON_CMD_S8C1T = 141"
definition DEVCON_CMD_SCS :: u32 where "DEVCON_CMD_SCS = 142"
definition DEVCON_CMD_SD :: u32 where "DEVCON_CMD_SD = 143"
definition DEVCON_CMD_SGR :: u32 where "DEVCON_CMD_SGR = 144"
definition DEVCON_CMD_SI :: u32 where "DEVCON_CMD_SI = 145"
definition DEVCON_CMD_SM_ANSI :: u32 where "DEVCON_CMD_SM_ANSI = 146"
definition DEVCON_CMD_SM_DEC :: u32 where "DEVCON_CMD_SM_DEC = 147"
definition DEVCON_CMD_SO :: u32 where "DEVCON_CMD_SO = 148"
definition DEVCON_CMD_SPA :: u32 where "DEVCON_CMD_SPA = 149"
definition DEVCON_CMD_SS2 :: u32 where "DEVCON_CMD_SS2 = 150"
definition DEVCON_CMD_SS3 :: u32 where "DEVCON_CMD_SS3 = 151"
definition DEVCON_CMD_ST :: u32 where "DEVCON_CMD_ST = 152"
definition DEVCON_CMD_SU :: u32 where "DEVCON_CMD_SU = 153"
definition DEVCON_CMD_SUB :: u32 where "DEVCON_CMD_SUB = 154"
definition DEVCON_CMD_TBC :: u32 where "DEVCON_CMD_TBC = 155"
definition DEVCON_CMD_VPA :: u32 where "DEVCON_CMD_VPA = 156"
definition DEVCON_CMD_VPR :: u32 where "DEVCON_CMD_VPR = 157"
definition DEVCON_CMD_VT :: u32 where "DEVCON_CMD_VT = 158"
definition DEVCON_CMD_XTERM_CLLHP :: u32 where "DEVCON_CMD_XTERM_CLLHP = 159"
definition DEVCON_CMD_XTERM_IHMT :: u32 where "DEVCON_CMD_XTERM_IHMT = 160"
definition DEVCON_CMD_XTERM_MLHP :: u32 where "DEVCON_CMD_XTERM_MLHP = 161"
definition DEVCON_CMD_XTERM_MUHP :: u32 where "DEVCON_CMD_XTERM_MUHP = 162"
definition DEVCON_CMD_XTERM_RPM :: u32 where "DEVCON_CMD_XTERM_RPM = 163"
definition DEVCON_CMD_XTERM_RRV :: u32 where "DEVCON_CMD_XTERM_RRV = 164"
definition DEVCON_CMD_XTERM_RTM :: u32 where "DEVCON_CMD_XTERM_RTM = 165"
definition DEVCON_CMD_XTERM_SACL1 :: u32 where "DEVCON_CMD_XTERM_SACL1 = 166"
definition DEVCON_CMD_XTERM_SACL2 :: u32 where "DEVCON_CMD_XTERM_SACL2 = 167"
definition DEVCON_CMD_XTERM_SACL3 :: u32 where "DEVCON_CMD_XTERM_SACL3 = 168"
definition DEVCON_CMD_XTERM_SDCS :: u32 where "DEVCON_CMD_XTERM_SDCS = 169"
definition DEVCON_CMD_XTERM_SGFX :: u32 where "DEVCON_CMD_XTERM_SGFX = 170"
definition DEVCON_CMD_XTERM_SPM :: u32 where "DEVCON_CMD_XTERM_SPM = 171"
definition DEVCON_CMD_XTERM_SRV :: u32 where "DEVCON_CMD_XTERM_SRV = 172"
definition DEVCON_CMD_XTERM_STM :: u32 where "DEVCON_CMD_XTERM_STM = 173"
definition DEVCON_CMD_XTERM_SUCS :: u32 where "DEVCON_CMD_XTERM_SUCS = 174"
definition DEVCON_CMD_XTERM_WM :: u32 where "DEVCON_CMD_XTERM_WM = 175"

lemmas devcon_cmd_defs =
  DEVCON_CMD_NONE_def DEVCON_CMD_GRAPHIC_def DEVCON_CMD_BEL_def DEVCON_CMD_BS_def
  DEVCON_CMD_CBT_def DEVCON_CMD_CHA_def DEVCON_CMD_CHT_def DEVCON_CMD_CNL_def
  DEVCON_CMD_CPL_def DEVCON_CMD_CR_def DEVCON_CMD_CUB_def DEVCON_CMD_CUD_def
  DEVCON_CMD_CUF_def DEVCON_CMD_CUP_def DEVCON_CMD_CUU_def DEVCON_CMD_DA1_def
  DEVCON_CMD_DA2_def DEVCON_CMD_DA3_def DEVCON_CMD_DC1_def DEVCON_CMD_DC3_def
  DEVCON_CMD_DCH_def DEVCON_CMD_DECALN_def DEVCON_CMD_DECANM_def DEVCON_CMD_DECBI_def
  DEVCON_CMD_DECCARA_def DEVCON_CMD_DECCRA_def DEVCON_CMD_DECDC_def DEVCON_CMD_DECDHL_BH_def
  DEVCON_CMD_DECDHL_TH_def DEVCON_CMD_DECDWL_def DEVCON_CMD_DECEFR_def DEVCON_CMD_DECELF_def
  DEVCON_CMD_DECELR_def DEVCON_CMD_DECERA_def DEVCON_CMD_DECFI_def DEVCON_CMD_DECFRA_def
  DEVCON_CMD_DECIC_def DEVCON_CMD_DECID_def DEVCON_CMD_DECINVM_def DEVCON_CMD_DECKBD_def
  DEVCON_CMD_DECKPAM_def DEVCON_CMD_DECKPNM_def DEVCON_CMD_DECLFKC_def DEVCON_CMD_DECLL_def
  DEVCON_CMD_DECLTOD_def DEVCON_CMD_DECPCTERM_def DEVCON_CMD_DECPKA_def
  DEVCON_CMD_DECPKFMR_def DEVCON_CMD_DECRARA_def DEVCON_CMD_DECRC_def
  DEVCON_CMD_DECREQTPARM_def DEVCON_CMD_DECRPKT_def DEVCON_CMD_DECRQCRA_def
  DEVCON_CMD_DECRQDE_def DEVCON_CMD_DECRQKT_def DEVCON_CMD_DECRQLP_def
  DEVCON_CMD_DECRQM_ANSI_def DEVCON_CMD_DECRQM_DEC_def DEVCON_CMD_DECRQPKFM_def
  DEVCON_CMD_DECRQPSR_def DEVCON_CMD_DECRQTSR_def DEVCON_CMD_DECRQUPSS_def
  DEVCON_CMD_DECSACE_def DEVCON_CMD_DECSASD_def DEVCON_CMD_DECSC_def DEVCON_CMD_DECSCA_def
  DEVCON_CMD_DECSCL_def DEVCON_CMD_DECSCP_def DEVCON_CMD_DECSCPP_def DEVCON_CMD_DECSCS_def
  DEVCON_CMD_DECSCUSR_def DEVCON_CMD_DECSDDT_def DEVCON_CMD_DECSDPT_def DEVCON_CMD_DECSED_def
  DEVCON_CMD_DECSEL_def DEVCON_CMD_DECSERA_def DEVCON_CMD_DECSFC_def DEVCON_CMD_DECSKCV_def
  DEVCON_CMD_DECSLCK_def DEVCON_CMD_DECSLE_def DEVCON_CMD_DECSLPP_def
  DEVCON_CMD_DECSLRM_OR_SC_def DEVCON_CMD_DECSMBV_def DEVCON_CMD_DECSMKR_def
  DEVCON_CMD_DECSNLS_def DEVCON_CMD_DECSPP_def DEVCON_CMD_DECSPPCS_def DEVCON_CMD_DECSPRTT_def
  DEVCON_CMD_DECSR_def DEVCON_CMD_DECSRFR_def DEVCON_CMD_DECSSCLS_def DEVCON_CMD_DECSSDT_def
  DEVCON_CMD_DECSSL_def DEVCON_CMD_DECST8C_def DEVCON_CMD_DECSTBM_def DEVCON_CMD_DECSTR_def
  DEVCON_CMD_DECSTRL_def DEVCON_CMD_DECSWBV_def DEVCON_CMD_DECSWL_def DEVCON_CMD_DECTID_def
  DEVCON_CMD_DECTME_def DEVCON_CMD_DECTST_def DEVCON_CMD_DL_def DEVCON_CMD_DSR_ANSI_def
  DEVCON_CMD_DSR_DEC_def DEVCON_CMD_ECH_def DEVCON_CMD_ED_def DEVCON_CMD_EL_def
  DEVCON_CMD_ENQ_def DEVCON_CMD_EPA_def DEVCON_CMD_FF_def DEVCON_CMD_HPA_def
  DEVCON_CMD_HPR_def DEVCON_CMD_HT_def DEVCON_CMD_HTS_def DEVCON_CMD_HVP_def
  DEVCON_CMD_ICH_def DEVCON_CMD_IL_def DEVCON_CMD_IND_def DEVCON_CMD_LF_def
  DEVCON_CMD_LS1R_def DEVCON_CMD_LS2_def DEVCON_CMD_LS2R_def DEVCON_CMD_LS3_def
  DEVCON_CMD_LS3R_def DEVCON_CMD_MC_ANSI_def DEVCON_CMD_MC_DEC_def DEVCON_CMD_NEL_def
  DEVCON_CMD_NP_def DEVCON_CMD_NULL_def DEVCON_CMD_PP_def DEVCON_CMD_PPA_def
  DEVCON_CMD_PPB_def DEVCON_CMD_PPR_def DEVCON_CMD_RC_def DEVCON_CMD_REP_def DEVCON_CMD_RI_def
  DEVCON_CMD_RIS_def DEVCON_CMD_RM_ANSI_def DEVCON_CMD_RM_DEC_def DEVCON_CMD_S7C1T_def
  DEVCON_CMD_S8C1T_def DEVCON_CMD_SCS_def DEVCON_CMD_SD_def DEVCON_CMD_SGR_def
  DEVCON_CMD_SI_def DEVCON_CMD_SM_ANSI_def DEVCON_CMD_SM_DEC_def DEVCON_CMD_SO_def
  DEVCON_CMD_SPA_def DEVCON_CMD_SS2_def DEVCON_CMD_SS3_def DEVCON_CMD_ST_def DEVCON_CMD_SU_def
  DEVCON_CMD_SUB_def DEVCON_CMD_TBC_def DEVCON_CMD_VPA_def DEVCON_CMD_VPR_def
  DEVCON_CMD_VT_def DEVCON_CMD_XTERM_CLLHP_def DEVCON_CMD_XTERM_IHMT_def
  DEVCON_CMD_XTERM_MLHP_def DEVCON_CMD_XTERM_MUHP_def DEVCON_CMD_XTERM_RPM_def
  DEVCON_CMD_XTERM_RRV_def DEVCON_CMD_XTERM_RTM_def DEVCON_CMD_XTERM_SACL1_def
  DEVCON_CMD_XTERM_SACL2_def DEVCON_CMD_XTERM_SACL3_def DEVCON_CMD_XTERM_SDCS_def
  DEVCON_CMD_XTERM_SGFX_def DEVCON_CMD_XTERM_SPM_def DEVCON_CMD_XTERM_SRV_def
  DEVCON_CMD_XTERM_STM_def DEVCON_CMD_XTERM_SUCS_def DEVCON_CMD_XTERM_WM_def

text \<open>
  The charset identifiers are the numbers of the enumeration in parser.h:
  \<open>DEVCON_CHARSET_96_N = 7\<close>, \<open>DEVCON_CHARSET_94_N = 30\<close>, \<open>DEVCON_CHARSET_N = 31\<close>.
\<close>

definition DEVCON_CHARSET_NONE :: u32 where "DEVCON_CHARSET_NONE = 0"
definition DEVCON_CHARSET_96_N :: nat where "DEVCON_CHARSET_96_N = 7"
definition DEVCON_CHARSET_94_N :: nat where "DEVCON_CHARSET_94_N = 30"
definition DEVCON_CHARSET_N :: nat where "DEVCON_CHARSET_N = 31"

definition DEVCON_PARSER_ARG_MAX :: u32 where "DEVCON_PARSER_ARG_MAX = 16"

text \<open>
  \<open>struct devcon_seq\<close>. \<open>args\<close> is the array \<open>int args[16]\<close>, read as signed with
  \<open>sint\<close>; \<open>st\<close> is the string buffer the parser allocated.
\<close>

record devcon_seq =
  s_type :: seq_type
  command :: u32
  terminator :: u32
  intermediates :: u32
  charset :: u32
  n_args :: u32
  args :: "u32 list"
  n_st :: u32
  st :: "u8 list"

section \<open>Command parser (parser.c)\<close>

definition devcon_parse_host_control :: "devcon_seq \<Rightarrow> u32" where
  "devcon_parse_host_control seq =
    (let t = terminator seq in
     if t = 0x00 then DEVCON_CMD_NULL else
     if t = 0x05 then DEVCON_CMD_ENQ else
     if t = 0x07 then DEVCON_CMD_BEL else
     if t = 0x08 then DEVCON_CMD_BS else
     if t = 0x09 then DEVCON_CMD_HT else
     if t = 0x0a then DEVCON_CMD_LF else
     if t = 0x0b then DEVCON_CMD_VT else
     if t = 0x0c then DEVCON_CMD_FF else
     if t = 0x0d then DEVCON_CMD_CR else
     if t = 0x0e then DEVCON_CMD_SO else
     if t = 0x0f then DEVCON_CMD_SI else
     if t = 0x11 then DEVCON_CMD_DC1 else
     if t = 0x13 then DEVCON_CMD_DC3 else
     if t = 0x18 then DEVCON_CMD_NONE else
     if t = 0x1a then DEVCON_CMD_SUB else
     if t = 0x1b then DEVCON_CMD_NONE else
     if t = 0x1f then DEVCON_CMD_NONE else
     if t = 0x84 then DEVCON_CMD_IND else
     if t = 0x85 then DEVCON_CMD_NEL else
     if t = 0x88 then DEVCON_CMD_HTS else
     if t = 0x8d then DEVCON_CMD_RI else
     if t = 0x8e then DEVCON_CMD_SS2 else
     if t = 0x8f then DEVCON_CMD_SS3 else
     if t = 0x90 then DEVCON_CMD_NONE else
     if t = 0x96 then DEVCON_CMD_SPA else
     if t = 0x97 then DEVCON_CMD_EPA else
     if t = 0x98 then DEVCON_CMD_NONE else
     if t = 0x9a then DEVCON_CMD_DECID else
     if t = 0x9b then DEVCON_CMD_NONE else
     if t = 0x9c then DEVCON_CMD_ST else
     if t = 0x9d then DEVCON_CMD_NONE else
     if t = 0x9e then DEVCON_CMD_NONE else
     if t = 0x9f then DEVCON_CMD_NONE else
     DEVCON_CMD_NONE)"

text \<open>
  The table \<open>charset_cmds\<close> of \<open>devcon_charset_from_cmd\<close>, indexed by charset identifier
  (secondary choices at \<open>DEVCON_CHARSET_N + id\<close>, tertiary ones at twice that offset);
  the entries the initialiser leaves out are zero.
\<close>

definition charset_cmds :: "(u32 \<times> u32) list" where
  "charset_cmds =
    [(0, 0), (0x41, 0), (0x42, 0), (0x4d, 0), (0x46, 0), (0x48, 0), (0x4c, 0),
     (0x30, 0), (0x35, DEVCON_SEQ_FLAG_PERCENT), (0x3e, 0), (0x34, DEVCON_SEQ_FLAG_AND),
     (0x34, 0), (0x35, 0), (0x52, 0), (0x39, 0), (0x4b, 0),
     (0x3f, DEVCON_SEQ_FLAG_DQUOTE), (0x3e, DEVCON_SEQ_FLAG_DQUOTE),
     (0x34, DEVCON_SEQ_FLAG_DQUOTE), (0x3d, DEVCON_SEQ_FLAG_PERCENT), (0x59, 0),
     (0x60, 0), (0x36, DEVCON_SEQ_FLAG_PERCENT), (0x35, DEVCON_SEQ_FLAG_AND),
     (0x33, DEVCON_SEQ_FLAG_PERCENT), (0x5a, 0), (0x37, 0), (0x3d, 0),
     (0x30, DEVCON_SEQ_FLAG_PERCENT), (0x32, DEVCON_SEQ_FLAG_PERCENT), (0x3c, 0),
     (0, 0), (0, 0), (0, 0), (0, 0), (0, 0), (0, 0), (0, 0), (0, 0), (0, 0), (0, 0),
     (0, 0), (0, 0), (0x43, 0), (0x66, 0), (0x51, 0), (0, 0), (0, 0), (0, 0), (0, 0),
     (0, 0), (0, 0), (0x45, 0), (0, 0), (0, 0), (0, 0), (0, 0), (0x48, 0), (0, 0),
     (0, 0), (0, 0), (0, 0), (0, 0), (0, 0), (0, 0), (0, 0), (0, 0), (0, 0), (0, 0),
     (0, 0), (0, 0), (0, 0), (0, 0), (0, 0), (0, 0), (0, 0), (0, 0), (0, 0), (0, 0),
     (0, 0), (0, 0), (0, 0), (0, 0), (0x36, 0)]"

definition ENOENT :: int where "ENOENT = 2"

text \<open>
  The search loop of \<open>devcon_charset_from_cmd\<close> from index \<open>i\<close> on. The inner loop
  \<open>while (cs >= DEVCON_CHARSET_N) cs -= DEVCON_CHARSET_N\<close> is \<open>i mod DEVCON_CHARSET_N\<close>.
\<close>

fun charset_search :: "(u32 \<times> u32) list \<Rightarrow> nat \<Rightarrow> u32 \<Rightarrow> u32 \<Rightarrow> bool \<Rightarrow> int" where
  "charset_search [] i raw flags require_96 = - ENOENT"
| "charset_search (e # es) i raw flags require_96 =
     (if fst e = raw \<and> snd e = flags then
        (let cs = i mod DEVCON_CHARSET_N in
         if \<not> require_96 \<or> cs < DEVCON_CHARSET_96_N \<or> DEVCON_CHARSET_94_N \<le> cs
         then int cs
         else charset_search es (Suc i) raw flags require_96)
      else charset_search es (Suc i) raw flags require_96)"

definition devcon_charset_from_cmd :: "u32 \<Rightarrow> u32 \<Rightarrow> bool \<Rightarrow> int" where
  "devcon_charset_from_cmd raw flags require_96 =
     charset_search charset_cmds 0 raw flags require_96"

definition hweight32 :: "u32 \<Rightarrow> nat" where
  "hweight32 w = length (filter (bit w) [0..<32])"

text \<open>
  \<open>devcon_parse_host_escape(seq, cs_out)\<close>: the command, and the charset written through
  \<open>cs_out\<close> if any.
\<close>

definition devcon_parse_host_escape :: "devcon_seq \<Rightarrow> u32 \<times> u32 option" where
  "devcon_parse_host_escape seq =
    (let flags = intermediates seq;
         tm = DEVCON_SEQ_FLAG_POPEN OR DEVCON_SEQ_FLAG_PCLOSE OR
              DEVCON_SEQ_FLAG_MULT OR DEVCON_SEQ_FLAG_PLUS OR
              DEVCON_SEQ_FLAG_MINUS OR DEVCON_SEQ_FLAG_DOT OR
              DEVCON_SEQ_FLAG_SLASH;
         cs = (if hweight32 (flags AND tm) = 1 then
                 (if flags AND tm = DEVCON_SEQ_FLAG_POPEN \<or>
                     flags AND tm = DEVCON_SEQ_FLAG_PCLOSE \<or>
                     flags AND tm = DEVCON_SEQ_FLAG_MULT \<or>
                     flags AND tm = DEVCON_SEQ_FLAG_PLUS
                  then devcon_charset_from_cmd (terminator seq) (flags AND NOT tm) False
                  else if flags AND tm = DEVCON_SEQ_FLAG_MINUS \<or>
                          flags AND tm = DEVCON_SEQ_FLAG_DOT \<or>
                          flags AND tm = DEVCON_SEQ_FLAG_SLASH
                  then devcon_charset_from_cmd (terminator seq) (flags AND NOT tm) True
                  else - ENOENT)
               else - ENOENT);
         t = terminator seq
     in
     if hweight32 (flags AND tm) = 1 \<and> 0 \<le> cs then (DEVCON_CMD_SCS, Some (word_of_int cs))
     else
       (
     if t = 0x33 then
        (if flags = DEVCON_SEQ_FLAG_HASH then DEVCON_CMD_DECDHL_TH
         else DEVCON_CMD_NONE)
     else
     if t = 0x34 then
        (if flags = DEVCON_SEQ_FLAG_HASH then DEVCON_CMD_DECDHL_BH
         else DEVCON_CMD_NONE)
     else
     if t = 0x35 then
        (if flags = DEVCON_SEQ_FLAG_HASH then DEVCON_CMD_DECSWL
         else DEVCON_CMD_NONE)
     else
     if t = 0x36 then
        (if flags = 0 then DEVCON_CMD_DECBI
         else if flags = DEVCON_SEQ_FLAG_HASH then DEVCON_CMD_DECDWL
         else DEVCON_CMD_NONE)
     else
     if t = 0x37 then
        (if flags = 0 then DEVCON_CMD_DECSC
         else DEVCON_CMD_NONE)
     else
     if t = 0x38 then
        (if flags = 0 then DEVCON_CMD_DECRC
         else if flags = DEVCON_SEQ_FLAG_HASH then DEVCON_CMD_DECALN
         else DEVCON_CMD_NONE)
     else
     if t = 0x39 then
        (if flags = 0 then DEVCON_CMD_DECFI
         else DEVCON_CMD_NONE)
     else
     if t = 0x3c then
        (if flags = 0 then DEVCON_CMD_DECANM
         else DEVCON_CMD_NONE)
     else
     if t = 0x3d then
        (if flags = 0 then DEVCON_CMD_DECKPAM
         else DEVCON_CMD_NONE)
     else
     if t = 0x3e then
        (if flags = 0 then DEVCON_CMD_DECKPNM
         else DEVCON_CMD_NONE)
     else
     if t = 0x40 then
        (if flags = DEVCON_SEQ_FLAG_PERCENT then DEVCON_CMD_XTERM_SDCS
         else DEVCON_CMD_NONE)
     else
     if t = 0x44 then
        (if flags = 0 then DEVCON_CMD_IND
         else DEVCON_CMD_NONE)
     else
     if t = 0x45 then
        (if flags = 0 then DEVCON_CMD_NEL
         else DEVCON_CMD_NONE)
     else
     if t = 0x46 then
        (if flags = 0 then DEVCON_CMD_XTERM_CLLHP
         else if flags = DEVCON_SEQ_FLAG_SPACE then DEVCON_CMD_S7C1T
         else DEVCON_CMD_NONE)
     else
     if t = 0x47 then
        (if flags = DEVCON_SEQ_FLAG_SPACE then DEVCON_CMD_S8C1T
         else if flags = DEVCON_SEQ_FLAG_PERCENT then DEVCON_CMD_XTERM_SUCS
         else DEVCON_CMD_NONE)
     else
     if t = 0x48 then
        (if flags = 0 then DEVCON_CMD_HTS
         else DEVCON_CMD_NONE)
     else
     if t = 0x4c then
        (if flags = DEVCON_SEQ_FLAG_SPACE then DEVCON_CMD_XTERM_SACL1
         else DEVCON_CMD_NONE)
     else
     if t = 0x4d then
        (if flags = 0 then DEVCON_CMD_RI
         else if flags = DEVCON_SEQ_FLAG_SPACE then DEVCON_CMD_XTERM_SACL2
         else DEVCON_CMD_NONE)
     else
     if t = 0x4e then
        (if flags = 0 then DEVCON_CMD_SS2
         else if flags = DEVCON_SEQ_FLAG_SPACE then DEVCON_CMD_XTERM_SACL3
         else DEVCON_CMD_NONE)
     else
     if t = 0x4f then
        (if flags = 0 then DEVCON_CMD_SS3
         else DEVCON_CMD_NONE)
     else
     if t = 0x50 then
        (if flags = 0 then DEVCON_CMD_NONE
         else DEVCON_CMD_NONE)
     else
     if t = 0x56 then
        (if flags = 0 then DEVCON_CMD_SPA
         else DEVCON_CMD_NONE)
     else
     if t = 0x57 then
        (if flags = 0 then DEVCON_CMD_EPA
         else DEVCON_CMD_NONE)
     else
     if t = 0x58 then
        (if flags = 0 then DEVCON_CMD_NONE
         else DEVCON_CMD_NONE)
     else
     if t = 0x5a then
        (if flags = 0 then DEVCON_CMD_DECID
         else DEVCON_CMD_NONE)
     else
     if t = 0x5b then
        (if flags = 0 then DEVCON_CMD_NONE
         else DEVCON_CMD_NONE)
     else
     if t = 0x5c then
        (if flags = 0 then DEVCON_CMD_ST
         else DEVCON_CMD_NONE)
     else
     if t = 0x5d then
        (if flags = 0 then DEVCON_CMD_NONE
         else DEVCON_CMD_NONE)
     else
     if t = 0x5e then
        (if flags = 0 then DEVCON_CMD_NONE
         else DEVCON_CMD_NONE)
     else
     if t = 0x5f then
        (if flags = 0 then DEVCON_CMD_NONE
         else DEVCON_CMD_NONE)
     else
     if t = 0x63 then
        (if flags = 0 then DEVCON_CMD_RIS
         else DEVCON_CMD_NONE)
     else
     if t = 0x6c then
        (if flags = 0 then DEVCON_CMD_XTERM_MLHP
         else DEVCON_CMD_NONE)
     else
     if t = 0x6d then
        (if flags = 0 then DEVCON_CMD_XTERM_MUHP
         else DEVCON_CMD_NONE)
     else
     if t = 0x6e then
        (if flags = 0 then DEVCON_CMD_LS2
         else DEVCON_CMD_NONE)
     else
     if t = 0x6f then
        (if flags = 0 then DEVCON_CMD_LS3
         else DEVCON_CMD_NONE)
     else
     if t = 0x7c then
        (if flags = 0 then DEVCON_CMD_LS3R
         else DEVCON_CMD_NONE)
     else
     if t = 0x7d then
        (if flags = 0 then DEVCON_CMD_LS2R
         else DEVCON_CMD_NONE)
     else
     if t = 0x7e then
        (if flags = 0 then DEVCON_CMD_LS1R
         else DEVCON_CMD_NONE)
     else
     DEVCON_CMD_NONE, None))"

definition devcon_parse_host_csi :: "devcon_seq \<Rightarrow> u32" where
  "devcon_parse_host_csi seq =
    (let flags = intermediates seq; t = terminator seq in
     if t = 0x41 then
        (if flags = 0 then DEVCON_CMD_CUU
         else DEVCON_CMD_NONE)
     else
     if t = 0x61 then
        (if flags = 0 then DEVCON_CMD_HPR
         else DEVCON_CMD_NONE)
     else
     if t = 0x42 then
        (if flags = 0 then DEVCON_CMD_CUD
         else DEVCON_CMD_NONE)
     else
     if t = 0x62 then
        (if flags = 0 then DEVCON_CMD_REP
         else DEVCON_CMD_NONE)
     else
     if t = 0x43 then
        (if flags = 0 then DEVCON_CMD_CUF
         else DEVCON_CMD_NONE)
     else
     if t = 0x63 then
        (if flags = 0 then DEVCON_CMD_DA1
         else if flags = DEVCON_SEQ_FLAG_GT then DEVCON_CMD_DA2
         else if flags = DEVCON_SEQ_FLAG_EQUAL then DEVCON_CMD_DA3
         else DEVCON_CMD_NONE)
     else
     if t = 0x44 then
        (if flags = 0 then DEVCON_CMD_CUB
         else DEVCON_CMD_NONE)
     else
     if t = 0x64 then
        (if flags = 0 then DEVCON_CMD_VPA
         else DEVCON_CMD_NONE)
     else
     if t = 0x45 then
        (if flags = 0 then DEVCON_CMD_CNL
         else DEVCON_CMD_NONE)
     else
     if t = 0x65 then
        (if flags = 0 then DEVCON_CMD_VPR
         else DEVCON_CMD_NONE)
     else
     if t = 0x46 then
        (if flags = 0 then DEVCON_CMD_CPL
         else DEVCON_CMD_NONE)
     else
     if t = 0x66 then
        (if flags = 0 then DEVCON_CMD_HVP
         else DEVCON_CMD_NONE)
     else
     if t = 0x47 then
        (if flags = 0 then DEVCON_CMD_CHA
         else DEVCON_CMD_NONE)
     else
     if t = 0x67 then
        (if flags = 0 then DEVCON_CMD_TBC
         else if flags = DEVCON_SEQ_FLAG_MULT then DEVCON_CMD_DECLFKC
         else DEVCON_CMD_NONE)
     else
     if t = 0x48 then
        (if flags = 0 then DEVCON_CMD_CUP
         else DEVCON_CMD_NONE)
     else
     if t = 0x68 then
        (if flags = 0 then DEVCON_CMD_SM_ANSI
         else if flags = DEVCON_SEQ_FLAG_WHAT then DEVCON_CMD_SM_DEC
         else DEVCON_CMD_NONE)
     else
     if t = 0x49 then
        (if flags = 0 then DEVCON_CMD_CHT
         else DEVCON_CMD_NONE)
     else
     if t = 0x69 then
        (if flags = 0 then DEVCON_CMD_MC_ANSI
         else if flags = DEVCON_SEQ_FLAG_WHAT then DEVCON_CMD_MC_DEC
         else DEVCON_CMD_NONE)
     else
     if t = 0x4a then
        (if flags = 0 then DEVCON_CMD_ED
         else if flags = DEVCON_SEQ_FLAG_WHAT then DEVCON_CMD_DECSED
         else DEVCON_CMD_NONE)
     else
     if t = 0x4b then
        (if flags = 0 then DEVCON_CMD_EL
         else if flags = DEVCON_SEQ_FLAG_WHAT then DEVCON_CMD_DECSEL
         else DEVCON_CMD_NONE)
     else
     if t = 0x4c then
        (if flags = 0 then DEVCON_CMD_IL
         else DEVCON_CMD_NONE)
     else
     if t = 0x6c then
        (if flags = 0 then DEVCON_CMD_RM_ANSI
         else if flags = DEVCON_SEQ_FLAG_WHAT then DEVCON_CMD_RM_DEC
         else DEVCON_CMD_NONE)
     else
     if t = 0x4d then
        (if flags = 0 then DEVCON_CMD_DL
         else DEVCON_CMD_NONE)
     else
     if t = 0x6d then
        (if flags = 0 then DEVCON_CMD_SGR
         else if flags = DEVCON_SEQ_FLAG_GT then DEVCON_CMD_XTERM_SRV
         else DEVCON_CMD_NONE)
     else
     if t = 0x6e then
        (if flags = 0 then DEVCON_CMD_DSR_ANSI
         else if flags = DEVCON_SEQ_FLAG_GT then DEVCON_CMD_XTERM_RRV
         else if flags = DEVCON_SEQ_FLAG_WHAT then DEVCON_CMD_DSR_DEC
         else DEVCON_CMD_NONE)
     else
     if t = 0x50 then
        (if flags = 0 then DEVCON_CMD_DCH
         else if flags = DEVCON_SEQ_FLAG_SPACE then DEVCON_CMD_PPA
         else DEVCON_CMD_NONE)
     else
     if t = 0x70 then
        (if flags = 0 then DEVCON_CMD_DECSSL
         else if flags = DEVCON_SEQ_FLAG_SPACE then DEVCON_CMD_DECSSCLS
         else if flags = DEVCON_SEQ_FLAG_BANG then DEVCON_CMD_DECSTR
         else if flags = DEVCON_SEQ_FLAG_DQUOTE then DEVCON_CMD_DECSCL
         else if flags = DEVCON_SEQ_FLAG_CASH then DEVCON_CMD_DECRQM_ANSI
         else if flags = (DEVCON_SEQ_FLAG_CASH OR DEVCON_SEQ_FLAG_WHAT) then DEVCON_CMD_DECRQM_DEC
         else if flags = DEVCON_SEQ_FLAG_PCLOSE then DEVCON_CMD_DECSDPT
         else if flags = DEVCON_SEQ_FLAG_MULT then DEVCON_CMD_DECSPPCS
         else if flags = DEVCON_SEQ_FLAG_PLUS then DEVCON_CMD_DECSR
         else if flags = DEVCON_SEQ_FLAG_COMMA then DEVCON_CMD_DECLTOD
         else if flags = DEVCON_SEQ_FLAG_GT then DEVCON_CMD_XTERM_SPM
         else DEVCON_CMD_NONE)
     else
     if t = 0x51 then
        (if flags = DEVCON_SEQ_FLAG_SPACE then DEVCON_CMD_PPR
         else DEVCON_CMD_NONE)
     else
     if t = 0x71 then
        (if flags = 0 then DEVCON_CMD_DECLL
         else if flags = DEVCON_SEQ_FLAG_SPACE then DEVCON_CMD_DECSCUSR
         else if flags = DEVCON_SEQ_FLAG_DQUOTE then DEVCON_CMD_DECSCA
         else if flags = DEVCON_SEQ_FLAG_CASH then DEVCON_CMD_DECSDDT
         else if flags = DEVCON_SEQ_FLAG_MULT then DEVCON_CMD_DECSR
         else if flags = DEVCON_SEQ_FLAG_PLUS then DEVCON_CMD_DECELF
         else if flags = DEVCON_SEQ_FLAG_COMMA then DEVCON_CMD_DECTID
         else DEVCON_CMD_NONE)
     else
     if t = 0x52 then
        (if flags = DEVCON_SEQ_FLAG_SPACE then DEVCON_CMD_PPB
         else DEVCON_CMD_NONE)
     else
     if t = 0x72 then
        (if flags = 0 then DEVCON_CMD_DECSTBM
         else if flags = DEVCON_SEQ_FLAG_SPACE then DEVCON_CMD_DECSKCV
         else if flags = DEVCON_SEQ_FLAG_CASH then DEVCON_CMD_DECCARA
         else if flags = DEVCON_SEQ_FLAG_MULT then DEVCON_CMD_DECSCS
         else if flags = DEVCON_SEQ_FLAG_PLUS then DEVCON_CMD_DECSMKR
         else if flags = DEVCON_SEQ_FLAG_WHAT then 
             (if n_args seq \<le> 1 then DEVCON_CMD_XTERM_RPM
              else if n_args seq \<ge> 2 then DEVCON_CMD_DECPCTERM
              else DEVCON_CMD_NONE)
         else DEVCON_CMD_NONE)
     else
     if t = 0x53 then
        (if flags = 0 then DEVCON_CMD_SU
         else if flags = DEVCON_SEQ_FLAG_WHAT then DEVCON_CMD_XTERM_SGFX
         else DEVCON_CMD_NONE)
     else
     if t = 0x73 then
        (if flags = 0 then DEVCON_CMD_DECSLRM_OR_SC
         else if flags = DEVCON_SEQ_FLAG_CASH then DEVCON_CMD_DECSPRTT
         else if flags = DEVCON_SEQ_FLAG_MULT then DEVCON_CMD_DECSFC
         else if flags = DEVCON_SEQ_FLAG_WHAT then DEVCON_CMD_XTERM_SPM
         else DEVCON_CMD_NONE)
     else
     if t = 0x54 then
        (if flags = 0 then 
             (if n_args seq \<ge> 5 then DEVCON_CMD_XTERM_IHMT
              else if n_args seq < 5 then DEVCON_CMD_SD
              else DEVCON_CMD_NONE)
         else if flags = DEVCON_SEQ_FLAG_GT then DEVCON_CMD_XTERM_RTM
         else DEVCON_CMD_NONE)
     else
     if t = 0x74 then
        (if flags = 0 then DEVCON_CMD_XTERM_WM
         else if flags = DEVCON_SEQ_FLAG_SPACE then DEVCON_CMD_DECSWBV
         else if flags = DEVCON_SEQ_FLAG_DQUOTE then DEVCON_CMD_DECSRFR
         else if flags = DEVCON_SEQ_FLAG_CASH then DEVCON_CMD_DECRARA
         else if flags = DEVCON_SEQ_FLAG_GT then DEVCON_CMD_XTERM_STM
         else DEVCON_CMD_NONE)
     else
     if t = 0x55 then
        (if flags = 0 then DEVCON_CMD_NP
         else DEVCON_CMD_NONE)
     else
     if t = 0x75 then
        (if flags = 0 then DEVCON_CMD_RC
         else if flags = DEVCON_SEQ_FLAG_SPACE then DEVCON_CMD_DECSMBV
         else if flags = DEVCON_SEQ_FLAG_DQUOTE then DEVCON_CMD_DECSTRL
         else if flags = DEVCON_SEQ_FLAG_WHAT then DEVCON_CMD_DECRQUPSS
         else if sint (args seq ! 0) = 1 \<and> flags = DEVCON_SEQ_FLAG_CASH then DEVCON_CMD_DECRQTSR
         else if flags = DEVCON_SEQ_FLAG_MULT then DEVCON_CMD_DECSCP
         else if flags = DEVCON_SEQ_FLAG_COMMA then DEVCON_CMD_DECRQKT
         else DEVCON_CMD_NONE)
     else
     if t = 0x56 then
        (if flags = 0 then DEVCON_CMD_PP
         else DEVCON_CMD_NONE)
     else
     if t = 0x76 then
        (if flags = DEVCON_SEQ_FLAG_SPACE then DEVCON_CMD_DECSLCK
         else if flags = DEVCON_SEQ_FLAG_DQUOTE then DEVCON_CMD_DECRQDE
         else if flags = DEVCON_SEQ_FLAG_CASH then DEVCON_CMD_DECCRA
         else if flags = DEVCON_SEQ_FLAG_COMMA then DEVCON_CMD_DECRPKT
         else DEVCON_CMD_NONE)
     else
     if t = 0x57 then
        (if sint (args seq ! 0) = 5 \<and> flags = DEVCON_SEQ_FLAG_WHAT then DEVCON_CMD_DECST8C
         else DEVCON_CMD_NONE)
     else
     if t = 0x77 then
        (if flags = DEVCON_SEQ_FLAG_CASH then DEVCON_CMD_DECRQPSR
         else if flags = DEVCON_SEQ_FLAG_SQUOTE then DEVCON_CMD_DECEFR
         else if flags = DEVCON_SEQ_FLAG_PLUS then DEVCON_CMD_DECSPP
         else DEVCON_CMD_NONE)
     else
     if t = 0x58 then
        (if flags = 0 then DEVCON_CMD_ECH
         else DEVCON_CMD_NONE)
     else
     if t = 0x78 then
        (if flags = 0 then DEVCON_CMD_DECREQTPARM
         else if flags = DEVCON_SEQ_FLAG_CASH then DEVCON_CMD_DECFRA
         else if flags = DEVCON_SEQ_FLAG_MULT then DEVCON_CMD_DECSACE
         else if flags = DEVCON_SEQ_FLAG_PLUS then DEVCON_CMD_DECRQPKFM
         else DEVCON_CMD_NONE)
     else
     if t = 0x79 then
        (if flags = 0 then DEVCON_CMD_DECTST
         else if flags = DEVCON_SEQ_FLAG_MULT then DEVCON_CMD_DECRQCRA
         else if flags = DEVCON_SEQ_FLAG_PLUS then DEVCON_CMD_DECPKFMR
         else DEVCON_CMD_NONE)
     else
     if t = 0x5a then
        (if flags = 0 then DEVCON_CMD_CBT
         else DEVCON_CMD_NONE)
     else
     if t = 0x7a then
        (if flags = DEVCON_SEQ_FLAG_CASH then DEVCON_CMD_DECERA
         else if flags = DEVCON_SEQ_FLAG_SQUOTE then DEVCON_CMD_DECELR
         else if flags = DEVCON_SEQ_FLAG_MULT then DEVCON_CMD_DECINVM
         else if flags = DEVCON_SEQ_FLAG_PLUS then DEVCON_CMD_DECPKA
         else DEVCON_CMD_NONE)
     else
     if t = 0x40 then
        (if flags = 0 then DEVCON_CMD_ICH
         else DEVCON_CMD_NONE)
     else
     if t = 0x60 then
        (if flags = 0 then DEVCON_CMD_HPA
         else DEVCON_CMD_NONE)
     else
     if t = 0x7b then
        (if flags = DEVCON_SEQ_FLAG_CASH then DEVCON_CMD_DECSERA
         else if flags = DEVCON_SEQ_FLAG_SQUOTE then DEVCON_CMD_DECSLE
         else DEVCON_CMD_NONE)
     else
     if t = 0x7c then
        (if flags = DEVCON_SEQ_FLAG_CASH then DEVCON_CMD_DECSCPP
         else if flags = DEVCON_SEQ_FLAG_SQUOTE then DEVCON_CMD_DECRQLP
         else if flags = DEVCON_SEQ_FLAG_MULT then DEVCON_CMD_DECSNLS
         else DEVCON_CMD_NONE)
     else
     if t = 0x7d then
        (if flags = DEVCON_SEQ_FLAG_SPACE then DEVCON_CMD_DECKBD
         else if flags = DEVCON_SEQ_FLAG_CASH then DEVCON_CMD_DECSASD
         else if flags = DEVCON_SEQ_FLAG_SQUOTE then DEVCON_CMD_DECIC
         else DEVCON_CMD_NONE)
     else
     if t = 0x7e then
        (if flags = DEVCON_SEQ_FLAG_SPACE then DEVCON_CMD_DECTME
         else if flags = DEVCON_SEQ_FLAG_CASH then DEVCON_CMD_DECSSDT
         else if flags = DEVCON_SEQ_FLAG_SQUOTE then DEVCON_CMD_DECDC
         else DEVCON_CMD_NONE)
     else
     DEVCON_CMD_NONE)"

section \<open>Parser state machine (parser.c)\<close>

datatype parser_state =
    STATE_NONE
  | STATE_GROUND
  | STATE_ESC
  | STATE_ESC_INT
  | STATE_CSI_ENTRY
  | STATE_CSI_PARAM
  | STATE_CSI_INT
  | STATE_CSI_IGNORE
  | STATE_DCS_ENTRY
  | STATE_DCS_PARAM
  | STATE_DCS_INT
  | STATE_DCS_PASS
  | STATE_DCS_IGNORE
  | STATE_OSC_STRING
  | STATE_ST_IGNORE

datatype parser_action =
    ACTION_NONE
  | ACTION_CLEAR
  | ACTION_IGNORE
  | ACTION_PRINT
  | ACTION_EXECUTE
  | ACTION_COLLECT
  | ACTION_PARAM
  | ACTION_ESC_DISPATCH
  | ACTION_CSI_DISPATCH
  | ACTION_DCS_START
  | ACTION_DCS_COLLECT
  | ACTION_DCS_CONSUME
  | ACTION_DCS_DISPATCH
  | ACTION_OSC_START
  | ACTION_OSC_COLLECT
  | ACTION_OSC_CONSUME
  | ACTION_OSC_DISPATCH

record devcon_parser =
  seq :: devcon_seq
  st_alloc :: u64
  state :: parser_state

text \<open>
  The parser \<open>devcon_parser_new\<close> returns when both allocations succeed: a zeroed
  structure with a zeroed string buffer of \<open>st_alloc + 1\<close> bytes.
\<close>

definition devcon_parser_new :: devcon_parser where
  "devcon_parser_new =
     \<lparr>seq = \<lparr>s_type = DEVCON_SEQ_NONE, command = 0, terminator = 0, intermediates = 0,
             charset = 0, n_args = 0, args = replicate 16 0, n_st = 0,
             st = replicate 65 0\<rparr>,
      st_alloc = 64, state = STATE_NONE\<rparr>"

text \<open>The loop \<open>for (i = 0; i < DEVCON_PARSER_ARG_MAX; ++i) args[i] = -1\<close>.\<close>

fun clear_args :: "nat \<Rightarrow> nat \<Rightarrow> u32 list \<Rightarrow> u32 list" where
  "clear_args i 0 as = as"
| "clear_args i (Suc k) as = clear_args (Suc i) k (as[i := - 1])"

definition parser_clear :: "devcon_parser \<Rightarrow> devcon_parser" where
  "parser_clear parser =
     parser\<lparr>seq := (seq parser)\<lparr>
       command := DEVCON_CMD_NONE,
       terminator := 0,
       intermediates := 0,
       charset := DEVCON_CHARSET_NONE,
       n_args := 0,
       args := clear_args 0 (unat DEVCON_PARSER_ARG_MAX) (args (seq parser)),
       n_st := 0,
       st := (st (seq parser))[0 := 0]\<rparr>\<rparr>"

definition parser_ignore :: "devcon_parser \<Rightarrow> u32 \<Rightarrow> devcon_parser \<times> seq_type" where
  "parser_ignore parser raw =
     (let p = parser_clear parser;
          p' = p\<lparr>seq := (seq p)\<lparr>s_type := DEVCON_SEQ_IGNORE, command := DEVCON_CMD_NONE,
                                 terminator := raw, charset := DEVCON_CHARSET_NONE\<rparr>\<rparr>
      in (p', s_type (seq p')))"

definition parser_print :: "devcon_parser \<Rightarrow> u32 \<Rightarrow> devcon_parser \<times> seq_type" where
  "parser_print parser raw =
     (let p = parser_clear parser;
          p' = p\<lparr>seq := (seq p)\<lparr>s_type := DEVCON_SEQ_GRAPHIC, command := DEVCON_CMD_GRAPHIC,
                                 terminator := raw, charset := DEVCON_CHARSET_NONE\<rparr>\<rparr>
      in (p', s_type (seq p')))"

definition parser_execute :: "devcon_parser \<Rightarrow> u32 \<Rightarrow> devcon_parser \<times> seq_type" where
  "parser_execute parser raw =
     (let p = parser_clear parser;
          p1 = p\<lparr>seq := (seq p)\<lparr>s_type := DEVCON_SEQ_CONTROL, command := DEVCON_CMD_GRAPHIC,
                                 terminator := raw, charset := DEVCON_CHARSET_NONE\<rparr>\<rparr>;
          p' = p1\<lparr>seq := (seq p1)\<lparr>command := devcon_parse_host_control (seq p1)\<rparr>\<rparr>
      in (p', s_type (seq p')))"

definition parser_collect :: "devcon_parser \<Rightarrow> u32 \<Rightarrow> devcon_parser" where
  "parser_collect parser raw =
     (if 0x20 \<le> raw \<and> raw \<le> 0x3f then
        parser\<lparr>seq := (seq parser)\<lparr>
          intermediates := intermediates (seq parser) OR push_bit (unat (raw - 0x20)) 1\<rparr>\<rparr>
      else parser)"

text \<open>
  \<open>parser_param\<close>. The local \<open>new\<close> is an \<open>int\<close>: it is compared as a signed value, and
  \<open>new * 10 + raw - '0'\<close> is computed in 32 bits.
\<close>

definition parser_param :: "devcon_parser \<Rightarrow> u32 \<Rightarrow> devcon_parser" where
  "parser_param parser raw =
     (if raw = 0x3b then
        (if n_args (seq parser) < DEVCON_PARSER_ARG_MAX then
           parser\<lparr>seq := (seq parser)\<lparr>n_args := n_args (seq parser) + 1\<rparr>\<rparr>
         else parser)
      else if DEVCON_PARSER_ARG_MAX \<le> n_args (seq parser) then parser
      else if 0x30 \<le> raw \<and> raw \<le> 0x39 then
        (let new0 = args (seq parser) ! unat (n_args (seq parser));
             new1 = (if sint new0 < 0 then 0 else new0);
             new2 = new1 * 10 + raw - 0x30;
             new3 = (if 0xffff < sint new2 then 0xffff else new2)
         in parser\<lparr>seq := (seq parser)\<lparr>
              args := (args (seq parser))[unat (n_args (seq parser)) := new3]\<rparr>\<rparr>)
      else parser)"

definition parser_esc :: "devcon_parser \<Rightarrow> u32 \<Rightarrow> devcon_parser \<times> seq_type" where
  "parser_esc parser raw =
     (let p1 = parser\<lparr>seq := (seq parser)\<lparr>s_type := DEVCON_SEQ_ESCAPE,
                 command := DEVCON_CMD_NONE, terminator := raw,
                 charset := DEVCON_CHARSET_NONE\<rparr>\<rparr>;
          (cmd, cs_out) = devcon_parse_host_escape (seq p1);
          p2 = (case cs_out of None \<Rightarrow> p1
                | Some cs \<Rightarrow> p1\<lparr>seq := (seq p1)\<lparr>charset := cs\<rparr>\<rparr>);
          p' = p2\<lparr>seq := (seq p2)\<lparr>command := cmd\<rparr>\<rparr>
      in (p', s_type (seq p')))"

definition parser_csi :: "devcon_parser \<Rightarrow> u32 \<Rightarrow> devcon_parser \<times> seq_type" where
  "parser_csi parser raw =
     (let p0 = (if n_args (seq parser) < DEVCON_PARSER_ARG_MAX then
                  (if 0 < n_args (seq parser) \<or>
                      0 \<le> sint (args (seq parser) ! unat (n_args (seq parser)))
                   then parser\<lparr>seq := (seq parser)\<lparr>n_args := n_args (seq parser) + 1\<rparr>\<rparr>
                   else parser)
                else parser);
          p1 = p0\<lparr>seq := (seq p0)\<lparr>s_type := DEVCON_SEQ_CSI, command := DEVCON_CMD_NONE,
                                  terminator := raw, charset := DEVCON_CHARSET_NONE\<rparr>\<rparr>;
          p' = p1\<lparr>seq := (seq p1)\<lparr>command := devcon_parse_host_csi (seq p1)\<rparr>\<rparr>
      in (p', s_type (seq p')))"

text \<open>
  \<open>parser_transition\<close>: perform the state transition (\<open>STATE_NONE\<close> keeps the state) and
  the action. The DCS and OSC actions are not implemented in the source.
\<close>

definition parser_transition ::
  "devcon_parser \<Rightarrow> u32 \<Rightarrow> parser_state \<Rightarrow> parser_action \<Rightarrow> devcon_parser \<times> seq_type" where
  "parser_transition parser0 raw new_state action =
     (let parser = (if new_state \<noteq> STATE_NONE then parser0\<lparr>state := new_state\<rparr>
                    else parser0)
      in case action of
           ACTION_NONE \<Rightarrow> (parser, DEVCON_SEQ_NONE)
         | ACTION_CLEAR \<Rightarrow> (parser_clear parser, DEVCON_SEQ_NONE)
         | ACTION_IGNORE \<Rightarrow> parser_ignore parser raw
         | ACTION_PRINT \<Rightarrow> parser_print parser raw
         | ACTION_EXECUTE \<Rightarrow> parser_execute parser raw
         | ACTION_COLLECT \<Rightarrow> (parser_collect parser raw, DEVCON_SEQ_NONE)
         | ACTION_PARAM \<Rightarrow> (parser_param parser raw, DEVCON_SEQ_NONE)
         | ACTION_ESC_DISPATCH \<Rightarrow> parser_esc parser raw
         | ACTION_CSI_DISPATCH \<Rightarrow> parser_csi parser raw
         | ACTION_DCS_START \<Rightarrow> (parser, DEVCON_SEQ_NONE)
         | ACTION_DCS_COLLECT \<Rightarrow> (parser, DEVCON_SEQ_NONE)
         | ACTION_DCS_CONSUME \<Rightarrow> (parser, DEVCON_SEQ_NONE)
         | ACTION_DCS_DISPATCH \<Rightarrow> (parser, DEVCON_SEQ_NONE)
         | ACTION_OSC_START \<Rightarrow> (parser, DEVCON_SEQ_NONE)
         | ACTION_OSC_COLLECT \<Rightarrow> (parser, DEVCON_SEQ_NONE)
         | ACTION_OSC_CONSUME \<Rightarrow> (parser, DEVCON_SEQ_NONE)
         | ACTION_OSC_DISPATCH \<Rightarrow> (parser, DEVCON_SEQ_NONE))"

text \<open>
  The tables of \<open>parser_feed_to_state\<close>: for the current state and the input, the state to
  move to (\<open>STATE_NONE\<close> to stay) and the action to run. Every value of
  \<open>parser_state\<close> has a table, so the source's final \<open>-EINVAL\<close> is not reached.
\<close>

definition state_table :: "parser_state \<Rightarrow> u32 \<Rightarrow> parser_state \<times> parser_action" where
  "state_table s raw =
     (case s of
        STATE_NONE \<Rightarrow>
          (if raw \<le> 0x1f \<or> (0x80 \<le> raw \<and> raw \<le> 0x9b) \<or> (0x9d \<le> raw \<and> raw \<le> 0x9f)
           then (STATE_NONE, ACTION_EXECUTE)
           else if raw = 0x9c then (STATE_NONE, ACTION_IGNORE)
           else (STATE_NONE, ACTION_PRINT))
      | STATE_GROUND \<Rightarrow>
          (if raw \<le> 0x1f \<or> (0x80 \<le> raw \<and> raw \<le> 0x9b) \<or> (0x9d \<le> raw \<and> raw \<le> 0x9f)
           then (STATE_NONE, ACTION_EXECUTE)
           else if raw = 0x9c then (STATE_NONE, ACTION_IGNORE)
           else (STATE_NONE, ACTION_PRINT))
      | STATE_ESC \<Rightarrow>
          (if raw \<le> 0x1f then (STATE_NONE, ACTION_EXECUTE)
           else if 0x20 \<le> raw \<and> raw \<le> 0x2f then (STATE_ESC_INT, ACTION_COLLECT)
           else if (0x30 \<le> raw \<and> raw \<le> 0x4f) \<or> (0x51 \<le> raw \<and> raw \<le> 0x57) \<or>
                   (0x59 \<le> raw \<and> raw \<le> 0x5a) \<or> raw = 0x5c \<or>
                   (0x60 \<le> raw \<and> raw \<le> 0x7e)
           then (STATE_GROUND, ACTION_ESC_DISPATCH)
           else if raw = 0x50 then (STATE_DCS_ENTRY, ACTION_CLEAR)
           else if raw = 0x5b then (STATE_CSI_ENTRY, ACTION_CLEAR)
           else if raw = 0x5d then (STATE_OSC_STRING, ACTION_CLEAR)
           else if raw = 0x58 \<or> raw = 0x5e \<or> raw = 0x5f then (STATE_ST_IGNORE, ACTION_NONE)
           else if raw = 0x7f then (STATE_NONE, ACTION_IGNORE)
           else if raw = 0x9c then (STATE_GROUND, ACTION_IGNORE)
           else (STATE_ESC_INT, ACTION_COLLECT))
      | STATE_ESC_INT \<Rightarrow>
          (if raw \<le> 0x1f then (STATE_NONE, ACTION_EXECUTE)
           else if 0x20 \<le> raw \<and> raw \<le> 0x2f then (STATE_NONE, ACTION_COLLECT)
           else if 0x30 \<le> raw \<and> raw \<le> 0x7e then (STATE_GROUND, ACTION_ESC_DISPATCH)
           else if raw = 0x7f then (STATE_NONE, ACTION_IGNORE)
           else if raw = 0x9c then (STATE_GROUND, ACTION_IGNORE)
           else (STATE_NONE, ACTION_COLLECT))
      | STATE_CSI_ENTRY \<Rightarrow>
          (if raw \<le> 0x1f then (STATE_NONE, ACTION_EXECUTE)
           else if 0x20 \<le> raw \<and> raw \<le> 0x2f then (STATE_CSI_INT, ACTION_COLLECT)
           else if raw = 0x3a then (STATE_CSI_IGNORE, ACTION_NONE)
           else if (0x30 \<le> raw \<and> raw \<le> 0x39) \<or> raw = 0x3b
           then (STATE_CSI_PARAM, ACTION_PARAM)
           else if 0x3c \<le> raw \<and> raw \<le> 0x3f then (STATE_CSI_PARAM, ACTION_COLLECT)
           else if 0x40 \<le> raw \<and> raw \<le> 0x7e then (STATE_GROUND, ACTION_CSI_DISPATCH)
           else if raw = 0x7f then (STATE_NONE, ACTION_IGNORE)
           else if raw = 0x9c then (STATE_GROUND, ACTION_IGNORE)
           else (STATE_CSI_IGNORE, ACTION_NONE))
      | STATE_CSI_PARAM \<Rightarrow>
          (if raw \<le> 0x1f then (STATE_NONE, ACTION_EXECUTE)
           else if 0x20 \<le> raw \<and> raw \<le> 0x2f then (STATE_CSI_INT, ACTION_COLLECT)
           else if (0x30 \<le> raw \<and> raw \<le> 0x39) \<or> raw = 0x3b
           then (STATE_NONE, ACTION_PARAM)
           else if raw = 0x3a \<or> (0x3c \<le> raw \<and> raw \<le> 0x3f)
           then (STATE_CSI_IGNORE, ACTION_NONE)
           else if 0x40 \<le> raw \<and> raw \<le> 0x7e then (STATE_GROUND, ACTION_CSI_DISPATCH)
           else if raw = 0x7f then (STATE_NONE, ACTION_IGNORE)
           else if raw = 0x9c then (STATE_GROUND, ACTION_IGNORE)
           else (STATE_CSI_IGNORE, ACTION_NONE))
      | STATE_CSI_INT \<Rightarrow>
          (if raw \<le> 0x1f then (STATE_NONE, ACTION_EXECUTE)
           else if 0x20 \<le> raw \<and> raw \<le> 0x2f then (STATE_NONE, ACTION_COLLECT)
           else if 0x30 \<le> raw \<and> raw \<le> 0x3f then (STATE_CSI_IGNORE, ACTION_NONE)
           else if 0x40 \<le> raw \<and> raw \<le> 0x7e then (STATE_GROUND, ACTION_CSI_DISPATCH)
           else if raw = 0x7f then (STATE_NONE, ACTION_IGNORE)
           else if raw = 0x9c then (STATE_GROUND, ACTION_IGNORE)
           else (STATE_CSI_IGNORE, ACTION_NONE))
      | STATE_CSI_IGNORE \<Rightarrow>
          (if raw \<le> 0x1f then (STATE_NONE, ACTION_EXECUTE)
           else if 0x20 \<le> raw \<and> raw \<le> 0x3f then (STATE_NONE, ACTION_NONE)
           else if 0x40 \<le> raw \<and> raw \<le> 0x7e then (STATE_GROUND, ACTION_NONE)
           else if raw = 0x7f then (STATE_NONE, ACTION_IGNORE)
           else if raw = 0x9c then (STATE_GROUND, ACTION_IGNORE)
           else (STATE_NONE, ACTION_NONE))
      | STATE_DCS_ENTRY \<Rightarrow>
          (if raw \<le> 0x1f then (STATE_NONE, ACTION_IGNORE)
           else if 0x20 \<le> raw \<and> raw \<le> 0x2f then (STATE_DCS_INT, ACTION_COLLECT)
           else if raw = 0x3a then (STATE_DCS_IGNORE, ACTION_NONE)
           else if (0x30 \<le> raw \<and> raw \<le> 0x39) \<or> raw = 0x3b
           then (STATE_DCS_PARAM, ACTION_PARAM)
           else if 0x3c \<le> raw \<and> raw \<le> 0x3f then (STATE_DCS_PARAM, ACTION_COLLECT)
           else if 0x40 \<le> raw \<and> raw \<le> 0x7e then (STATE_DCS_PASS, ACTION_DCS_CONSUME)
           else if raw = 0x7f then (STATE_NONE, ACTION_IGNORE)
           else if raw = 0x9c then (STATE_GROUND, ACTION_IGNORE)
           else (STATE_DCS_PASS, ACTION_DCS_CONSUME))
      | STATE_DCS_PARAM \<Rightarrow>
          (if raw \<le> 0x1f then (STATE_NONE, ACTION_IGNORE)
           else if 0x20 \<le> raw \<and> raw \<le> 0x2f then (STATE_DCS_INT, ACTION_COLLECT)
           else if (0x30 \<le> raw \<and> raw \<le> 0x39) \<or> raw = 0x3b
           then (STATE_NONE, ACTION_PARAM)
           else if raw = 0x3a \<or> (0x3c \<le> raw \<and> raw \<le> 0x3f)
           then (STATE_DCS_IGNORE, ACTION_NONE)
           else if 0x40 \<le> raw \<and> raw \<le> 0x7e then (STATE_DCS_PASS, ACTION_DCS_CONSUME)
           else if raw = 0x7f then (STATE_NONE, ACTION_IGNORE)
           else if raw = 0x9c then (STATE_GROUND, ACTION_IGNORE)
           else (STATE_DCS_PASS, ACTION_DCS_CONSUME))
      | STATE_DCS_INT \<Rightarrow>
          (if raw \<le> 0x1f then (STATE_NONE, ACTION_IGNORE)
           else if 0x20 \<le> raw \<and> raw \<le> 0x2f then (STATE_NONE, ACTION_COLLECT)
           else if 0x30 \<le> raw \<and> raw \<le> 0x3f then (STATE_DCS_IGNORE, ACTION_NONE)
           else if 0x40 \<le> raw \<and> raw \<le> 0x7e then (STATE_DCS_PASS, ACTION_DCS_CONSUME)
           else if raw = 0x7f then (STATE_NONE, ACTION_IGNORE)
           else if raw = 0x9c then (STATE_GROUND, ACTION_IGNORE)
           else (STATE_DCS_PASS, ACTION_DCS_CONSUME))
      | STATE_DCS_PASS \<Rightarrow>
          (if raw \<le> 0x7e then (STATE_NONE, ACTION_DCS_COLLECT)
           else if raw = 0x7f then (STATE_NONE, ACTION_IGNORE)
           else if raw = 0x9c then (STATE_GROUND, ACTION_DCS_DISPATCH)
           else (STATE_NONE, ACTION_DCS_COLLECT))
      | STATE_DCS_IGNORE \<Rightarrow>
          (if raw \<le> 0x7f then (STATE_NONE, ACTION_IGNORE)
           else if raw = 0x9c then (STATE_GROUND, ACTION_NONE)
           else (STATE_NONE, ACTION_NONE))
      | STATE_OSC_STRING \<Rightarrow>
          (if raw \<le> 0x06 \<or> (0x08 \<le> raw \<and> raw \<le> 0x1f) then (STATE_NONE, ACTION_IGNORE)
           else if 0x20 \<le> raw \<and> raw \<le> 0x7f then (STATE_NONE, ACTION_OSC_COLLECT)
           else if raw = 0x07 \<or> raw = 0x9c then (STATE_GROUND, ACTION_OSC_DISPATCH)
           else (STATE_NONE, ACTION_OSC_COLLECT))
      | STATE_ST_IGNORE \<Rightarrow>
          (if raw \<le> 0x7f then (STATE_NONE, ACTION_IGNORE)
           else if raw = 0x9c then (STATE_GROUND, ACTION_IGNORE)
           else (STATE_NONE, ACTION_NONE)))"

definition parser_feed_to_state :: "devcon_parser \<Rightarrow> u32 \<Rightarrow> devcon_parser \<times> seq_type" where
  "parser_feed_to_state parser raw =
     (let (new_state, action) = state_table (state parser) raw
      in parser_transition parser raw new_state action)"

text \<open>
  \<open>devcon_parser_feed(parser, seq_out, raw)\<close>: the new parser, the return value, and the
  sequence stored in \<open>seq_out\<close> (\<open>None\<close> for NULL, which is stored when nothing is
  dispatched).
\<close>

definition devcon_parser_feed ::
  "devcon_parser \<Rightarrow> u32 \<Rightarrow> devcon_parser \<times> seq_type \<times> devcon_seq option" where
  "devcon_parser_feed parser raw =
     (let (p, ret) =
            (if raw = 0x18 then parser_transition parser raw STATE_GROUND ACTION_IGNORE
             else if raw = 0x1a then parser_transition parser raw STATE_GROUND ACTION_EXECUTE
             else if (0x80 \<le> raw \<and> raw \<le> 0x8f) \<or> (0x91 \<le> raw \<and> raw \<le> 0x97) \<or>
                     (0x99 \<le> raw \<and> raw \<le> 0x9a)
             then parser_transition parser raw STATE_GROUND ACTION_EXECUTE
             else if raw = 0x1b then parser_transition parser raw STATE_ESC ACTION_CLEAR
             else if raw = 0x98 \<or> raw = 0x9e \<or> raw = 0x9f
             then parser_transition parser raw STATE_ST_IGNORE ACTION_NONE
             else if raw = 0x90 then parser_transition parser raw STATE_DCS_ENTRY ACTION_CLEAR
             else if raw = 0x9d then parser_transition parser raw STATE_OSC_STRING ACTION_CLEAR
             else if raw = 0x9b then parser_transition parser raw STATE_CSI_ENTRY ACTION_CLEAR
             else parser_feed_to_state parser raw)
      in (p, ret, if ret = DEVCON_SEQ_NONE then None else Some (seq p)))"

text \<open>Feeding a list of values, one call each, keeping what each call returned.\<close>

fun parser_feed_all ::
  "devcon_parser \<Rightarrow> u32 list \<Rightarrow> devcon_parser \<times> (seq_type \<times> devcon_seq option) list" where
  "parser_feed_all p [] = (p, [])"
| "parser_feed_all p (raw # raws) =
     (let (p1, ret, out) = devcon_parser_feed p raw;
          (p2, outs) = parser_feed_all p1 raws
      in (p2, (ret, out) # outs))"

text \<open>
  Two concrete runs used below: the sequence assembled from \<open>ESC [ 1;2;3;4;5;6 T\<close>, and
  the parser after \<open>CSI\<close> and sixteen semicolons.
\<close>

definition csi_T_six_args :: devcon_seq where
  "csi_T_six_args =
     seq (fst (parser_feed_all devcon_parser_new
       [0x1B, 0x5B, 0x31, 0x3B, 0x32, 0x3B, 0x33, 0x3B, 0x34, 0x3B, 0x35, 0x3B, 0x36, 0x54]))"

definition sixteen_params :: devcon_parser where
  "sixteen_params =
     fst (parser_feed_all devcon_parser_new
       [0x9b, 0x3b, 0x3b, 0x3b, 0x3b, 0x3b, 0x3b, 0x3b, 0x3b,
        0x3b, 0x3b, 0x3b, 0x3b, 0x3b, 0x3b, 0x3b, 0x3b])"

section \<open>Verified properties\<close>

subsection \<open>Characters\<close>

lemma mask21_64: "(x :: u64) AND 0x1fffff = take_bit 21 x"
proof -
  have "(0x1fffff :: u64) = mask 21" by (simp add: mask_eq_exp_minus_1)
  then show ?thesis by (simp add: take_bit_eq_mask)
qed

lemma pack_eq:
  "devcon_char_pack v1 v2 v3 =
     1 OR push_bit 43 (take_bit 21 (ucast v1)) OR push_bit 22 (take_bit 21 (ucast v2)) OR
     push_bit 1 (take_bit 21 (ucast v3))"
  by (simp add: devcon_char_pack_def Let_def DEVCON_CHAR_UCS4_MASK_def mask21_64 or.assoc)

lemma bit_bound32: "(g :: u32) < 2 ^ k \<Longrightarrow> bit g n \<Longrightarrow> n < k"
  by (metis less_mask_eq bit_and_iff bit_mask_iff)

lemma ucs4_bits: "(v :: u32) \<le> 0x1fffff \<Longrightarrow> bit v n \<Longrightarrow> n < 21"
proof -
  assume "v \<le> 0x1fffff" and b: "bit v n"
  then have "v < 2 ^ 21" by (simp add: word_le_nat_alt word_less_nat_alt)
  from bit_bound32 [OF this b] show ?thesis .
qed

lemma bit_times2:
  "bit ((a :: 'a::len word) * 2) n \<longleftrightarrow> 0 < n \<and> n < LENGTH('a) \<and> bit a (n - 1)"
  by (auto simp: mult.commute [of a 2] bit_double_iff possible_bit_word)

lemma unpack_slots:
  assumes "v1 \<le> 0x1fffff" "v2 \<le> 0x1fffff" "v3 \<le> 0x1fffff"
  shows "ucast (drop_bit 43 (devcon_char_pack v1 v2 v3) AND 0x1fffff) = v1"
        "ucast (drop_bit 22 (devcon_char_pack v1 v2 v3) AND 0x1fffff) = v2"
        "ucast (drop_bit 1 (devcon_char_pack v1 v2 v3) AND 0x1fffff) = v3"
  unfolding pack_eq mask21_64
  by (rule bit_word_eqI; auto simp: bit_simps bit_times2 dest: ucs4_bits [OF assms(1)] ucs4_bits [OF assms(2)] ucs4_bits [OF assms(3)])+

lemma pack_tag: "devcon_char_pack v1 v2 v3 AND 1 = 1" "devcon_char_pack v1 v2 v3 \<noteq> 0"
proof -
  show t: "devcon_char_pack v1 v2 v3 AND 1 = 1"
    unfolding pack_eq by (rule bit_word_eqI) (auto simp: bit_simps bit_times2)
  then show "devcon_char_pack v1 v2 v3 \<noteq> 0" by auto
qed

lemma max1_le: "DEVCON_CHAR_UCS4_MAX + 1 \<le> 0x1fffff" "DEVCON_CHAR_UCS4_MAX < DEVCON_CHAR_UCS4_MAX + 1"
  by (simp_all add: DEVCON_CHAR_UCS4_MAX_def)

lemma valid_le: "a \<le> DEVCON_CHAR_UCS4_MAX \<Longrightarrow> a \<le> 0x1fffff"
  by (simp add: DEVCON_CHAR_UCS4_MAX_def word_le_nat_alt)

lemma unpack_pack:
  assumes "v1 \<le> 0x1fffff" "v2 \<le> 0x1fffff" "v3 \<le> 0x1fffff"
  shows "devcon_char_unpack (devcon_char_pack v1 v2 v3) =
           ((if DEVCON_CHAR_UCS4_MAX < v1 then 0
             else if DEVCON_CHAR_UCS4_MAX < v2 then 1
             else if DEVCON_CHAR_UCS4_MAX < v3 then 2 else 3), v1, v2, v3)"
proof -
  have s3: "ucast (drop_bit (Suc 0) (devcon_char_pack v1 v2 v3) AND 0x1fffff) = v3"
    using unpack_slots(3) [OF assms] by simp
  show ?thesis
    by (simp add: devcon_char_unpack_def Let_def DEVCON_CHAR_UCS4_MASK_def
        unpack_slots(1,2) [OF assms] s3)
qed

lemma unpack_pack1:
  "a \<le> DEVCON_CHAR_UCS4_MAX \<Longrightarrow>
   devcon_char_unpack (devcon_char_pack1 a) =
     (1, a, DEVCON_CHAR_UCS4_MAX + 1, DEVCON_CHAR_UCS4_MAX + 1)"
  using unpack_pack [OF valid_le max1_le(1) max1_le(1), of a] max1_le(2)
  by (simp add: devcon_char_pack1_def devcon_char_pack2_def devcon_char_pack3_def not_less)

lemma unpack_pack2:
  "a \<le> DEVCON_CHAR_UCS4_MAX \<Longrightarrow> b \<le> DEVCON_CHAR_UCS4_MAX \<Longrightarrow>
   devcon_char_unpack (devcon_char_pack2 a b) = (2, a, b, DEVCON_CHAR_UCS4_MAX + 1)"
  using unpack_pack [OF valid_le valid_le max1_le(1), of a b] max1_le(2)
  by (simp add: devcon_char_pack2_def devcon_char_pack3_def not_less)

lemma unpack_pack3:
  "a \<le> DEVCON_CHAR_UCS4_MAX \<Longrightarrow> b \<le> DEVCON_CHAR_UCS4_MAX \<Longrightarrow> c \<le> DEVCON_CHAR_UCS4_MAX \<Longrightarrow>
   devcon_char_unpack (devcon_char_pack3 a b c) = (3, a, b, c)"
  using unpack_pack [OF valid_le valid_le valid_le, of a b c]
  by (simp add: devcon_char_pack3_def not_less)

lemma packed_kind:
  "\<not> devcon_char_is_null (devcon_char_pack v1 v2 v3)"
  "\<not> devcon_char_is_allocated (devcon_char_pack v1 v2 v3)"
  by (simp_all add: devcon_char_is_null_def devcon_char_is_allocated_def pack_tag)

lemmas packed_kinds =
  packed_kind [of _ "DEVCON_CHAR_UCS4_MAX + 1" "DEVCON_CHAR_UCS4_MAX + 1",
    folded devcon_char_pack3_def, folded devcon_char_pack2_def, folded devcon_char_pack1_def]
  packed_kind [of _ _ "DEVCON_CHAR_UCS4_MAX + 1",
    folded devcon_char_pack3_def, folded devcon_char_pack2_def]
  packed_kind [folded devcon_char_pack3_def]

lemma char_free_packed [simp]:
  "devcon_char_free (devcon_char_pack1 a) m = m"
  "devcon_char_free (devcon_char_pack2 a b) m = m"
  "devcon_char_free (devcon_char_pack3 a b c) m = m"
  "devcon_char_free DEVCON_CHAR_NULL m = m"
  by (simp_all add: devcon_char_free_def packed_kinds)
     (simp add: devcon_char_is_allocated_def devcon_char_is_null_def DEVCON_CHAR_NULL_def)

lemma list_len_cases:
  "length xs = 1 \<Longrightarrow> xs = [xs ! 0]"
  "length xs = 2 \<Longrightarrow> xs = [xs ! 0, xs ! 1]"
  "length xs = 3 \<Longrightarrow> xs = [xs ! 0, xs ! 1, xs ! 2]"
  by (cases xs; cases "tl xs"; cases "tl (tl xs)"; cases "tl (tl (tl xs))"; simp; fail)+

lemma char_holds_valid: "char_holds m c cps \<Longrightarrow> x \<in> set cps \<Longrightarrow> x \<le> DEVCON_CHAR_UCS4_MAX"
  by (simp add: char_holds_def list_all_iff)

lemma merge_step_null:
  assumes "char_holds m c []" "a \<le> DEVCON_CHAR_UCS4_MAX"
  shows "devcon_char_merge c a m = Some (devcon_char_pack1 a, m) \<and>
         char_holds m (devcon_char_pack1 a) [a]"
proof -
  from assms(2) have na: "\<not> DEVCON_CHAR_UCS4_MAX < a" by (simp add: not_less)
  show ?thesis
    using assms na
    by (simp add: char_holds_def devcon_char_merge_def devcon_char_build_def
      devcon_char_is_null_def DEVCON_CHAR_NULL_def devcon_char_same_def
      devcon_char_free_def devcon_char_is_allocated_def)
qed

lemma merge_step_1:
  assumes "char_holds m c [x]" "a \<le> DEVCON_CHAR_UCS4_MAX"
  shows "devcon_char_merge c a m = Some (devcon_char_pack2 x a, m) \<and>
         char_holds m (devcon_char_pack2 x a) [x, a]"
proof -
  from assms(2) have na: "\<not> DEVCON_CHAR_UCS4_MAX < a" by (simp add: not_less)
  show ?thesis
    using assms na
    by (simp add: char_holds_def devcon_char_merge_def devcon_char_build_def
      packed_kinds unpack_pack1 climit_def)
qed

lemma merge_step_2:
  assumes "char_holds m c [x, y]" "a \<le> DEVCON_CHAR_UCS4_MAX"
  shows "devcon_char_merge c a m = Some (devcon_char_pack3 x y a, m) \<and>
         char_holds m (devcon_char_pack3 x y a) [x, y, a]"
proof -
  from assms(2) have na: "\<not> DEVCON_CHAR_UCS4_MAX < a" by (simp add: not_less)
  show ?thesis
    using assms na
    by (simp add: char_holds_def devcon_char_merge_def devcon_char_build_def
      packed_kinds unpack_pack2 climit_def)
qed

lemma replicate_update_same: "(replicate k x)[i := x] = replicate k x"
  by (induction k arbitrary: i) (simp_all split: nat.split)

lemma alloc_ok:
  assumes "pending m = p # ps" "p \<noteq> 0" "p AND 1 = 0"
  shows "devcon_char_alloc k m =
           (p, m\<lparr>pending := ps,
                 objs := (objs m)(p \<mapsto> \<lparr>ch_n = k, codepoints = replicate (Suc (unat k)) 0\<rparr>)\<rparr>)"
  using assms
  by (simp add: devcon_char_alloc_def kmalloc_def replicate_update_same del: replicate.simps)

lemma build_alloc_ok:
  assumes "pending m = p # ps" "p \<noteq> 0" "p AND 1 = 0"
    and "length cps = unat k" "unat k < climit" "take (unat k) t = cps"
  shows "char_build_alloc base t k a m =
           (p, m\<lparr>pending := ps,
                 objs := (objs m)(p \<mapsto> \<lparr>ch_n = k + 1, codepoints = cps @ [a, 0]\<rparr>)\<rparr>)"
proof -
  have k1: "unat (k + 1) = Suc (unat k)"
    using assms(5) by (simp add: climit_def unat_word_ariths)
  have d: "drop (unat k) (replicate (Suc (Suc (unat k))) (0::u32)) = [0, 0]"
    by (simp only: drop_replicate) (simp add: numeral_2_eq_2)
  have "(take (unat k) t @ drop (unat k) (replicate (Suc (Suc (unat k))) (0::u32)))[unat k := a]
        = cps @ [a, 0]"
    unfolding d using assms(4,6) by (simp add: list_update_append)
  then show ?thesis
    using assms(1-3,5)
    by (simp add: char_build_alloc_def alloc_ok [OF assms(1-3)] Let_def k1 del: replicate.simps)
qed

lemma merge_step_3:
  assumes "char_holds m c [x, y, z]" "a \<le> DEVCON_CHAR_UCS4_MAX"
    and "pending m = p # ps" "p \<noteq> 0" "p AND 1 = 0"
  shows "\<exists>m'. devcon_char_merge c a m = Some (p, m') \<and> char_holds m' p [x, y, z, a] \<and>
              pending m' = ps"
proof -
  from assms(2) have na: "\<not> DEVCON_CHAR_UCS4_MAX < a" by (simp add: not_less)
  have c: "c = devcon_char_pack3 x y z" and v: "x \<le> DEVCON_CHAR_UCS4_MAX"
    "y \<le> DEVCON_CHAR_UCS4_MAX" "z \<le> DEVCON_CHAR_UCS4_MAX"
    using assms(1) by (simp_all add: char_holds_def)
  have b: "char_build_alloc c [x, y, z] 3 a m =
           (p, m\<lparr>pending := ps,
                 objs := (objs m)(p \<mapsto> \<lparr>ch_n = 3 + 1, codepoints = [x, y, z] @ [a, 0]\<rparr>)\<rparr>)"
    by (rule build_alloc_ok [OF assms(3-5)]) (simp_all add: climit_def)
  have pc: "p \<noteq> c"
    using assms(5) pack_tag(1) [of x y z] by (auto simp: c devcon_char_pack3_def)
  show ?thesis
    using na v pc assms(2,4,5) 
    by (simp add: devcon_char_merge_def devcon_char_build_def c packed_kinds unpack_pack3
        b [unfolded c] devcon_char_same_def char_holds_def climit_def)
qed

lemma char_holds_boxed:
  "3 < length cps \<Longrightarrow>
   char_holds m c cps \<longleftrightarrow>
     list_all (\<lambda>c. c \<le> DEVCON_CHAR_UCS4_MAX) cps \<and> c \<noteq> 0 \<and> c AND 1 = 0 \<and>
     length cps \<le> climit \<and>
     objs m c = Some \<lparr>ch_n = of_nat (length cps), codepoints = cps @ [0]\<rparr>"
  by (auto simp: char_holds_def)

lemma merge_step_boxed:
  assumes "char_holds m c cps" "3 < length cps" "length cps < climit" "a \<le> DEVCON_CHAR_UCS4_MAX"
    and "pending m = p # ps" "p \<noteq> 0" "p AND 1 = 0"
  shows "\<exists>m'. devcon_char_merge c a m = Some (p, m') \<and> char_holds m' p (cps @ [a]) \<and>
              pending m' = ps"
proof -
  from assms(4) have na: "\<not> DEVCON_CHAR_UCS4_MAX < a" by (simp add: not_less)
  let ?k = "of_nat (length cps) :: u8"
  have uk: "unat ?k = length cps"
    using assms(3) by (simp add: climit_def unat_of_nat)
  have c: "c \<noteq> 0" "c AND 1 = 0"
    "objs m c = Some \<lparr>ch_n = ?k, codepoints = cps @ [0]\<rparr>"
    and v: "list_all (\<lambda>c. c \<le> DEVCON_CHAR_UCS4_MAX) cps"
    using assms(1,2) by (simp_all add: char_holds_boxed)
  have b: "char_build_alloc c (cps @ [0]) ?k a m =
           (p, m\<lparr>pending := ps,
                 objs := (objs m)(p \<mapsto> \<lparr>ch_n = ?k + 1, codepoints = cps @ [a, 0]\<rparr>)\<rparr>)"
    by (rule build_alloc_ok [OF assms(5-7)]) (use assms(3) in \<open>simp_all add: uk\<close>)
  have k1: "?k + 1 = of_nat (Suc (length cps))" by simp
  show ?thesis
    using na v c assms(2-4,6,7)
    by (simp add: devcon_char_merge_def devcon_char_build_def b k1
        devcon_char_is_null_def devcon_char_is_allocated_def
        devcon_char_same_def devcon_char_free_def kfree_def char_holds_boxed)
qed

lemma merge_at_limit:
  assumes "char_holds m c cps" "length cps = climit"
  shows "devcon_char_merge c a m = Some (c, m)"
proof -
  let ?k = "of_nat (length cps) :: u8"
  have uk: "unat ?k = length cps"
    using assms(2) by (simp add: climit_def unat_of_nat)
  have c: "c \<noteq> 0" "c AND 1 = 0"
    "objs m c = Some \<lparr>ch_n = ?k, codepoints = cps @ [0]\<rparr>"
    using assms by (simp_all add: char_holds_boxed climit_def)
  show ?thesis
    using c assms(2) uk
    by (simp add: devcon_char_merge_def devcon_char_build_def char_build_alloc_def
        devcon_char_is_null_def devcon_char_is_allocated_def devcon_char_same_def)
qed

lemma allocs_ok_0 [simp]: "allocs_ok 0 m"
  by (simp add: allocs_ok_def)

lemma allocs_ok_Suc:
  "allocs_ok (Suc k) m \<Longrightarrow>
   \<exists>p ps. pending m = p # ps \<and> p \<noteq> 0 \<and> p AND 1 = 0 \<and>
          (\<forall>m'. pending m' = ps \<longrightarrow> allocs_ok k m')"
  by (cases "pending m") (auto simp: allocs_ok_def)

lemma allocs_ok_cong: "pending m' = pending m \<Longrightarrow> allocs_ok k m' = allocs_ok k m"
  by (simp add: allocs_ok_def)

lemma merge_all_packed_holds:
  assumes "char_holds m c cps" "length cps + length as \<le> climit"
    and "list_all (\<lambda>c. c \<le> DEVCON_CHAR_UCS4_MAX) as"
    and "allocs_ok ((length cps + length as - 3) - (length cps - 3)) m"
  shows "\<exists>c' m'. char_merge_all c as m = Some (c', m') \<and> char_holds m' c' (cps @ as)"
  using assms
proof (induction as arbitrary: c cps m)
  case Nil
  then show ?case by simp
next
  case (Cons a as)
  from Cons.prems(3) have a: "a \<le> DEVCON_CHAR_UCS4_MAX"
    and as: "list_all (\<lambda>c. c \<le> DEVCON_CHAR_UCS4_MAX) as" by simp_all
  from Cons.prems(2) have lt: "length cps < climit"
    and le: "length (cps @ [a]) + length as \<le> climit" by simp_all
  consider "length cps = 0" | "length cps = 1" | "length cps = 2" | "length cps = 3"
    | "3 < length cps" by linarith
  then obtain c1 m1 where
    step: "devcon_char_merge c a m = Some (c1, m1)" "char_holds m1 c1 (cps @ [a])"
    and ok: "allocs_ok ((length (cps @ [a]) + length as - 3) - (length (cps @ [a]) - 3)) m1"
  proof cases
    case 1
    then have e: "cps = []" by simp
    from merge_step_null [OF Cons.prems(1) [unfolded e] a] Cons.prems(4) that show ?thesis
      by (simp add: e)
  next
    case 2
    from list_len_cases(1) [OF 2] obtain x where e: "cps = [x]" by blast
    from merge_step_1 [OF Cons.prems(1) [unfolded e] a] Cons.prems(4) that show ?thesis
      by (simp add: e)
  next
    case 3
    from list_len_cases(2) [OF 3] obtain x y where e: "cps = [x, y]" by blast
    from merge_step_2 [OF Cons.prems(1) [unfolded e] a] Cons.prems(4) that show ?thesis
      by (simp add: e)
  next
    case 4
    from list_len_cases(3) [OF 4] obtain x y z where e: "cps = [x, y, z]" by blast
    from Cons.prems(4) have "allocs_ok (Suc (length as)) m" by (simp add: e)
    from allocs_ok_Suc [OF this] obtain p ps where
      p: "pending m = p # ps" "p \<noteq> 0" "p AND 1 = 0"
      and rest: "\<And>m'. pending m' = ps \<Longrightarrow> allocs_ok (length as) m'" by blast
    from merge_step_3 [OF Cons.prems(1) [unfolded e] a p] obtain m' where
      "devcon_char_merge c a m = Some (p, m')" "char_holds m' p [x, y, z, a]" "pending m' = ps"
      by blast
    with rest [of m'] that show ?thesis by (simp add: e)
  next
    case 5
    have eq: "(length cps + length (a # as) - 3) - (length cps - 3) = Suc (length as)"
      using 5 by simp
    have "allocs_ok (Suc (length as)) m"
      using Cons.prems(4) unfolding eq .
    from allocs_ok_Suc [OF this] obtain p ps where
      p: "pending m = p # ps" "p \<noteq> 0" "p AND 1 = 0"
      and rest: "\<And>m'. pending m' = ps \<Longrightarrow> allocs_ok (length as) m'" by blast
    from merge_step_boxed [OF Cons.prems(1) 5 lt a p] obtain m' where
      "devcon_char_merge c a m = Some (p, m')" "char_holds m' p (cps @ [a])" "pending m' = ps"
      by blast
    moreover have "(length (cps @ [a]) + length as - 3) - (length (cps @ [a]) - 3) = length as"
      using 5 by simp
    ultimately show ?thesis using rest [of m'] that by simp
  qed
  from Cons.IH [OF step(2) le as ok] step(1) show ?case by simp
qed

lemma list_len4: "length xs = 4 \<Longrightarrow> xs = [xs ! 0, xs ! 1, xs ! 2, xs ! 3]"
  by (cases xs; cases "tl xs"; cases "tl (tl xs)"; cases "tl (tl (tl xs))";
      cases "tl (tl (tl (tl xs)))"; simp)

lemma ucast_len: "L \<le> climit \<Longrightarrow> (ucast (of_nat L :: u8) :: u64) = of_nat L"
  by (simp add: unsigned_of_nat take_bit_nat_eq_self climit_def)

lemma resolve_holds:
  assumes "char_holds m c cps" "length b = 4"
  shows "\<exists>buf. devcon_char_resolve c b m = Some (buf, of_nat (length cps)) \<and>
               take (length cps) buf = cps \<and> buf ! length cps = 0"
proof -
  from list_len4 [OF assms(2)] obtain b0 b1 b2 b3 where b: "b = [b0, b1, b2, b3]" by blast
  consider "length cps = 0" | "length cps = 1" | "length cps = 2" | "length cps = 3"
    | "3 < length cps" by linarith
  then show ?thesis
  proof cases
    case 1
    with assms(1) show ?thesis
      by (simp add: char_holds_def devcon_char_resolve_def devcon_char_is_null_def
          DEVCON_CHAR_NULL_def b)
  next
    case 2
    from list_len_cases(1) [OF 2] obtain x where e: "cps = [x]" by blast
    from assms(1) show ?thesis
      by (simp add: e char_holds_def devcon_char_resolve_def packed_kinds unpack_pack1 b)
  next
    case 3
    from list_len_cases(2) [OF 3] obtain x y where e: "cps = [x, y]" by blast
    from assms(1) show ?thesis
      by (simp add: e char_holds_def devcon_char_resolve_def packed_kinds unpack_pack2 b)
  next
    case 4
    from list_len_cases(3) [OF 4] obtain x y z where e: "cps = [x, y, z]" by blast
    from assms(1) show ?thesis
      by (simp add: e char_holds_def devcon_char_resolve_def packed_kinds unpack_pack3 b)
  next
    case 5
    with assms(1) show ?thesis
      by (simp add: char_holds_boxed devcon_char_resolve_def devcon_char_is_null_def
          devcon_char_is_allocated_def ucast_len nth_append)
  qed
qed


lemma marks64_facts:
  "length marks64 = 64" "list_all (\<lambda>c. c \<le> DEVCON_CHAR_UCS4_MAX) marks64" "distinct marks64"
  by (simp_all add: marks64_def DEVCON_CHAR_UCS4_MAX_def)

lemma kmem64_facts: "allocs_ok 64 kmem64" "allocs_ok 61 kmem64" "allocs_ok 2 kmem64"
  by (simp_all add: allocs_ok_def kmem64_def)



text \<open>
  C2, amended: the limit of 64 counts the base. From a character holding one base code
  point, 63 merges of valid marks are accepted and the result resolves to the 64 code
  points; every further merge returns the character unchanged, with the length still 64.
\<close>

theorem char_merge_soft_limit:
  assumes "c0 \<le> DEVCON_CHAR_UCS4_MAX" "length marks = 63"
    and "list_all (\<lambda>c. c \<le> DEVCON_CHAR_UCS4_MAX) marks"
    and "allocs_ok 61 m" "length b = 4"
  shows "\<exists>c m' buf. char_merge_all (devcon_char_pack1 c0) marks m = Some (c, m') \<and>
           devcon_char_resolve c b m' = Some (buf, 64) \<and>
           take 64 buf = c0 # marks \<and> buf ! 64 = 0 \<and>
           (\<forall>a. devcon_char_merge c a m' = Some (c, m') \<and>
                devcon_char_resolve c b m' = Some (buf, 64))"
proof -
  have h: "char_holds m (devcon_char_pack1 c0) [c0]"
    using assms(1) by (simp add: char_holds_def)
  from merge_all_packed_holds [OF h, of marks] assms(2-4) obtain c m' where
    r: "char_merge_all (devcon_char_pack1 c0) marks m = Some (c, m')"
       "char_holds m' c ([c0] @ marks)"
    by (auto simp: climit_def)
  have l: "length ([c0] @ marks) = climit" using assms(2) by (simp add: climit_def)
  from resolve_holds [OF r(2) assms(5)] obtain buf where
    "devcon_char_resolve c b m' = Some (buf, of_nat (length ([c0] @ marks)))"
    "take (length ([c0] @ marks)) buf = [c0] @ marks" "buf ! length ([c0] @ marks) = 0"
    by blast
  then have "devcon_char_resolve c b m' = Some (buf, 64)" "take 64 buf = c0 # marks"
    "buf ! 64 = 0"
    using assms(2) by simp_all
  with merge_at_limit [OF r(2) l] r(1) show ?thesis by blast
qed

theorem char_merge_soft_limit_witness:
  "(0x61 :: u32) \<le> DEVCON_CHAR_UCS4_MAX \<and> length (butlast marks64) = 63 \<and>
   list_all (\<lambda>c. c \<le> DEVCON_CHAR_UCS4_MAX) (butlast marks64) \<and>
   allocs_ok 61 kmem64 \<and> length [0, 0, 0, 0 :: u32] = 4 \<and>
   (\<exists>c m' buf. char_merge_all (devcon_char_pack1 0x61) (butlast marks64) kmem64 = Some (c, m') \<and>
           devcon_char_resolve c [0, 0, 0, 0] m' = Some (buf, 64) \<and>
           take 64 buf = 0x61 # butlast marks64 \<and> buf ! 64 = 0 \<and>
           (\<forall>a. devcon_char_merge c a m' = Some (c, m') \<and>
                devcon_char_resolve c [0, 0, 0, 0] m' = Some (buf, 64)))"
proof -
  have h1: "(0x61 :: u32) \<le> DEVCON_CHAR_UCS4_MAX" by (simp add: DEVCON_CHAR_UCS4_MAX_def)
  have h2: "length (butlast marks64) = 63" by (simp add: marks64_facts)
  have h3: "list_all (\<lambda>c. c \<le> DEVCON_CHAR_UCS4_MAX) (butlast marks64)"
    using marks64_facts(2) by (auto simp: list_all_iff dest: in_set_butlastD)
  have h5: "length [0, 0, 0, 0 :: u32] = 4" by simp
  from char_merge_soft_limit [OF h1 h2 h3 kmem64_facts(2) h5] h1 h2 h3 kmem64_facts(2) h5
  show ?thesis by blast
qed

lemma char_merge_all_append:
  "char_merge_all c (xs @ ys) m =
     (case char_merge_all c xs m of
        None \<Rightarrow> None
      | Some (c1, m1) \<Rightarrow> char_merge_all c1 ys m1)"
  by (induction xs arbitrary: c m) (auto split: option.splits)

text \<open>
  C2 fails as stated: with the base \<open>a\<close>, the 64 distinct valid marks U+0300 to U+033F
  and an allocator that never fails, the 64th merge is rejected: it returns the
  character the 63rd merge returned, and the length resolved afterwards is 64, not 65.
\<close>

theorem char_merge_64th_mark_rejected:
  "length marks64 = 64 \<and> distinct marks64 \<and>
   list_all (\<lambda>c. c \<le> DEVCON_CHAR_UCS4_MAX) marks64 \<and> allocs_ok 64 kmem64 \<and>
   merged_length (devcon_char_pack1 0x61) marks64 kmem64 = Some 64 \<and>
   merged_char (devcon_char_pack1 0x61) marks64 kmem64 =
     merged_char (devcon_char_pack1 0x61) (butlast marks64) kmem64"
proof -
  have h: "char_holds kmem64 (devcon_char_pack1 0x61) [0x61]"
    by (simp add: char_holds_def DEVCON_CHAR_UCS4_MAX_def)
  have v: "list_all (\<lambda>c. c \<le> DEVCON_CHAR_UCS4_MAX) (butlast marks64)"
    using marks64_facts(2) by (auto simp: list_all_iff dest: in_set_butlastD)
  have l: "length [0x61 :: u32] + length (butlast marks64) \<le> climit"
    by (simp add: marks64_facts climit_def)
  have a: "allocs_ok ((length [0x61 :: u32] + length (butlast marks64) - 3) -
             (length [0x61 :: u32] - 3)) kmem64"
    using kmem64_facts(2) by (simp add: marks64_facts)
  from merge_all_packed_holds [OF h l v a] obtain c m' where
    r: "char_merge_all (devcon_char_pack1 0x61) (butlast marks64) kmem64 = Some (c, m')"
       "char_holds m' c ([0x61] @ butlast marks64)"
    by blast
  have full: "length ([0x61] @ butlast marks64) = climit"
    by (simp add: marks64_facts climit_def)
  have ne: "marks64 \<noteq> []" using marks64_facts(1) by auto
  have "char_merge_all (devcon_char_pack1 0x61) (butlast marks64 @ [last marks64]) kmem64 =
          Some (c, m')"
    by (simp add: char_merge_all_append r(1) merge_at_limit [OF r(2) full])
  then have all: "char_merge_all (devcon_char_pack1 0x61) marks64 kmem64 = Some (c, m')"
    using ne by simp
  from resolve_holds [OF r(2), of "[0, 0, 0, 0]"] obtain buf where
    "devcon_char_resolve c [0, 0, 0, 0] m' = Some (buf, of_nat (length ([0x61] @ butlast marks64)))"
    by auto
  then have len: "devcon_char_resolve c [0, 0, 0, 0] m' = Some (buf, 64)"
    by (simp add: marks64_facts)
  show ?thesis
    using marks64_facts kmem64_facts(1)
    by (simp add: merged_length_def merged_char_def all r(1) len)
qed

subsection \<open>UTF-8\<close>

lemma lt8_cases: "n < 8 \<Longrightarrow> n = 0 \<or> n = 1 \<or> n = 2 \<or> n = 3 \<or> n = 4 \<or> n = 5 \<or> n = 6 \<or> n = (7::nat)"
  by arith

lemma bit_int_high: "0 \<le> c \<Longrightarrow> c < 2 ^ 8 \<Longrightarrow> 8 \<le> n \<Longrightarrow> \<not> bit (c :: int) n"
proof -
  assume c: "0 \<le> c" "c < 2 ^ 8" and n: "8 \<le> n"
  have "(2::int) ^ 8 \<le> 2 ^ n" using n by (intro power_increasing) simp_all
  with c have "c div 2 ^ n = 0" by (intro div_pos_pos_trivial) simp_all
  then show ?thesis by (simp add: bit_iff_odd)
qed

lemma bit_int_consts:
  "bit (0x80 :: int) n \<longleftrightarrow> n = 7"
  "bit (0xC0 :: int) n \<longleftrightarrow> n = 6 \<or> n = 7"
  "bit (0xE0 :: int) n \<longleftrightarrow> n = 5 \<or> n = 6 \<or> n = 7"
  "bit (0xF0 :: int) n \<longleftrightarrow> n = 4 \<or> n = 5 \<or> n = 6 \<or> n = 7"
  "bit (0xF8 :: int) n \<longleftrightarrow> n = 3 \<or> n = 4 \<or> n = 5 \<or> n = 6 \<or> n = 7"
  "bit (0x7F :: int) n \<longleftrightarrow> n < 7"
  "bit (0x3F :: int) n \<longleftrightarrow> n < 6"
  "bit (0x1F :: int) n \<longleftrightarrow> n < 5"
  "bit (0x0F :: int) n \<longleftrightarrow> n < 4"
  "bit (0x07 :: int) n \<longleftrightarrow> n < 3"
  by (cases "n < 8"; auto dest!: lt8_cases simp: bit_int_high)+

lemma bit_bound: "(g :: u32) < 2 ^ k \<Longrightarrow> bit g n \<Longrightarrow> n < k"
  by (metis less_mask_eq bit_and_iff bit_mask_iff)

lemma cont_byte:
  "(ucast (0x80 OR (y AND 0x3f) :: u32) :: u8) AND 0xC0 = 0x80"
  "ucast ((ucast (0x80 OR (y AND 0x3f) :: u32) :: u8) AND 0x3F) = take_bit 6 (y :: u32)"
  by (rule bit_word_eqI; auto simp: bit_simps bit_int_consts)+

lemma lead2_byte:
  "(ucast (0xc0 OR (y AND 0x1f) :: u32) :: u8) AND 0xE0 = 0xC0"
  "ucast ((ucast (0xc0 OR (y AND 0x1f) :: u32) :: u8) AND 0x1F) = take_bit 5 (y :: u32)"
  by (rule bit_word_eqI; auto simp: bit_simps bit_int_consts)+

lemma word_neqI: "bit (a :: 'a::len word) n \<noteq> bit b n \<Longrightarrow> a \<noteq> b"
  by auto

lemma lead3_byte:
  "(ucast (0xe0 OR (y AND 0x0f) :: u32) :: u8) AND 0xE0 \<noteq> 0xC0"
  "(ucast (0xe0 OR (y AND 0x0f) :: u32) :: u8) AND 0xF0 = 0xE0"
  "ucast ((ucast (0xe0 OR (y AND 0x0f) :: u32) :: u8) AND 0x0F) = take_bit 4 (y :: u32)"
    apply (rule word_neqI [where n = 5]; simp add: bit_simps bit_int_consts)
   apply (rule bit_word_eqI; auto simp: bit_simps bit_int_consts)+
  done

lemma lead4_byte:
  "(ucast (0xf0 OR (y AND 0x07) :: u32) :: u8) AND 0xE0 \<noteq> 0xC0"
  "(ucast (0xf0 OR (y AND 0x07) :: u32) :: u8) AND 0xF0 \<noteq> 0xE0"
  "(ucast (0xf0 OR (y AND 0x07) :: u32) :: u8) AND 0xF8 = 0xF0"
  "ucast ((ucast (0xf0 OR (y AND 0x07) :: u32) :: u8) AND 0x07) = take_bit 3 (y :: u32)"
     apply (rule word_neqI [where n = 5]; simp add: bit_simps bit_int_consts)
    apply (rule word_neqI [where n = 4]; simp add: bit_simps bit_int_consts)
   apply (rule bit_word_eqI; auto simp: bit_simps bit_int_consts)+
  done

lemma ascii_byte:
  "(ucast (g AND 0x7f :: u32) :: u8) AND 0xE0 \<noteq> 0xC0"
  "(ucast (g AND 0x7f :: u32) :: u8) AND 0xF0 \<noteq> 0xE0"
  "(ucast (g AND 0x7f :: u32) :: u8) AND 0xF8 \<noteq> 0xF0"
    apply (rule word_neqI [where n = 7]; simp add: bit_simps bit_int_consts)+
  done

lemma ascii_back: 
  "g < 2 ^ 7 \<Longrightarrow> ucast (ucast (g AND 0x7f :: u32) :: u8) = g"
proof -
  assume "g < 2 ^ 7"
  then have b: "\<And>n. bit g n \<Longrightarrow> n < 7" by (rule bit_bound)
  show ?thesis
    by (rule bit_word_eqI) (auto simp: bit_simps bit_int_consts dest: b)
qed

lemma join2: 
  assumes "(g :: u32) < 2 ^ 11"
  shows "push_bit 6 (take_bit 5 (drop_bit 6 g)) OR take_bit 6 g = g"
proof -
  from assms have b: "\<And>n. bit g n \<Longrightarrow> n < 11" by (rule bit_bound)
  show ?thesis
    by (rule bit_word_eqI) (auto simp: bit_simps dest: b)
qed

lemma join3:
  assumes "(g :: u32) < 2 ^ 16"
  shows "push_bit 12 (take_bit 4 (drop_bit 12 g)) OR push_bit 6 (take_bit 6 (drop_bit 6 g)) OR
         take_bit 6 g = g"
proof (rule bit_word_eqI)
  fix n :: nat
  from assms have b: "\<And>n. bit g n \<Longrightarrow> n < 16" by (rule bit_bound)
  consider "n < 6" | "6 \<le> n" "n < 12" | "12 \<le> n" by linarith
  then show "bit (push_bit 12 (take_bit 4 (drop_bit 12 g)) OR
                  push_bit 6 (take_bit 6 (drop_bit 6 g)) OR take_bit 6 g) n = bit g n"
    by cases (auto simp: bit_simps dest: b)
qed

lemma join4:
  assumes "(g :: u32) < 2 ^ 21"
  shows "push_bit 18 (take_bit 3 (drop_bit 18 g)) OR push_bit 12 (take_bit 6 (drop_bit 12 g)) OR
         push_bit 6 (take_bit 6 (drop_bit 6 g)) OR take_bit 6 g = g"
proof (rule bit_word_eqI)
  fix n :: nat
  from assms have b: "\<And>n. bit g n \<Longrightarrow> n < 21" by (rule bit_bound)
  consider "n < 6" | "6 \<le> n" "n < 12" | "12 \<le> n" "n < 18" | "18 \<le> n" by linarith
  then show "bit (push_bit 18 (take_bit 3 (drop_bit 18 g)) OR
                  push_bit 12 (take_bit 6 (drop_bit 12 g)) OR
                  push_bit 6 (take_bit 6 (drop_bit 6 g)) OR take_bit 6 g) n = bit g n"
    by cases (auto simp: bit_simps dest: b)
qed

lemma and_masks32:
  "(y :: u32) AND 0x3f = take_bit 6 y" "y AND 0x1f = take_bit 5 y"
  "y AND 0x0f = take_bit 4 y" "y AND 0x07 = take_bit 3 y"
  by (rule bit_word_eqI; auto simp: bit_simps bit_int_consts)+

lemma not_lt_3word: "\<not> (2 :: 3 word) \<le> 1" "\<not> (3 :: 3 word) \<le> 1" "\<not> (4 :: 3 word) \<le> 1"
  "\<not> (3 :: 3 word) \<le> 2" "\<not> (4 :: 3 word) \<le> 2" "\<not> (4 :: 3 word) \<le> 3"
  "(1 :: 3 word) < 2" "(1 :: 3 word) < 3" "(1 :: 3 word) < 4" "(2 :: 3 word) < 3" 
  "(2 :: 3 word) < 4" "(3 :: 3 word) < 4"
  by (simp_all add: word_le_nat_alt word_less_nat_alt)

lemma rep5: "replicate 5 x = [x, x, x, x, x]"
  by (simp add: numeral_eq_Suc)

lemma utf8_encode_decode_1:
  assumes "g < 2 ^ 7"
  shows "utf8_decode_bytes devcon_utf8_zero (devcon_utf8_encode g) = [[g]]"
  using assms
  by (simp add: devcon_utf8_encode_def devcon_utf8_decode_def devcon_utf8_zero_def
      utf8_decode_finish_def Let_def ascii_byte ascii_back rep5)

lemma utf8_encode_decode_2:
  assumes "\<not> g < 2 ^ 7" "g < 2 ^ 11"
  shows "utf8_decode_bytes devcon_utf8_zero (devcon_utf8_encode g) = [[], [g]]"
  using assms join2 [OF assms(2)]
  by (simp add: devcon_utf8_encode_def devcon_utf8_decode_def devcon_utf8_zero_def
      utf8_decode_finish_def Let_def lead2_byte cont_byte not_lt_3word rep5)

lemma utf8_encode_decode_3:
  assumes "\<not> g < 2 ^ 7" "\<not> g < 2 ^ 11" "g < 2 ^ 16"
  shows "utf8_decode_bytes devcon_utf8_zero (devcon_utf8_encode g) = [[], [], [g]]"
  using assms join3 [OF assms(3)]
  by (simp add: devcon_utf8_encode_def devcon_utf8_decode_def devcon_utf8_zero_def
      utf8_decode_finish_def Let_def lead3_byte cont_byte not_lt_3word rep5 or.assoc)

lemma utf8_encode_decode_4:
  assumes "\<not> g < 2 ^ 7" "\<not> g < 2 ^ 11" "\<not> g < 2 ^ 16" "g < 2 ^ 21"
  shows "utf8_decode_bytes devcon_utf8_zero (devcon_utf8_encode g) = [[], [], [], [g]]"
  using assms join4 [OF assms(4)]
  by (simp add: devcon_utf8_encode_def devcon_utf8_decode_def devcon_utf8_zero_def
      utf8_decode_finish_def Let_def lead4_byte cont_byte not_lt_3word rep5 or.assoc)

text \<open>
  C9: for every \<open>g < 2^21\<close>, the bytes \<open>devcon_utf8_encode\<close> produces, fed one at a time
  to a zeroed decoder, emit nothing on the bytes before the last and exactly \<open>g\<close> on the
  last one.
\<close>

theorem utf8_encode_decode:
  assumes "g < 2 ^ 21"
  shows "devcon_utf8_encode g \<noteq> [] \<and>
         utf8_decode_bytes devcon_utf8_zero (devcon_utf8_encode g) =
           replicate (length (devcon_utf8_encode g) - 1) [] @ [[g]]"
proof -
  have mono: "\<not> g < 2 ^ 11 \<Longrightarrow> \<not> g < 2 ^ 7" "\<not> g < 2 ^ 16 \<Longrightarrow> \<not> g < 2 ^ 11"
    by (simp_all add: word_less_nat_alt)
  consider "g < 2 ^ 7" | "\<not> g < 2 ^ 7" "g < 2 ^ 11" | "\<not> g < 2 ^ 11" "g < 2 ^ 16"
    | "\<not> g < 2 ^ 16" by blast
  then show ?thesis
  proof cases
    case 1
    from utf8_encode_decode_1 [OF 1] 1 show ?thesis
      by (simp add: devcon_utf8_encode_def)
  next
    case 2
    from utf8_encode_decode_2 [OF 2] 2 show ?thesis
      by (simp add: devcon_utf8_encode_def)
  next
    case 3
    from utf8_encode_decode_3 [OF mono(1) [OF 3(1)] 3] 3 mono show ?thesis
      by (simp add: devcon_utf8_encode_def)
  next
    case 4
    from utf8_encode_decode_4 [OF mono(1) [OF mono(2) [OF 4]] mono(2) [OF 4] 4 assms] 4 mono assms
    show ?thesis
      by (simp add: devcon_utf8_encode_def)
  qed
qed

theorem utf8_encode_decode_witness:
  "(0x20AC :: u32) < 2 ^ 21 \<and> devcon_utf8_encode 0x20AC \<noteq> [] \<and>
   utf8_decode_bytes devcon_utf8_zero (devcon_utf8_encode 0x20AC) =
     replicate (length (devcon_utf8_encode 0x20AC) - 1) [] @ [[0x20AC]]"
proof -
  have h: "(0x20AC :: u32) < 2 ^ 21" by simp
  from utf8_encode_decode [OF h] h show ?thesis by blast
qed

subsection \<open>Parser\<close>

lemma length_clear_args: "length (clear_args i k as) = length as"
  by (induction k arbitrary: i as) simp_all

lemma nth_clear_args:
  "j < length as \<Longrightarrow> clear_args i k as ! j = (if i \<le> j \<and> j < i + k then - 1 else as ! j)"
  by (induction k arbitrary: i as) (auto simp: nth_list_update)

lemma clear_args_all:
  "length as = 16 \<Longrightarrow> clear_args 0 16 as = replicate 16 (- 1)"
  by (rule nth_equalityI) (simp_all add: length_clear_args nth_clear_args)

lemma feed_ESC:
  "devcon_parser_feed p 0x1b = (parser_clear (p\<lparr>state := STATE_ESC\<rparr>), DEVCON_SEQ_NONE, None)"
  by (simp add: devcon_parser_feed_def parser_transition_def)

lemma state_parser_clear [simp]: "state (parser_clear p) = state p"
  by (simp add: parser_clear_def)

lemma state_parser_param [simp]: "state (parser_param p raw) = state p"
  by (simp add: parser_param_def Let_def)

lemma feed_ESC_bracket:
  "state p = STATE_ESC \<Longrightarrow>
   devcon_parser_feed p 0x5b = (parser_clear (p\<lparr>state := STATE_CSI_ENTRY\<rparr>), DEVCON_SEQ_NONE, None)"
  by (simp add: devcon_parser_feed_def parser_feed_to_state_def state_table_def parser_transition_def)

lemma feed_CSI_ENTRY_1:
  "state p = STATE_CSI_ENTRY \<Longrightarrow>
   devcon_parser_feed p 0x31 = (parser_param (p\<lparr>state := STATE_CSI_PARAM\<rparr>) 0x31, DEVCON_SEQ_NONE, None)"
  by (simp add: devcon_parser_feed_def parser_feed_to_state_def state_table_def parser_transition_def)

lemma feed_CSI_PARAM_semi:
  "state p = STATE_CSI_PARAM \<Longrightarrow>
   devcon_parser_feed p 0x3b = (parser_param p 0x3b, DEVCON_SEQ_NONE, None)"
  by (simp add: devcon_parser_feed_def parser_feed_to_state_def state_table_def parser_transition_def)

lemma feed_CSI_PARAM_2:
  "state p = STATE_CSI_PARAM \<Longrightarrow>
   devcon_parser_feed p 0x32 = (parser_param p 0x32, DEVCON_SEQ_NONE, None)"
  by (simp add: devcon_parser_feed_def parser_feed_to_state_def state_table_def parser_transition_def)

lemma feed_CSI_PARAM_H:
  "state p = STATE_CSI_PARAM \<Longrightarrow>
   devcon_parser_feed p 0x48 =
     (fst (parser_csi (p\<lparr>state := STATE_GROUND\<rparr>) 0x48), DEVCON_SEQ_CSI,
      Some (seq (fst (parser_csi (p\<lparr>state := STATE_GROUND\<rparr>) 0x48))))"
  by (simp add: devcon_parser_feed_def parser_feed_to_state_def state_table_def parser_transition_def
      parser_csi_def Let_def)

text \<open>
  C6: feeding \<open>ESC [ 1 ; 2 H\<close> (0x1B, 0x5B, 0x31, 0x3B, 0x32, 0x48) to a parser whose
  argument array has its sixteen slots dispatches nothing on the first five values, and
  the final call returns a sequence of type CSI with command CUP, two arguments 1 and 2
  and no intermediates.
\<close>

theorem parser_feeds_csi_cup:
  assumes len: "length (args (seq p)) = 16"
  shows "\<exists>q s. parser_feed_all p [0x1B, 0x5B, 0x31, 0x3B, 0x32, 0x48] =
           (q, [(DEVCON_SEQ_NONE, None), (DEVCON_SEQ_NONE, None), (DEVCON_SEQ_NONE, None),
                (DEVCON_SEQ_NONE, None), (DEVCON_SEQ_NONE, None), (DEVCON_SEQ_CSI, Some s)]) \<and>
           s_type s = DEVCON_SEQ_CSI \<and> command s = DEVCON_CMD_CUP \<and> n_args s = 2 \<and>
           args s ! 0 = 1 \<and> args s ! 1 = 2 \<and> intermediates s = 0"
proof -
  define p1 where "p1 = parser_clear (p\<lparr>state := STATE_ESC\<rparr>)"
  define p2 where "p2 = parser_clear (p1\<lparr>state := STATE_CSI_ENTRY\<rparr>)"
  define p3 where "p3 = parser_param (p2\<lparr>state := STATE_CSI_PARAM\<rparr>) 0x31"
  define p4 where "p4 = parser_param p3 0x3b"
  define p5 where "p5 = parser_param p4 0x32"
  define p6 where "p6 = fst (parser_csi (p5\<lparr>state := STATE_GROUND\<rparr>) 0x48)"
  have s1: "state p1 = STATE_ESC" by (simp add: p1_def)
  have l1: "length (args (seq p1)) = 16"
    using len by (simp add: p1_def parser_clear_def length_clear_args)
  have s2: "state p2 = STATE_CSI_ENTRY" by (simp add: p2_def)
  have a2: "args (seq p2) = replicate 16 (- 1)" "n_args (seq p2) = 0" "intermediates (seq p2) = 0"
    using l1 by (simp_all add: p2_def parser_clear_def clear_args_all DEVCON_PARSER_ARG_MAX_def)
  have s3: "state p3 = STATE_CSI_PARAM" by (simp add: p3_def)
  have a3: "args (seq p3) = (replicate 16 (- 1))[0 := 1]" "n_args (seq p3) = 0"
           "intermediates (seq p3) = 0"
    using a2 by (simp_all add: p3_def parser_param_def DEVCON_PARSER_ARG_MAX_def Let_def)
  have s4: "state p4 = STATE_CSI_PARAM" by (simp add: p4_def s3)
  have a4: "args (seq p4) = (replicate 16 (- 1))[0 := 1]" "n_args (seq p4) = 1"
           "intermediates (seq p4) = 0"
    using a3 by (simp_all add: p4_def parser_param_def DEVCON_PARSER_ARG_MAX_def)
  have s5: "state p5 = STATE_CSI_PARAM" by (simp add: p5_def s4)
  have a5: "args (seq p5) = (replicate 16 (- 1))[0 := 1, 1 := 2]" "n_args (seq p5) = 1"
           "intermediates (seq p5) = 0"
    using a4 by (simp_all add: p5_def parser_param_def DEVCON_PARSER_ARG_MAX_def Let_def
        word_le_nat_alt)
  have a6: "s_type (seq p6) = DEVCON_SEQ_CSI" "command (seq p6) = DEVCON_CMD_CUP"
           "n_args (seq p6) = 2" "args (seq p6) ! 0 = 1" "args (seq p6) ! 1 = 2"
           "intermediates (seq p6) = 0"
    using a5 by (simp_all add: p6_def parser_csi_def DEVCON_PARSER_ARG_MAX_def Let_def
        devcon_parse_host_csi_def)
  have f1: "devcon_parser_feed p 0x1b = (p1, DEVCON_SEQ_NONE, None)"
    by (simp add: feed_ESC p1_def)
  have f2: "devcon_parser_feed p1 0x5b = (p2, DEVCON_SEQ_NONE, None)"
    by (simp add: feed_ESC_bracket [OF s1] p2_def)
  have f3: "devcon_parser_feed p2 0x31 = (p3, DEVCON_SEQ_NONE, None)"
    by (simp add: feed_CSI_ENTRY_1 [OF s2] p3_def)
  have f4: "devcon_parser_feed p3 0x3b = (p4, DEVCON_SEQ_NONE, None)"
    by (simp add: feed_CSI_PARAM_semi [OF s3] p4_def)
  have f5: "devcon_parser_feed p4 0x32 = (p5, DEVCON_SEQ_NONE, None)"
    by (simp add: feed_CSI_PARAM_2 [OF s4] p5_def)
  have f6: "devcon_parser_feed p5 0x48 = (p6, DEVCON_SEQ_CSI, Some (seq p6))"
    by (simp add: feed_CSI_PARAM_H [OF s5] p6_def)
  have "parser_feed_all p [0x1B, 0x5B, 0x31, 0x3B, 0x32, 0x48] =
          (p6, [(DEVCON_SEQ_NONE, None), (DEVCON_SEQ_NONE, None), (DEVCON_SEQ_NONE, None),
                (DEVCON_SEQ_NONE, None), (DEVCON_SEQ_NONE, None),
                (DEVCON_SEQ_CSI, Some (seq p6))])"
    by (simp add: f1 f2 f3 f4 f5 f6)
  with a6 show ?thesis by blast
qed

theorem parser_feeds_csi_cup_witness:
  "length (args (seq devcon_parser_new)) = 16 \<and>
   (\<exists>q s. parser_feed_all devcon_parser_new [0x1B, 0x5B, 0x31, 0x3B, 0x32, 0x48] =
           (q, [(DEVCON_SEQ_NONE, None), (DEVCON_SEQ_NONE, None), (DEVCON_SEQ_NONE, None),
                (DEVCON_SEQ_NONE, None), (DEVCON_SEQ_NONE, None), (DEVCON_SEQ_CSI, Some s)]) \<and>
           s_type s = DEVCON_SEQ_CSI \<and> command s = DEVCON_CMD_CUP \<and> n_args s = 2 \<and>
           args s ! 0 = 1 \<and> args s ! 1 = 2 \<and> intermediates s = 0)"
proof -
  have h: "length (args (seq devcon_parser_new)) = 16"
    by (simp add: devcon_parser_new_def)
  from parser_feeds_csi_cup [OF h] h show ?thesis by simp
qed

text \<open>
  C7 fails as stated: a CSI sequence with final \<open>T\<close>, no intermediates and six
  arguments resolves to XTERM-IHMT, not to SD.
\<close>

theorem csi_T_six_args_is_ihmt:
  "terminator csi_T_six_args = 0x54 \<and> intermediates csi_T_six_args = 0 \<and>
   n_args csi_T_six_args = 6 \<and> n_args csi_T_six_args \<noteq> 5 \<and>
   devcon_parse_host_csi csi_T_six_args = DEVCON_CMD_XTERM_IHMT \<and>
   devcon_parse_host_csi csi_T_six_args \<noteq> DEVCON_CMD_SD"
  by code_simp

lemma n_args_parser_clear [simp]: "n_args (seq (parser_clear p)) = 0"
  by (simp add: parser_clear_def)

lemma n_args_parser_param:
  "n_args (seq p) \<le> DEVCON_PARSER_ARG_MAX \<Longrightarrow>
   n_args (seq (parser_param p raw)) \<le> DEVCON_PARSER_ARG_MAX"
  by (auto simp: parser_param_def Let_def inc_le)

lemma n_args_parser_csi:
  "n_args (seq p) \<le> DEVCON_PARSER_ARG_MAX \<Longrightarrow>
   n_args (seq (fst (parser_csi p raw))) \<le> DEVCON_PARSER_ARG_MAX"
  by (auto simp: parser_csi_def Let_def inc_le)

lemma n_args_parser_esc:
  "n_args (seq (fst (parser_esc p raw))) = n_args (seq p)"
  by (simp add: parser_esc_def Let_def split: prod.splits option.splits)

lemma n_args_parser_collect:
  "n_args (seq (parser_collect p raw)) = n_args (seq p)"
  by (simp add: parser_collect_def)

lemma n_args_parser_transition:
  "n_args (seq p) \<le> DEVCON_PARSER_ARG_MAX \<Longrightarrow>
   n_args (seq (fst (parser_transition p raw s a))) \<le> DEVCON_PARSER_ARG_MAX"
  by (cases a)
     (simp_all add: parser_transition_def Let_def parser_ignore_def parser_print_def
        parser_execute_def n_args_parser_param n_args_parser_csi n_args_parser_esc
        n_args_parser_collect)

lemma n_args_parser_feed:
  "n_args (seq p) \<le> DEVCON_PARSER_ARG_MAX \<Longrightarrow>
   n_args (seq (fst (devcon_parser_feed p raw))) \<le> DEVCON_PARSER_ARG_MAX"
  by (auto simp: devcon_parser_feed_def parser_feed_to_state_def Let_def split_def
        n_args_parser_transition)

lemma seq_out_parser_feed:
  "devcon_parser_feed p raw = (p', ret, Some s) \<Longrightarrow> s = seq p'"
  by (auto simp: devcon_parser_feed_def Let_def split: prod.splits if_splits)

lemma n_args_parser_feed_all:
  "n_args (seq p) \<le> DEVCON_PARSER_ARG_MAX \<Longrightarrow>
   n_args (seq (fst (parser_feed_all p raws))) \<le> DEVCON_PARSER_ARG_MAX \<and>
   (\<forall>(ret, out) \<in> set (snd (parser_feed_all p raws)).
      \<forall>s. out = Some s \<longrightarrow> n_args s \<le> DEVCON_PARSER_ARG_MAX)"
proof (induction raws arbitrary: p)
  case Nil
  then show ?case by simp
next
  case (Cons raw raws)
  obtain p1 ret out where f: "devcon_parser_feed p raw = (p1, ret, out)"
    by (cases "devcon_parser_feed p raw") auto
  have b1: "n_args (seq p1) \<le> DEVCON_PARSER_ARG_MAX"
    using n_args_parser_feed [OF Cons.prems, of raw] f by simp
  have o1: "\<forall>s. out = Some s \<longrightarrow> n_args s \<le> DEVCON_PARSER_ARG_MAX"
    using seq_out_parser_feed f b1 by blast
  from Cons.IH [OF b1] o1 show ?case
    by (simp add: f split_def Let_def)
qed

text \<open>
  C10: \<open>n_args\<close> never exceeds \<open>DEVCON_PARSER_ARG_MAX\<close>. Starting from a parser
  within the bound, it stays within the bound after any input, and so does every
  dispatched sequence; at the bound, \<open>parser_param\<close> changes nothing (a further
  semicolon does not count, a further digit is dropped) and the CSI dispatch does not
  increment.
\<close>

theorem parser_n_args_bounded:
  assumes "n_args (seq p) \<le> DEVCON_PARSER_ARG_MAX"
  shows "n_args (seq (fst (parser_feed_all p raws))) \<le> DEVCON_PARSER_ARG_MAX \<and>
         (\<forall>(ret, out) \<in> set (snd (parser_feed_all p raws)).
            \<forall>s. out = Some s \<longrightarrow> n_args s \<le> DEVCON_PARSER_ARG_MAX) \<and>
         (n_args (seq p) = DEVCON_PARSER_ARG_MAX \<longrightarrow>
            parser_param p raw = p \<and>
            n_args (seq (fst (parser_csi p raw))) = DEVCON_PARSER_ARG_MAX)"
  using n_args_parser_feed_all [OF assms, of raws]
  by (auto simp: parser_param_def parser_csi_def Let_def)

theorem parser_n_args_bounded_witness:
  "n_args (seq sixteen_params) \<le> DEVCON_PARSER_ARG_MAX \<and>
   n_args (seq sixteen_params) = DEVCON_PARSER_ARG_MAX \<and>
   n_args (seq (fst (parser_feed_all sixteen_params [0x3b, 0x37, 0x6d]))) \<le> DEVCON_PARSER_ARG_MAX \<and>
   parser_param sixteen_params 0x3b = sixteen_params \<and>
   n_args (seq (fst (parser_csi sixteen_params 0x6d))) = DEVCON_PARSER_ARG_MAX"
proof -
  have h: "n_args (seq sixteen_params) = DEVCON_PARSER_ARG_MAX" by code_simp
  then have h': "n_args (seq sixteen_params) \<le> DEVCON_PARSER_ARG_MAX" by simp
  from parser_n_args_bounded [OF h', of "[0x3b, 0x37, 0x6d]" "0x3b"]
       parser_n_args_bounded [OF h', of "[]" "0x6d"] h h'
  show ?thesis by blast
qed

text \<open>
  C7, amended: for a CSI sequence with final \<open>T\<close> and no intermediates the resolver
  returns XTERM-IHMT when there are five arguments or more, and SD when there are fewer.
\<close>

theorem csi_T_by_arg_count:
  "terminator s = 0x54 \<Longrightarrow> intermediates s = 0 \<Longrightarrow>
   devcon_parse_host_csi s =
     (if 5 \<le> n_args s then DEVCON_CMD_XTERM_IHMT else DEVCON_CMD_SD)"
  by (simp add: devcon_parse_host_csi_def Let_def not_less)

theorem csi_T_by_arg_count_witness:
  "terminator csi_T_six_args = 0x54 \<and> intermediates csi_T_six_args = 0 \<and>
   devcon_parse_host_csi csi_T_six_args =
     (if 5 \<le> n_args csi_T_six_args then DEVCON_CMD_XTERM_IHMT else DEVCON_CMD_SD)"
proof -
  have t: "terminator csi_T_six_args = 0x54" by code_simp
  have i: "intermediates csi_T_six_args = 0" by code_simp
  from csi_T_by_arg_count [OF t i] t i show ?thesis by blast
qed

subsection \<open>Lines\<close>

lemma length_init_n [simp]: "length (devcon_cell_init_n cs i k a g) = length cs"
  by (induction k arbitrary: cs i) simp_all

lemma length_clear_n [simp]: "length (fst (devcon_cell_clear_n cs i k a g m)) = length cs"
  by (induction k arbitrary: cs i m) (simp_all add: split_def Let_def)

lemma length_set_age_n [simp]: "length (set_age_n cs i k g) = length cs"
  by (induction k arbitrary: cs i) simp_all

lemma length_erase_loop [simp]:
  "length (fst (erase_loop l from a g kp i k cs lp m)) = length cs"
  by (induction k arbitrary: cs i lp m) (auto simp: split_def Let_def)

lemma length_memmove_cells:
  "dst + k \<le> length cs \<Longrightarrow> src + k \<le> length cs \<Longrightarrow>
   length (memmove_cells cs dst src k) = length cs"
  by (simp add: memmove_cells_def)

lemma last_protected_erase_loop:
  "lp \<le> fill l \<Longrightarrow> fst (snd (erase_loop l from a g kp i k cs lp m)) \<le> fill l"
  by (induction k arbitrary: cs i lp m) (auto simp: split_def Let_def)

lemma clamp_num:
  assumes "\<not> w \<le> (x :: u32)"
  shows "unat x + unat (if x + num0 < x \<or> w < x + num0 then w - x else num0) \<le> unat w"
  using assms by (simp split: if_split) unat_arith

lemma line_bounds_reserve:
  assumes "line_bounds l"
  shows "line_bounds (fst (snd (devcon_line_reserve l w a g pw m)))"
proof -
  have "n_cells l < w \<Longrightarrow> unat (n_cells l) + unat (w - n_cells l) = unat w"
    by unat_arith
  moreover have "n_cells l < w \<Longrightarrow> min (fill l) pw \<le> w" "min (fill l) pw \<le> l_width l"
    using assms by (auto simp: line_bounds_def min_def)
  moreover have "n_cells l < w \<Longrightarrow> l_width l \<le> w"
    using assms by (auto simp: line_bounds_def)
  ultimately show ?thesis
    using assms
    by (simp add: devcon_line_reserve_def Let_def split_def line_bounds_def)
qed

lemma line_bounds_set_width:
  "line_bounds l \<Longrightarrow> line_bounds (devcon_line_set_width l w)"
  by (auto simp: devcon_line_set_width_def Let_def line_bounds_def min_def)

lemma line_bounds_place:
  assumes "line_bounds l"
  shows "line_bounds (fst (devcon_line_place l x num0 hc hw a g m))"
proof (cases "l_width l \<le> x")
  case True
  then show ?thesis using assms by (simp add: devcon_line_place_def)
next
  case False
  define num where "num = (if x + num0 < x \<or> l_width l < x + num0 then l_width l - x else num0)"
  have c: "unat x + unat num \<le> unat (l_width l)"
    unfolding num_def by (rule clamp_num [OF False])
  have w: "unat (l_width l) \<le> length (cells l)" and f: "fill l \<le> l_width l"
    and n: "l_width l \<le> n_cells l" "length (cells l) = unat (n_cells l)"
    using assms by (simp_all add: line_bounds_def word_le_nat_alt)
  have xn: "unat (x + num) = unat x + unat num"
    using c by unat_arith
  have mv: "unat (l_width l - x - num) = unat (l_width l) - unat x - unat num"
    using c by unat_arith
  have len: "length (memmove_cells (cells l) (unat (x + num)) (unat x)
               (unat (l_width l - x - num))) = length (cells l)"
    by (rule length_memmove_cells) (use c w in \<open>simp_all add: xn mv\<close>)
  show ?thesis
    using False f n len
    by (simp add: devcon_line_place_def Let_def split_def line_bounds_def num_def [symmetric])
qed

lemma line_bounds_write:
  assumes "line_bounds l"
  shows "line_bounds (fst (devcon_line_write l x c w a g ins m))"
  using assms line_bounds_place [OF assms]
  by (simp add: devcon_line_write_def Let_def split_def) (simp add: line_bounds_def)

lemma line_bounds_insert:
  "line_bounds l \<Longrightarrow> line_bounds (fst (devcon_line_insert l x k a g m))"
  by (simp add: devcon_line_insert_def line_bounds_place)

lemma line_bounds_delete:
  assumes "line_bounds l"
  shows "line_bounds (fst (devcon_line_delete l x num0 a g m))"
proof (cases "l_width l \<le> x")
  case True
  then show ?thesis using assms by (simp add: devcon_line_delete_def)
next
  case False
  define num where "num = (if x + num0 < x \<or> l_width l < x + num0 then l_width l - x else num0)"
  have c: "unat x + unat num \<le> unat (l_width l)"
    unfolding num_def by (rule clamp_num [OF False])
  have w: "unat (l_width l) \<le> length (cells l)" and f: "fill l \<le> l_width l"
    and n: "l_width l \<le> n_cells l" "length (cells l) = unat (n_cells l)"
    using assms by (simp_all add: line_bounds_def word_le_nat_alt)
  have xn: "unat (x + num) = unat x + unat num"
    using c by unat_arith
  have mv: "unat (l_width l - x - num) = unat (l_width l) - unat x - unat num"
    using c by unat_arith
  have len: "length (memmove_cells (cells l) (unat x) (unat (x + num))
               (unat (l_width l - x - num))) = length (cells l)"
    by (rule length_memmove_cells) (use c w in \<open>simp_all add: xn mv\<close>)
  have f1: "x + num < fill l \<Longrightarrow> fill l - num \<le> l_width l"
    using f c xn by unat_arith
  have f2: "x \<le> l_width l" using False by simp
  show ?thesis
    using False f n len f1 f2
    by (simp add: devcon_line_delete_def Let_def split_def line_bounds_def num_def [symmetric])
qed

lemma line_bounds_erase:
  assumes "line_bounds l"
  shows "line_bounds (fst (devcon_line_erase l x num0 a g kp m))"
proof (cases "l_width l \<le> x")
  case True
  then show ?thesis using assms by (simp add: devcon_line_erase_def)
next
  case False
  have f: "fill l \<le> l_width l"
    and n: "l_width l \<le> n_cells l" "length (cells l) = unat (n_cells l)"
    using assms by (simp_all add: line_bounds_def)
  have lp: "\<And>k. fst (snd (erase_loop l x a g kp 0 k (cells l) 0 m)) \<le> l_width l"
    using last_protected_erase_loop [of 0 l] f by (meson order_trans word_zero_le)
  have f2: "x \<le> l_width l" using False by simp
  show ?thesis
    using False f n lp f2
    by (simp add: devcon_line_erase_def Let_def split_def line_bounds_def)
qed

lemma line_bounds_reset:
  "line_bounds l \<Longrightarrow> line_bounds (fst (devcon_line_reset l a g m))"
  by (simp add: devcon_line_reset_def line_bounds_erase)

lemma line_bounds_append:
  "line_bounds l \<Longrightarrow> devcon_line_append l x c g m = Some (l', m') \<Longrightarrow> line_bounds l'"
  by (auto simp: devcon_line_append_def line_bounds_def split: if_splits option.splits)

lemma line_bounds_apply:
  "line_bounds l \<Longrightarrow> line_apply op (l, m) = Some (l', m') \<Longrightarrow> line_bounds l'"
proof (cases op)
  case (Reserve w a g pw)
  assume "line_bounds l" "line_apply op (l, m) = Some (l', m')"
  with line_bounds_reserve [of l w a g pw m] Reserve show ?thesis
    by (auto simp: split_def)
next
  case (Set_Width w)
  assume "line_bounds l" "line_apply op (l, m) = Some (l', m')"
  with line_bounds_set_width [of l w] Set_Width show ?thesis by auto
next
  case (Write x c w a g ins)
  assume "line_bounds l" "line_apply op (l, m) = Some (l', m')"
  with line_bounds_write [of l x c w a g ins m] Write show ?thesis by auto
next
  case (Place x k c w a g)
  assume "line_bounds l" "line_apply op (l, m) = Some (l', m')"
  with line_bounds_place [of l x k c w a g m] Place show ?thesis by auto
next
  case (Insert x k a g)
  assume "line_bounds l" "line_apply op (l, m) = Some (l', m')"
  with line_bounds_insert [of l x k a g m] Insert show ?thesis by auto
next
  case (Delete x k a g)
  assume "line_bounds l" "line_apply op (l, m) = Some (l', m')"
  with line_bounds_delete [of l x k a g m] Delete show ?thesis by auto
next
  case (Erase x k a g kp)
  assume "line_bounds l" "line_apply op (l, m) = Some (l', m')"
  with line_bounds_erase [of l x k a g kp m] Erase show ?thesis by auto
next
  case (Reset a g)
  assume "line_bounds l" "line_apply op (l, m) = Some (l', m')"
  with line_bounds_reset [of l a g m] Reset show ?thesis by auto
next
  case (Append x c g)
  assume "line_bounds l" "line_apply op (l, m) = Some (l', m')"
  with line_bounds_append [of l x c g m l' m'] Append show ?thesis by auto
qed

lemma line_bounds_apply_all:
  "line_bounds l \<Longrightarrow> line_apply_all ops (l, m) = Some (l', m') \<Longrightarrow> line_bounds l'"
proof (induction ops arbitrary: l m)
  case Nil
  then show ?case by simp
next
  case (Cons op ops)
  from Cons.prems(2) obtain l1 m1 where
    s: "line_apply op (l, m) = Some (l1, m1)" "line_apply_all ops (l1, m1) = Some (l', m')"
    by (auto split: option.splits)
  from line_bounds_apply [OF Cons.prems(1) s(1)] have "line_bounds l1" .
  from Cons.IH [OF this s(2)] show ?case .
qed

text \<open>
  Claim C4. The zeroed line a new line starts as satisfies \<open>fill \<le> width \<le> n_cells\<close>, and
  from every line that satisfies it (with \<open>n_cells\<close> cells in its array), every sequence
  of reserve, set_width, write, place, insert, delete, erase, reset and append that
  runs to its end leaves a line with \<open>fill \<le> width \<le> n_cells\<close>. Since the bounds hold
  after every prefix of the sequence, they hold after each operation.
\<close>

theorem line_bounds_invariant:
  "line_bounds devcon_line_zero \<and>
   (line_bounds l \<longrightarrow> line_apply_all ops (l, m) = Some (l', m') \<longrightarrow>
      fill l' \<le> l_width l' \<and> l_width l' \<le> n_cells l' \<and> line_bounds l')"
  using line_bounds_apply_all [of l ops m l' m']
  by (auto simp: line_bounds_def devcon_line_zero_def)

lemma line_ABCDE_bounds: "line_bounds line_ABCDE"
  by (simp add: line_bounds_def line_ABCDE_def)

lemma cell_set_packed:
  "devcon_cell_set (cell_char c p) DEVCON_CHAR_NULL 0 a g m =
     (\<lparr>ch = DEVCON_CHAR_NULL, c_age = g, attr = attr_or_zero a, cwidth = 0\<rparr>, m)"
  using packed_kinds(1) [of c]
  by (simp add: devcon_cell_set_def cell_char_def devcon_char_same_def
      devcon_char_is_null_def DEVCON_CHAR_NULL_def)

lemma list_update_numeral:
  "(x # xs)[numeral k := y] = x # xs[pred_numeral k := y]"
  by (simp add: numeral_eq_Suc)

lemma erase_ABCDE:
  "devcon_line_erase line_ABCDE 0 5 None g True m =
     (line_ABCDE\<lparr>cells :=
        [\<lparr>ch = DEVCON_CHAR_NULL, c_age = g, attr = devcon_attr_zero, cwidth = 0\<rparr>,
         \<lparr>ch = DEVCON_CHAR_NULL, c_age = g, attr = devcon_attr_zero, cwidth = 0\<rparr>,
         cell_char 0x43 True,
         \<lparr>ch = DEVCON_CHAR_NULL, c_age = g, attr = devcon_attr_zero, cwidth = 0\<rparr>,
         \<lparr>ch = DEVCON_CHAR_NULL, c_age = g, attr = devcon_attr_zero, cwidth = 0\<rparr>],
        fill := 2\<rparr>, m)"
proof -
  have p: "protect (attr (cell_char c p)) = p" for c p
    by (simp add: cell_char_def)
  have n: "(5 :: nat) = Suc (Suc (Suc (Suc (Suc 0))))" by simp
  have loop:
    "erase_loop line_ABCDE 0 None g True 0 5 (cells line_ABCDE) 0 m =
       ([\<lparr>ch = DEVCON_CHAR_NULL, c_age = g, attr = devcon_attr_zero, cwidth = 0\<rparr>,
         \<lparr>ch = DEVCON_CHAR_NULL, c_age = g, attr = devcon_attr_zero, cwidth = 0\<rparr>,
         cell_char 0x43 True,
         \<lparr>ch = DEVCON_CHAR_NULL, c_age = g, attr = devcon_attr_zero, cwidth = 0\<rparr>,
         \<lparr>ch = DEVCON_CHAR_NULL, c_age = g, attr = devcon_attr_zero, cwidth = 0\<rparr>],
        2, m)"
    by (subst n)
       (simp add: line_ABCDE_def cell_set_packed p attr_or_zero_def list_update_numeral)
  have w: "l_width line_ABCDE = 5" "fill line_ABCDE = 5"
    by (simp_all add: line_ABCDE_def)
  show ?thesis
    by (simp add: devcon_line_erase_def w loop)
qed

lemma line_ABCDE_fields:
  "l_width line_ABCDE = 5" "n_cells line_ABCDE = 5" "fill line_ABCDE = 5"
  by (simp_all add: line_ABCDE_def)

theorem line_bounds_invariant_witness:
  "line_bounds line_ABCDE \<and>
   line_apply_all [Erase 0 5 None 1 True, Set_Width 3] (line_ABCDE, kmem_empty) =
     Some (line_ABCDE\<lparr>cells :=
        [\<lparr>ch = DEVCON_CHAR_NULL, c_age = 1, attr = devcon_attr_zero, cwidth = 0\<rparr>,
         \<lparr>ch = DEVCON_CHAR_NULL, c_age = 1, attr = devcon_attr_zero, cwidth = 0\<rparr>,
         cell_char 0x43 True,
         \<lparr>ch = DEVCON_CHAR_NULL, c_age = 1, attr = devcon_attr_zero, cwidth = 0\<rparr>,
         \<lparr>ch = DEVCON_CHAR_NULL, c_age = 1, attr = devcon_attr_zero, cwidth = 0\<rparr>],
        fill := 2, l_width := 3\<rparr>, kmem_empty) \<and>
   fill (line_ABCDE\<lparr>fill := 2, l_width := 3\<rparr>) \<le> l_width (line_ABCDE\<lparr>fill := 2, l_width := 3\<rparr>) \<and>
   l_width (line_ABCDE\<lparr>fill := 2, l_width := 3\<rparr>) \<le> n_cells line_ABCDE"
  using line_bounds_invariant [of line_ABCDE "[Erase 0 5 None 1 True, Set_Width 3]" kmem_empty
      "line_ABCDE\<lparr>cells :=
        [\<lparr>ch = DEVCON_CHAR_NULL, c_age = 1, attr = devcon_attr_zero, cwidth = 0\<rparr>,
         \<lparr>ch = DEVCON_CHAR_NULL, c_age = 1, attr = devcon_attr_zero, cwidth = 0\<rparr>,
         cell_char 0x43 True,
         \<lparr>ch = DEVCON_CHAR_NULL, c_age = 1, attr = devcon_attr_zero, cwidth = 0\<rparr>,
         \<lparr>ch = DEVCON_CHAR_NULL, c_age = 1, attr = devcon_attr_zero, cwidth = 0\<rparr>],
        fill := 2, l_width := 3\<rparr>" kmem_empty]
  by (simp add: erase_ABCDE line_ABCDE_bounds devcon_line_set_width_def line_ABCDE_fields)

text \<open>
  Claim C1. On the line \<open>ABCDE\<close> of width 5 and fill 5 whose cell 2 is protected,
  \<open>devcon_line_erase\<close> from 0 for 5 cells with the default attributes and
  \<open>keep_protected\<close> leaves \<open>C\<close> in cell 2 and the null character in every other cell,
  and sets the fill of the line to 2 (the index of the protected cell), not to 3.
\<close>

theorem line_erase_protected_fill:
  "map ch (cells (fst (devcon_line_erase line_ABCDE 0 5 None g True m))) =
     [DEVCON_CHAR_NULL, DEVCON_CHAR_NULL, devcon_char_pack1 0x43, DEVCON_CHAR_NULL,
      DEVCON_CHAR_NULL] \<and>
   fill (fst (devcon_line_erase line_ABCDE 0 5 None g True m)) = 2"
  by (simp add: erase_ABCDE cell_char_def)



subsection \<open>Histories\<close>

lemma take_clear_n:
  "j \<le> i \<Longrightarrow> take j (fst (devcon_cell_clear_n cs i k a g m)) = take j cs"
  by (induction k arbitrary: cs i m) (simp_all add: split_def Let_def)

lemma reserve_failure:
  assumes "fst (devcon_line_reserve l w a g (l_width l) m) < 0"
  shows "l_width (fst (snd (devcon_line_reserve l w a g (l_width l) m))) = l_width l"
    "n_cells (fst (snd (devcon_line_reserve l w a g (l_width l) m))) = n_cells l"
    "fill (fst (snd (devcon_line_reserve l w a g (l_width l) m))) = fill l"
    "l_age (fst (snd (devcon_line_reserve l w a g (l_width l) m))) = l_age l"
    "take (unat (l_width l)) (cells (fst (snd (devcon_line_reserve l w a g (l_width l) m)))) =
       take (unat (l_width l)) (cells l)"
  using assms
  by (auto simp: devcon_line_reserve_def Let_def split_def take_clear_n ENOMEM_def
      split: if_splits)

text \<open>
  Claim C8. For every non-empty history: when the reservation \<open>devcon_history_pop\<close>
  makes on the tail line fails, the pop returns NULL, the counters and the length of
  the list are unchanged, the lines before the tail are unchanged, and the tail line
  keeps its width, its number of cells, its fill, its age and its cells below its
  width. When the reservation succeeds, the pop returns the tail line, set to the new
  width, unlinks it and decrements \<open>n_lines\<close>.
\<close>

theorem history_pop_reserve_failure:
  assumes "h_lines h \<noteq> []"
  shows "(fst (pop_reserve h w a g m) < 0 \<longrightarrow>
            fst (devcon_history_pop h w a g m) = None \<and>
            h_n_lines (fst (snd (devcon_history_pop h w a g m))) = h_n_lines h \<and>
            max_lines (fst (snd (devcon_history_pop h w a g m))) = max_lines h \<and>
            length (h_lines (fst (snd (devcon_history_pop h w a g m)))) = length (h_lines h) \<and>
            butlast (h_lines (fst (snd (devcon_history_pop h w a g m)))) = butlast (h_lines h) \<and>
            l_width (last (h_lines (fst (snd (devcon_history_pop h w a g m))))) =
              l_width (last (h_lines h)) \<and>
            n_cells (last (h_lines (fst (snd (devcon_history_pop h w a g m))))) =
              n_cells (last (h_lines h)) \<and>
            fill (last (h_lines (fst (snd (devcon_history_pop h w a g m))))) =
              fill (last (h_lines h)) \<and>
            l_age (last (h_lines (fst (snd (devcon_history_pop h w a g m))))) =
              l_age (last (h_lines h)) \<and>
            take (unat (l_width (last (h_lines h))))
                (cells (last (h_lines (fst (snd (devcon_history_pop h w a g m)))))) =
              take (unat (l_width (last (h_lines h)))) (cells (last (h_lines h)))) \<and>
         (\<not> fst (pop_reserve h w a g m) < 0 \<longrightarrow>
            fst (devcon_history_pop h w a g m) =
              Some (devcon_line_set_width (fst (snd (pop_reserve h w a g m))) w) \<and>
            h_lines (fst (snd (devcon_history_pop h w a g m))) = butlast (h_lines h) \<and>
            h_n_lines (fst (snd (devcon_history_pop h w a g m))) = h_n_lines h - 1)"
proof (cases "fst (pop_reserve h w a g m) < 0")
  case True
  then have f: "fst (devcon_line_reserve (last (h_lines h)) w a g (l_width (last (h_lines h))) m) < 0"
    by (simp add: pop_reserve_def)
  have pop: "devcon_history_pop h w a g m =
      (None,
       h\<lparr>h_lines := butlast (h_lines h) @
          [fst (snd (devcon_line_reserve (last (h_lines h)) w a g (l_width (last (h_lines h))) m))]\<rparr>,
       snd (snd (devcon_line_reserve (last (h_lines h)) w a g (l_width (last (h_lines h))) m)))"
    using assms f by (simp add: devcon_history_pop_def Let_def split_def)
  from assms have len: "0 < length (h_lines h)"
    by simp
  show ?thesis
    using True len by (simp add: pop reserve_failure [OF f])
next
  case False
  then show ?thesis
    using assms by (simp add: devcon_history_pop_def pop_reserve_def Let_def split_def)
qed

lemma pop_ABC_fails: "fst (pop_reserve history_ABC 8 None 1 kmem_empty) < 0"
  by code_simp

lemma pop_ABC_fits: "\<not> fst (pop_reserve history_ABC 4 None 1 kmem_empty) < 0"
  by code_simp

theorem history_pop_reserve_failure_witness:
  "h_lines history_ABC \<noteq> [] \<and>
   fst (pop_reserve history_ABC 8 None 1 kmem_empty) < 0 \<and>
   fst (devcon_history_pop history_ABC 8 None 1 kmem_empty) = None \<and>
   h_n_lines (fst (snd (devcon_history_pop history_ABC 8 None 1 kmem_empty))) = 1 \<and>
   length (h_lines (fst (snd (devcon_history_pop history_ABC 8 None 1 kmem_empty)))) = 1 \<and>
   \<not> fst (pop_reserve history_ABC 4 None 1 kmem_empty) < 0 \<and>
   fst (devcon_history_pop history_ABC 4 None 1 kmem_empty) \<noteq> None \<and>
   h_lines (fst (snd (devcon_history_pop history_ABC 4 None 1 kmem_empty))) = [] \<and>
   h_n_lines (fst (snd (devcon_history_pop history_ABC 4 None 1 kmem_empty))) = 0"
  using history_pop_reserve_failure [of history_ABC 8 None 1 kmem_empty]
    history_pop_reserve_failure [of history_ABC 4 None 1 kmem_empty]
    pop_ABC_fails pop_ABC_fits
  by (simp add: history_ABC_def)

subsection \<open>Pages\<close>

lemma pending_char_free [simp]: "pending (devcon_char_free c m) = pending m"
  by (simp add: devcon_char_free_def kfree_def)

lemma pending_destroy_n [simp]: "pending (devcon_cell_destroy_n cs i k m) = pending m"
  by (induction k arbitrary: i m) (simp_all add: devcon_cell_destroy_def)

lemma pending_line_free [simp]: "pending (devcon_line_free l m) = pending m"
  by (simp add: devcon_line_free_def)

lemma pending_history_push [simp]: "pending (snd (devcon_history_push h l m)) = pending m"
  by (simp add: devcon_history_push_def Let_def)

lemma h_lines_history_push:
  "\<exists>e \<le> 1. h_lines (fst (devcon_history_push h l m)) = drop e (h_lines h @ [l])"
proof (cases "max_lines h \<le> h_n_lines h")
  case True
  have "tl ys = drop 1 ys" for ys :: "devcon_line list"
    by (cases ys) simp_all
  with True have "h_lines (fst (devcon_history_push h l m)) = drop 1 (h_lines h @ [l])"
    by (simp add: devcon_history_push_def Let_def del: tl_append2 drop_append)
  then show ?thesis by blast
next
  case False
  then have "h_lines (fst (devcon_history_push h l m)) = drop 0 (h_lines h @ [l])"
    by (simp add: devcon_history_push_def Let_def)
  then show ?thesis by blast
qed

lemma kmalloc_ok:
  assumes "allocs_ok (Suc k) m"
  shows "fst (kmalloc m) \<noteq> 0" "allocs_ok k (snd (kmalloc m))"
  using allocs_ok_Suc [OF assms] by (auto simp: kmalloc_def)

lemma allocs_ok_less:
  assumes "allocs_ok (Suc k) m"
  shows "allocs_ok k m"
proof -
  have "set (take k (pending m)) \<subseteq> set (take (Suc k) (pending m))"
    by (rule set_take_subset_set_take) simp
  with assms show ?thesis
    by (auto simp: allocs_ok_def list_all_iff)
qed

lemma page_up_line_ok:
  assumes "allocs_ok (Suc (Suc k)) m"
  shows "\<exists>c h' m' e. page_up_line page w a g line (Some h) m = (c, Some h', m') \<and>
           allocs_ok k m' \<and> e \<le> 1 \<and> h_lines h' = drop e (h_lines h @ [line])"
proof -
  define m1 where "m1 = snd (kmalloc m)"
  have k1: "fst (kmalloc m) \<noteq> 0" and a1: "allocs_ok (Suc k) m1"
    unfolding m1_def using kmalloc_ok [OF assms] by simp_all
  have new: "devcon_line_new m = (0, Some devcon_line_zero, m1)"
    using k1 by (simp add: devcon_line_new_def split_def m1_def)
  define r where "r = devcon_line_reserve devcon_line_zero w a g 0 m1"
  have r: "0 \<le> fst r \<and> allocs_ok k (snd (snd r))"
  proof (cases "0 < w")
    case True
    then show ?thesis
      using kmalloc_ok [OF a1]
      by (simp add: r_def devcon_line_reserve_def devcon_line_zero_def Let_def split_def)
  next
    case False
    then show ?thesis
      using allocs_ok_less [OF a1]
      by (simp add: r_def devcon_line_reserve_def devcon_line_zero_def Let_def split_def)
  qed
  define c where "c = devcon_line_set_width (fst (snd r)) (p_width page)"
  define m2 where "m2 = snd (snd r)"
  have up: "page_up_line page w a g line (Some h) m =
      (c, Some (fst (devcon_history_push h line m2)), snd (devcon_history_push h line m2))"
    using r by (simp add: page_up_line_def new r_def [symmetric] split_def Let_def c_def m2_def)
  have "allocs_ok k (snd (devcon_history_push h line m2)) = allocs_ok k m2"
    by (rule allocs_ok_cong) simp
  with r have "allocs_ok k (snd (devcon_history_push h line m2))"
    by (simp add: m2_def)
  with up h_lines_history_push [of h line m2] show ?thesis by auto
qed

lemma drop_drop_append:
  "e \<le> length ys \<Longrightarrow> drop d (drop e ys @ ls) = drop (d + e) (ys @ ls)"
  by (simp add: add.commute)

lemma page_up_loop_ok:
  assumes "allocs_ok (2 * length ls) m"
  shows "\<exists>cs h' m' d. page_up_loop page w a g ls (Some h) m = (cs, Some h', m') \<and>
           length cs = length ls \<and> h_lines h' = drop d (h_lines h @ ls)"
  using assms
proof (induction ls arbitrary: h m)
  case Nil
  show ?case by (auto intro: exI [of _ 0])
next
  case (Cons l ls)
  from Cons.prems have "allocs_ok (Suc (Suc (2 * length ls))) m" by simp
  from page_up_line_ok [OF this, of page w a g l h]
  obtain c h1 m1 e where
    l: "page_up_line page w a g l (Some h) m = (c, Some h1, m1)" and
    a: "allocs_ok (2 * length ls) m1" and e: "e \<le> 1" and
    h1: "h_lines h1 = drop e (h_lines h @ [l])"
    by blast
  from Cons.IH [OF a, of h1]
  obtain cs h2 m2 d where
    r: "page_up_loop page w a g ls (Some h1) m1 = (cs, Some h2, m2)" and
    len: "length cs = length ls" and h2: "h_lines h2 = drop d (h_lines h1 @ ls)"
    by blast
  have "drop d (drop e (h_lines h @ [l]) @ ls) = drop (d + e) ((h_lines h @ [l]) @ ls)"
    using e by (intro drop_drop_append) simp
  then have "h_lines h2 = drop (d + e) (h_lines h @ l # ls)"
    by (simp only: h2 h1 append.assoc append.simps)
  moreover have "page_up_loop page w a g (l # ls) (Some h) m = (c # cs, Some h2, m2)"
    by (simp add: l r)
  ultimately show ?case using len by (intro exI [of _ "c # cs"] exI [of _ h2] exI [of _ m2] exI [of _ "d + e"]) simp
qed

lemma history_pop_fits:
  assumes "line_bounds t" "l_width t = w" "h_lines h = hp @ [t]"
  shows "devcon_history_pop h w a g m =
           (Some t, h\<lparr>h_lines := hp, h_n_lines := h_n_lines h - 1\<rparr>, m)"
proof -
  from assms(1,2) have b: "min (n_cells t) w = w" "\<not> n_cells t < w" "min (fill t) w = fill t"
    by (auto simp: line_bounds_def)
  have r: "devcon_line_reserve t w a g w m = (0, t, m)"
    by (simp add: devcon_line_reserve_def Let_def b)
  from assms(1) have b': "\<not> n_cells t < l_width t" "min (fill t) (l_width t) = fill t"
    by (auto simp: line_bounds_def)
  have "devcon_line_set_width t (l_width t) = t"
    by (simp add: devcon_line_set_width_def Let_def b')
  then have s: "devcon_line_set_width t w = t"
    by (simp only: assms(2))
  show ?thesis
    using assms(2) by (simp add: devcon_history_pop_def assms(3) r s)
qed

lemma page_down_loop_ok:
  assumes "length ls = length ts" "list_all (\<lambda>l. line_bounds l \<and> l_width l = w) ts"
    "h_lines h = hp @ ts"
  shows "\<exists>h' m'. page_down_loop w a g ls (Some h) m = (ts, Some h', m') \<and> h_lines h' = hp"
  using assms
proof (induction ts arbitrary: ls h m rule: rev_induct)
  case Nil
  then show ?case by simp
next
  case (snoc t ts)
  from snoc.prems(1) obtain l ls' where ls: "ls = l # ls'" and len: "length ls' = length ts"
    by (cases ls) auto
  from snoc.prems(2) have t: "line_bounds t" "l_width t = w"
    and ts: "list_all (\<lambda>l. line_bounds l \<and> l_width l = w) ts"
    by simp_all
  from snoc.prems(3) have hl: "h_lines h = (hp @ ts) @ [t]" by simp
  define h0 where "h0 = h\<lparr>h_lines := hp @ ts, h_n_lines := h_n_lines h - 1\<rparr>"
  have d: "page_down_line w a g l (Some h) m = (t, Some h0, devcon_line_free l m)"
    by (simp add: page_down_line_def history_pop_fits [OF t hl] h0_def)
  have "h_lines h0 = hp @ ts" by (simp add: h0_def)
  from snoc.IH [OF len ts this, of "devcon_line_free l m"]
  obtain h' m' where
    "page_down_loop w a g ls' (Some h0) (devcon_line_free l m) = (ts, Some h', m')"
    "h_lines h' = hp"
    by blast
  then have "page_down_loop w a g (l # ls') (Some h) m = (ts @ [t], Some h', m')"
    by (simp add: d)
  with ls \<open>h_lines h' = hp\<close> show ?case by blast
qed

lemma page_up_noop:
  "(if scroll_num p < n then scroll_num p else n) < 1 \<Longrightarrow>
   devcon_page_up p w n a g hist m = (p, hist, m)"
  by (simp add: devcon_page_up_def Let_def)

lemma page_down_noop:
  "(if scroll_num p < n then scroll_num p else n) < 1 \<Longrightarrow>
   devcon_page_down p w n a g hist m = (p, hist, m)"
  by (simp add: devcon_page_down_def Let_def)

lemma page_up_unfold:
  assumes "num = (if scroll_num p < n then scroll_num p else n)" "\<not> num < 1"
    and "region = take (unat (scroll_num p)) (drop (unat (scroll_idx p)) (lines p))"
    and "page_up_loop p (max w (p_width p)) a g (take (unat num) region) hist m = (cache, h1, m1)"
  shows "devcon_page_up p w n a g hist m =
     (p\<lparr>lines := take (unat (scroll_idx p)) (lines p) @
                 (if num < scroll_num p then set_line_ages (drop (unat num) region) g
                  else drop (unat num) region) @
                 cache @ drop (unat (scroll_idx p) + unat (scroll_num p)) (lines p),
        scroll_fill := scroll_fill p - min (scroll_fill p) num\<rparr>, h1, m1)"
  using assms(2,4) unfolding assms(1,3)
  by (simp add: devcon_page_up_def Let_def)

lemma page_down_unfold:
  assumes "num = (if scroll_num p < n then scroll_num p else n)" "\<not> num < 1"
    and "region = take (unat (scroll_num p)) (drop (unat (scroll_idx p)) (lines p))"
    and "page_down_loop (max w (p_width p)) a g
           (rev (drop (unat (scroll_num p) - unat num) region)) hist m = (cache, h1, m1)"
  shows "devcon_page_down p w n a g hist m =
     (p\<lparr>lines := take (unat (scroll_idx p)) (lines p) @ cache @
                 (if num < scroll_num p
                  then set_line_ages (take (unat (scroll_num p) - unat num) region) g
                  else take (unat (scroll_num p) - unat num) region) @
                 drop (unat (scroll_idx p) + unat (scroll_num p)) (lines p),
        scroll_fill := (if 0 < scroll_fill p then min (scroll_num p) (scroll_fill p + num)
                        else scroll_fill p)\<rparr>, h1, m1)"
  using assms(2,4) unfolding assms(1,3)
  by (simp add: devcon_page_down_def Let_def)

lemma list_all_take: "list_all P xs \<Longrightarrow> list_all P (take k xs)"
  by (auto simp: list_all_iff dest: in_set_takeD)

lemma region_parts:
  assumes "length pre = i" "length mid = k"
  shows "take i (pre @ mid @ post) = pre" "take k (drop i (pre @ mid @ post)) = mid"
    "drop (i + k) (pre @ mid @ post) = post"
  using assms by simp_all

lemma cells_set_line_ages [simp]:
  "map cells (set_line_ages ls g) = map cells ls"
  "map l_width (set_line_ages ls g) = map l_width ls"
  "map fill (set_line_ages ls g) = map fill ls"
  "length (set_line_ages ls g) = length ls"
  by (simp_all add: set_line_ages_def comp_def)

text \<open>
  Claim C5. For a page that satisfies \<open>page_wf\<close> and a history: if the allocations of
  \<open>devcon_page_scroll_up\<close> succeed, so that it pushes the \<open>min n scroll_num\<close> lines it
  scrolls out, and the history holds at least that many lines afterwards, then
  \<open>devcon_page_scroll_down\<close> by the same \<open>n\<close> with the same history gives back a page
  whose lines have the cells, widths and fills of the lines before the two calls. (The
  ages of the lines that were moved, and \<open>scroll_fill\<close>, may differ.)
\<close>

theorem scroll_up_down_symmetry:
  assumes wf: "page_wf p"
    and al: "allocs_ok (2 * unat (min n (scroll_num p))) m"
    and up: "devcon_page_scroll_up p n a g (Some h) m = (p1, Some h1, m1)"
    and fit: "unat (min n (scroll_num p)) \<le> length (h_lines h1)"
    and down: "devcon_page_scroll_down p1 n a g (Some h1) m1 = (p2, h2, m2)"
  shows "map cells (lines p2) = map cells (lines p) \<and>
         map l_width (lines p2) = map l_width (lines p) \<and>
         map fill (lines p2) = map fill (lines p) \<and>
         n_lines p2 = n_lines p \<and> height p2 = height p \<and> p_width p2 = p_width p"
proof -
  define num where "num = (if scroll_num p < n then scroll_num p else n)"
  have num_min: "min n (scroll_num p) = num"
    by (auto simp: num_def min_def)
  define idx where "idx = unat (scroll_idx p)"
  define sn where "sn = unat (scroll_num p)"
  define region where "region = take sn (drop idx (lines p))"
  show ?thesis
  proof (cases "num < 1")
    case True
    have "devcon_page_scroll_up p n a g (Some h) m = (p, Some h, m)"
      unfolding devcon_page_scroll_up_def using True unfolding num_def by (rule page_up_noop)
    with up have e: "p1 = p" "h1 = h" "m1 = m" by simp_all
    have "devcon_page_scroll_down p n a g (Some h) m = (p, Some h, m)"
      unfolding devcon_page_scroll_down_def using True unfolding num_def by (rule page_down_noop)
    with down show ?thesis by (simp add: e)
  next
    case False
    from wf have len: "idx + sn \<le> length (lines p)"
      and rg: "list_all (\<lambda>l. line_bounds l \<and> l_width l = p_width p) region"
      by (simp_all add: page_wf_def idx_def sn_def region_def)
    have "num \<le> scroll_num p" by (simp add: num_def not_less)
    then have nle: "unat num \<le> sn" by (simp add: sn_def word_le_nat_alt)
    have lr: "length region = sn" using len by (simp add: region_def)
    define top where "top = take (unat num) region"
    define rest where "rest = drop (unat num) region"
    define pre where "pre = take idx (lines p)"
    define post where "post = drop (idx + sn) (lines p)"
    have lt: "length top = unat num" using nle lr by (simp add: top_def)
    have lrest: "length rest = sn - unat num" using lr by (simp add: rest_def)
    have lpre: "length pre = idx" using len by (simp add: pre_def)
    have reg: "region = top @ rest" by (simp add: top_def rest_def)
    have "region @ post = take sn (drop idx (lines p)) @ drop sn (drop idx (lines p))"
      by (simp add: region_def post_def add.commute)
    then have "drop idx (lines p) = region @ post"
      by (simp only: append_take_drop_id)
    then have "lines p = pre @ region @ post"
      unfolding pre_def by (metis append_take_drop_id)
    then have lines_p: "lines p = pre @ top @ rest @ post"
      by (simp add: reg)
    from al have "allocs_ok (2 * length top) m" by (simp add: num_min lt)
    from page_up_loop_ok [OF this, of p "max (p_width p) (p_width p)" a g h]
    obtain cache h1' m1' d where
      loop: "page_up_loop p (max (p_width p) (p_width p)) a g top (Some h) m =
               (cache, Some h1', m1')" and
      lc: "length cache = length top" and hl: "h_lines h1' = drop d (h_lines h @ top)"
      by blast
    define moved where "moved = (if num < scroll_num p then set_line_ages rest g else rest)"
    have lm: "length moved = sn - unat num" by (simp add: moved_def lrest)
    define q where
      "q = p\<lparr>lines := pre @ moved @ cache @ post,
              scroll_fill := scroll_fill p - min (scroll_fill p) num\<rparr>"
    have up': "devcon_page_scroll_up p n a g (Some h) m = (q, Some h1', m1')"
      unfolding devcon_page_scroll_up_def q_def pre_def moved_def post_def rest_def idx_def sn_def
      by (rule page_up_unfold [OF num_def False _ loop [unfolded top_def]])
         (simp add: region_def sn_def idx_def)
    from up up' have e: "p1 = q" "h1 = h1'" "m1 = m1'" by simp_all
    from fit have "unat num \<le> length (h_lines h1')" by (simp add: num_min e)
    moreover have "0 < unat num"
      using False by (simp add: word_less_1 unat_gt_0)
    moreover have "length (h_lines h1') = length (h_lines h) + unat num - d"
      by (simp add: hl lt)
    ultimately have "d \<le> length (h_lines h)" by arith
    then have hl': "h_lines h1' = drop d (h_lines h) @ top" by (simp add: hl)
    have top_ok: "list_all (\<lambda>l. line_bounds l \<and> l_width l = p_width p) top"
      unfolding top_def by (rule list_all_take [OF rg])
    have "length (rev cache) = length top" by (simp add: lc)
    from page_down_loop_ok [OF this top_ok hl', of a g m1']
    obtain h2' m2' where
      dl: "page_down_loop (p_width p) a g (rev cache) (Some h1') m1' = (top, Some h2', m2')"
      by blast
    have q: "scroll_num q = scroll_num p" "scroll_idx q = scroll_idx p" "p_width q = p_width p"
      "lines q = pre @ (moved @ cache) @ post" "n_lines q = n_lines p" "height q = height p"
      by (simp_all add: q_def)
    have lmc: "length (moved @ cache) = sn" using nle by (simp add: lm lc lt)
    have r1: "moved @ cache = take (unat (scroll_num q)) (drop (unat (scroll_idx q)) (lines q))"
      unfolding q using region_parts(2) [OF lpre lmc] by (simp add: sn_def idx_def)
    have dl': "page_down_loop (max (p_width q) (p_width q)) a g
        (rev (drop (unat (scroll_num q) - unat num) (moved @ cache))) (Some h1') m1' =
        (top, Some h2', m2')"
      using dl lm by (simp add: q sn_def)
    have nq: "num = (if scroll_num q < n then scroll_num q else n)"
      by (simp add: q num_def)
    from page_down_unfold [OF nq False r1 dl'] down
    have "lines p2 = take idx (lines q) @ top @
        (if num < scroll_num p then set_line_ages (take (sn - unat num) (moved @ cache)) g
         else take (sn - unat num) (moved @ cache)) @ drop (idx + sn) (lines q)"
      and f: "n_lines p2 = n_lines p" "height p2 = height p" "p_width p2 = p_width p"
      by (auto simp: devcon_page_scroll_down_def e q idx_def sn_def)
    moreover have "take idx (lines q) = pre" "drop (idx + sn) (lines q) = post"
      unfolding q using region_parts(1,3) [OF lpre lmc] by simp_all
    moreover have "take (sn - unat num) (moved @ cache) = moved"
      using lm by simp
    ultimately have l2: "lines p2 = pre @ top @
        (if num < scroll_num p then set_line_ages moved g else moved) @ post"
      by simp
    show ?thesis
      by (simp add: l2 lines_p moved_def f)
  qed
qed

lemma page_demo_wf: "page_wf page_demo"
  by code_simp

lemma page_demo_up_history:
  "fst (snd page_demo_up) \<noteq> None"
  "unat (min 1 (scroll_num page_demo)) \<le> length (h_lines (the (fst (snd page_demo_up))))"
  by code_simp+

theorem scroll_up_down_symmetry_witness:
  "page_wf page_demo \<and>
   allocs_ok (2 * unat (min 1 (scroll_num page_demo))) kmem64 \<and>
   fst (snd page_demo_up) \<noteq> None \<and>
   unat (min 1 (scroll_num page_demo)) \<le> length (h_lines (the (fst (snd page_demo_up)))) \<and>
   map cells (lines (fst (devcon_page_scroll_down (fst page_demo_up) 1 None 1
       (fst (snd page_demo_up)) (snd (snd page_demo_up))))) = map cells (lines page_demo)"
proof -
  have al: "allocs_ok (2 * unat (min 1 (scroll_num page_demo))) kmem64"
    by (simp add: page_demo_def kmem64_facts)
  from page_demo_up_history(1)
  have s: "fst (snd page_demo_up) = Some (the (fst (snd page_demo_up)))"
    by simp
  have up: "devcon_page_scroll_up page_demo 1 None 1 (Some history_empty) kmem64 =
      (fst page_demo_up, Some (the (fst (snd page_demo_up))), snd (snd page_demo_up))"
    unfolding s [symmetric] by (simp add: page_demo_up_def)
  have down: "devcon_page_scroll_down (fst page_demo_up) 1 None 1
      (Some (the (fst (snd page_demo_up)))) (snd (snd page_demo_up)) =
      (fst (devcon_page_scroll_down (fst page_demo_up) 1 None 1
         (fst (snd page_demo_up)) (snd (snd page_demo_up))),
       fst (snd (devcon_page_scroll_down (fst page_demo_up) 1 None 1
         (fst (snd page_demo_up)) (snd (snd page_demo_up)))),
       snd (snd (devcon_page_scroll_down (fst page_demo_up) 1 None 1
         (fst (snd page_demo_up)) (snd (snd page_demo_up)))))"
    unfolding s [symmetric] by simp
  from scroll_up_down_symmetry [OF page_demo_wf al up page_demo_up_history(2) down]
  show ?thesis
    using page_demo_wf al page_demo_up_history by simp
qed

end
